theory Spec2Isabelle
  imports Main "HOL-Library.Word" "HOL-Library.Signed_Division" "HOL-Library.Monad_Syntax"
begin

unbundle bit_operations_syntax

section \<open>The initializer (Project-6/solution/mkfs.c)\<close>

text \<open>
  The initializer computes with \<open>size_t\<close> and \<open>off_t\<close> values on a 64-bit target; both are
  modelled as 64-bit words, so every sum and product wraps as the C arithmetic does.
  \<open>sizeof(struct wfs_sb)\<close> is 64 on that target (two 8-byte counts, four 8-byte offsets,
  two 4-byte ints and one 8-byte ordinal), \<open>BLOCK_SIZE\<close> is 512.
\<close>

type_synonym size_t = "64 word"

definition BLOCK_SIZE :: int where
  "BLOCK_SIZE = 512"

definition sizeof_wfs_sb :: size_t where
  "sizeof_wfs_sb = 64"

record wfs_sb =
  num_inodes :: size_t
  num_data_blocks :: size_t
  i_bitmap_ptr :: size_t
  d_bitmap_ptr :: size_t
  i_blocks_ptr :: size_t
  d_blocks_ptr :: size_t
  fs_identifier :: int
  sb_raid_mode :: int
  sb_device_order :: int

definition get_aligned_size :: "size_t \<Rightarrow> size_t" where
  "get_aligned_size sz =
     (let remainder = sz mod 32
      in if remainder \<noteq> 0 then sz + (32 - remainder) else sz)"

text \<open>\<open>calculate_layout\<close> fills the four pointers of the superblock and returns the total size.\<close>

definition calculate_layout :: "wfs_sb \<Rightarrow> size_t \<Rightarrow> size_t \<Rightarrow> wfs_sb \<times> size_t" where
  "calculate_layout sb inodes blocks =
     (let layout_start = sizeof_wfs_sb;
          inode_bits = drop_bit 3 (inodes + 7);
          block_bits = drop_bit 3 (blocks + 7);
          sb1 = sb\<lparr>i_bitmap_ptr := layout_start\<rparr>;
          sb2 = sb1\<lparr>d_bitmap_ptr := i_bitmap_ptr sb1 + inode_bits\<rparr>;
          inode_start = d_bitmap_ptr sb2 + block_bits;
          sb3 = sb2\<lparr>i_blocks_ptr := inode_start + (512 - inode_start mod 512)\<rparr>;
          sb4 = (if inode_start mod 512 = 0 then sb3\<lparr>i_blocks_ptr := inode_start\<rparr> else sb3);
          sb5 = sb4\<lparr>d_blocks_ptr := i_blocks_ptr sb4 + inodes * 512\<rparr>
      in (sb5, d_blocks_ptr sb5 + blocks * 512))"

subsection \<open>Command line\<close>

text \<open>
  \<open>atoi\<close> of the C library, as glibc has it: \<open>(int) strtol(nptr, NULL, 10)\<close>. \<open>strtol\<close> skips
  leading white space, reads an optional sign and the decimal digits up to the first other
  character, and returns the number, or \<open>LONG_MAX\<close> or \<open>LONG_MIN\<close> when the number does not
  fit a \<open>long\<close>; the cast keeps the low 32 bits of that. \<open>to_int32\<close> is the conversion of an
  integer to \<open>int\<close>.
\<close>

definition to_int32 :: "int \<Rightarrow> int" where
  "to_int32 v = (let u = v mod 4294967296 in if u \<ge> 2147483648 then u - 4294967296 else u)"

definition isspace :: "char \<Rightarrow> bool" where
  "isspace c = (c \<in> set [CHR '' '', CHR 0x09, CHR 0x0A, CHR 0x0B, CHR 0x0C, CHR 0x0D])"

definition isdigit :: "char \<Rightarrow> bool" where
  "isdigit c = (48 \<le> (of_char c :: nat) \<and> (of_char c :: nat) \<le> 57)"

fun atoi_digits :: "string \<Rightarrow> int \<Rightarrow> int" where
  "atoi_digits [] acc = acc"
| "atoi_digits (c # cs) acc =
     (if isdigit c then atoi_digits cs (acc * 10 + (of_char c - 48)) else acc)"

definition strtol :: "string \<Rightarrow> int" where
  "strtol s =
     (let v = (case dropWhile isspace s of
                 [] \<Rightarrow> 0
               | c # cs \<Rightarrow>
                   if c = CHR ''-'' then - atoi_digits cs 0
                   else if c = CHR ''+'' then atoi_digits cs 0
                   else atoi_digits (c # cs) 0)
      in if v > 9223372036854775807 then 9223372036854775807
         else if v < - 9223372036854775808 then - 9223372036854775808
         else v)"

definition atoi :: "string \<Rightarrow> int" where
  "atoi s = to_int32 (strtol s)"

text \<open>
  \<open>struct disk_state\<close>. The two counts are \<open>size_t\<close> fields: the \<open>int\<close> that \<open>atoi\<close> returns
  is converted on assignment, which is \<open>of_int\<close> on words, so that a negative \<open>int\<close> becomes a
  count of \<open>2^64\<close> minus its magnitude.
\<close>

record disk_state =
  ds_fd :: int
  ds_name :: string
  inode_count :: size_t
  block_count :: size_t
  ds_raid_mode :: int
  ds_device_order :: int
  ds_total_disks :: int
  fs_id :: int

definition MAX_DISK_COUNT :: nat where
  "MAX_DISK_COUNT = 32"

text \<open>
  The argument loop of \<open>main\<close>, on the arguments after \<open>argv[0]\<close>. The result is \<open>Inl code\<close> when
  the loop calls \<open>exit(code)\<close>, and otherwise the parsed state with the descriptors of the
  disks opened so far, in order. \<open>open_disk\<close> stands for \<open>open(value, O_RDWR)\<close>.
  The character tests read \<open>argv[i][0]\<close> and \<open>argv[i][1]\<close>; past the end of a C string they
  read the terminating zero, which matches no flag.
\<close>

definition char_at :: "string \<Rightarrow> nat \<Rightarrow> char" where
  "char_at s i = (if i < length s then s ! i else CHR 0x00)"

fun parse_args :: "(string \<Rightarrow> int) \<Rightarrow> string list \<Rightarrow> disk_state \<Rightarrow> (string \<times> int) list
                     \<Rightarrow> int + (disk_state \<times> (string \<times> int) list)" where
  "parse_args open_disk [] st disks = Inr (st, disks)"
| "parse_args open_disk [flag] st disks = Inl 1"
| "parse_args open_disk (flag # val # rest) st disks =
     (if char_at flag 0 \<noteq> CHR ''-'' then Inl 1
      else if char_at flag 1 = CHR ''r'' then
        (let st' = st\<lparr>ds_raid_mode := atoi val\<rparr>
         in if ds_raid_mode st' \<noteq> 0 \<and> ds_raid_mode st' \<noteq> 1 then Inl 1
            else parse_args open_disk rest st' disks)
      else if char_at flag 1 = CHR ''i'' then
        (let st' = st\<lparr>inode_count := of_int (atoi val)\<rparr>
         in if inode_count st' \<le> 0 then Inl 1
            else parse_args open_disk rest st' disks)
      else if char_at flag 1 = CHR ''b'' then
        (let st' = st\<lparr>block_count := of_int (atoi val)\<rparr>
         in if block_count st' \<le> 0 then Inl 1
            else parse_args open_disk rest st' disks)
      else if char_at flag 1 = CHR ''d'' then
        (if length disks \<ge> MAX_DISK_COUNT then Inl 1
         else if open_disk val < 0 then Inl 1
         else parse_args open_disk rest st (disks @ [(val, open_disk val)]))
      else Inl 1)"

text \<open>
  \<open>create_filesystem\<close> on one disk: only what decides its status is kept here, the size of
  the image against the size of the layout; \<open>st_size\<close> is \<open>None\<close> when \<open>fstat\<close> fails, and the
  three \<open>pwrite\<close> calls are taken to write in full.
\<close>

definition WFS_OK :: int where "WFS_OK = 0"
definition WFS_ERROR :: int where "WFS_ERROR = - 1"

definition empty_sb :: wfs_sb where
  "empty_sb = \<lparr>num_inodes = 0, num_data_blocks = 0, i_bitmap_ptr = 0, d_bitmap_ptr = 0,
     i_blocks_ptr = 0, d_blocks_ptr = 0, fs_identifier = 0, sb_raid_mode = 0,
     sb_device_order = 0\<rparr>"

definition create_filesystem_sb :: "disk_state \<Rightarrow> wfs_sb \<times> size_t" where
  "create_filesystem_sb disk =
     calculate_layout
       (empty_sb\<lparr>num_inodes := inode_count disk, num_data_blocks := block_count disk,
          fs_identifier := fs_id disk, sb_raid_mode := ds_raid_mode disk,
          sb_device_order := ds_device_order disk\<rparr>)
       (inode_count disk) (block_count disk)"

definition create_filesystem :: "(int \<Rightarrow> size_t option) \<Rightarrow> disk_state \<Rightarrow> int" where
  "create_filesystem st_size disk =
     (case st_size (ds_fd disk) of
        None \<Rightarrow> WFS_ERROR
      | Some sz \<Rightarrow>
          if sz < snd (create_filesystem_sb disk) then WFS_ERROR else WFS_OK)"

fun create_all :: "(int \<Rightarrow> size_t option) \<Rightarrow> disk_state \<Rightarrow> (string \<times> int) list \<Rightarrow> int \<Rightarrow> int" where
  "create_all st_size st [] i = 0"
| "create_all st_size st ((nm, fd) # ds) i =
     (if create_filesystem st_size (st\<lparr>ds_fd := fd, ds_name := nm, ds_device_order := i\<rparr>) \<noteq> WFS_OK
      then 255
      else create_all st_size st ds (i + 1))"

definition empty_disk_state :: disk_state where
  "empty_disk_state = \<lparr>ds_fd = 0, ds_name = [], inode_count = 0, block_count = 0,
     ds_raid_mode = 0, ds_device_order = 0, ds_total_disks = 0, fs_id = 0\<rparr>"

text \<open>
  \<open>main\<close> of mkfs.c, returning the exit status of the process (\<open>exit(-1)\<close> is status 255).
  \<open>now\<close> is the value of \<open>time(NULL)\<close>. \<open>align_state\<close> is the state as the lines between the
  validation and the loop over the disks leave it: both counts aligned, the number of disks
  and the identifier set; it is the state that every call of \<open>create_filesystem\<close> gets, with
  the descriptor, the name and the ordinal of its disk.
\<close>

definition align_state :: "disk_state \<Rightarrow> nat \<Rightarrow> int \<Rightarrow> disk_state" where
  "align_state st disk_count now =
     (let st1 = st\<lparr>inode_count := get_aligned_size (inode_count st)\<rparr>;
          st2 = st1\<lparr>block_count := get_aligned_size (block_count st1)\<rparr>;
          st3 = st2\<lparr>ds_total_disks := int disk_count\<rparr>
      in st3\<lparr>fs_id := to_int32 now\<rparr>)"

definition mkfs_main :: "(string \<Rightarrow> int) \<Rightarrow> (int \<Rightarrow> size_t option) \<Rightarrow> int \<Rightarrow> string list \<Rightarrow> int" where
  "mkfs_main open_disk st_size now argv =
     (case parse_args open_disk (tl argv) empty_disk_state [] of
        Inl code \<Rightarrow> code
      | Inr (st, disks) \<Rightarrow>
          if length disks < 2 \<or> inode_count st = 0 \<or> block_count st = 0 then 1
          else create_all st_size (align_state st (length disks) now) disks 0)"

text \<open>
  Both roundings of mkfs.c (to 32 in \<open>get_aligned_size\<close>, to \<open>BLOCK_SIZE\<close> in
  \<open>calculate_layout\<close>) have the same shape; \<open>round_up\<close> names it for the proofs.
\<close>

definition round_up :: "size_t \<Rightarrow> size_t \<Rightarrow> size_t" where
  "round_up k w = (if w mod k = 0 then w else w + (k - w mod k))"

section \<open>The file system server (Project-6/solution/wfs.c)\<close>

subsection \<open>Mapped disk images\<close>

text \<open>
  Every disk image is mapped into memory and the code reads and writes it through raw pointers
  with structs laid over the bytes. A region is therefore a function from byte offsets to
  bytes, and each field access is a load or store of little-endian bytes at the offset the
  64-bit ABI gives the field (wfs.h):
  \<^item> \<open>struct wfs_sb\<close>: \<open>num_inodes\<close> 0, \<open>num_data_blocks\<close> 8, \<open>i_bitmap_ptr\<close> 16,
    \<open>d_bitmap_ptr\<close> 24, \<open>i_blocks_ptr\<close> 32, \<open>d_blocks_ptr\<close> 40, \<open>fs_identifier\<close> 48,
    \<open>raid_mode\<close> 52, \<open>device_order\<close> 56;
  \<^item> \<open>struct wfs_inode\<close>: \<open>num\<close> 0, \<open>mode\<close> 4, \<open>uid\<close> 8, \<open>gid\<close> 12, \<open>size\<close> 16, \<open>nlinks\<close> 24,
    \<open>atim\<close> 32, \<open>mtim\<close> 40, \<open>ctim\<close> 48, \<open>blocks[i]\<close> 56 + 8 i;
  \<^item> \<open>struct wfs_dentry\<close>: \<open>name\<close> 0 (28 bytes), \<open>num\<close> 28.
  Signed C values (\<open>int\<close>, \<open>off_t\<close>) are integers; a store keeps the low 32 or 64 bits, so a
  value that does not fit wraps as it does in memory. Offsets are not checked against the
  length of the mapping.
\<close>

type_synonym byte = "8 word"
type_synonym region = "int \<Rightarrow> byte"

definition le32 :: "region \<Rightarrow> int \<Rightarrow> int" where
  "le32 m a = uint (m a) + 256 * uint (m (a + 1)) + 65536 * uint (m (a + 2))
              + 16777216 * uint (m (a + 3))"

definition le64 :: "region \<Rightarrow> int \<Rightarrow> int" where
  "le64 m a = le32 m a + 4294967296 * le32 m (a + 4)"

definition load_int :: "region \<Rightarrow> int \<Rightarrow> int" where
  "load_int m a = (let u = le32 m a in if u \<ge> 2147483648 then u - 4294967296 else u)"

definition load_u32 :: "region \<Rightarrow> int \<Rightarrow> 32 word" where
  "load_u32 m a = word_of_int (le32 m a)"

definition load_off :: "region \<Rightarrow> int \<Rightarrow> int" where
  "load_off m a = (let u = le64 m a in if u \<ge> 9223372036854775808 then u - 18446744073709551616 else u)"

definition load_size :: "region \<Rightarrow> int \<Rightarrow> int" where
  "load_size m a = le64 m a"

definition store32 :: "region \<Rightarrow> int \<Rightarrow> int \<Rightarrow> region" where
  "store32 m a v = m(a := of_int v, a + 1 := of_int (v div 256), a + 2 := of_int (v div 65536),
                     a + 3 := of_int (v div 16777216))"

definition store64 :: "region \<Rightarrow> int \<Rightarrow> int \<Rightarrow> region" where
  "store64 m a v = store32 (store32 m a v) (a + 4) (v div 4294967296)"

definition store_bytes :: "region \<Rightarrow> int \<Rightarrow> byte list \<Rightarrow> region" where
  "store_bytes m a bs = (\<lambda>x. if a \<le> x \<and> x < a + int (length bs) then bs ! nat (x - a) else m x)"

fun load_bytes :: "region \<Rightarrow> int \<Rightarrow> nat \<Rightarrow> byte list" where
  "load_bytes m a 0 = []"
| "load_bytes m a (Suc n) = m a # load_bytes m (a + 1) n"

text \<open>
  C conversions between the integer types that the code mixes; \<open>to_int32\<close>, to \<open>int\<close>, is with
  the initializer above.
\<close>

definition to_int64 :: "int \<Rightarrow> int" where
  "to_int64 v = (let u = v mod 18446744073709551616
                 in if u \<ge> 9223372036854775808 then u - 18446744073709551616 else u)"

definition to_size_t :: "int \<Rightarrow> int" where
  "to_size_t v = v mod 18446744073709551616"

definition D_BLOCK :: int where "D_BLOCK = 6"
definition IND_BLOCK :: int where "IND_BLOCK = D_BLOCK + 1"
definition N_BLOCKS :: int where "N_BLOCKS = IND_BLOCK + 1"
definition RAID0 :: int where "RAID0 = 0"
definition RAID1 :: int where "RAID1 = 1"
definition RAID1V :: int where "RAID1V = 2"
definition ENOENT :: int where "ENOENT = 2"
definition EIO :: int where "EIO = 5"
definition EINVAL :: int where "EINVAL = 22"
definition ENOSPC :: int where "ENOSPC = 28"

definition sb_num_inodes :: "region \<Rightarrow> int" where "sb_num_inodes m = load_size m 0"
definition sb_num_data_blocks :: "region \<Rightarrow> int" where "sb_num_data_blocks m = load_size m 8"
definition sb_i_bitmap_ptr :: "region \<Rightarrow> int" where "sb_i_bitmap_ptr m = load_off m 16"
definition sb_d_bitmap_ptr :: "region \<Rightarrow> int" where "sb_d_bitmap_ptr m = load_off m 24"
definition sb_i_blocks_ptr :: "region \<Rightarrow> int" where "sb_i_blocks_ptr m = load_off m 32"
definition sb_d_blocks_ptr :: "region \<Rightarrow> int" where "sb_d_blocks_ptr m = load_off m 40"

definition off_num :: int where "off_num = 0"
definition off_mode :: int where "off_mode = 4"
definition off_size :: int where "off_size = 16"
definition off_nlinks :: int where "off_nlinks = 24"
definition off_blocks :: "int \<Rightarrow> int" where "off_blocks i = 56 + 8 * i"
definition off_dentry_num :: int where "off_dentry_num = 28"
definition MAX_NAME :: nat where "MAX_NAME = 28"
definition sizeof_wfs_dentry :: int where "sizeof_wfs_dentry = 32"

subsection \<open>Globals and pointers\<close>

text \<open>
  The globals of wfs.c. A pointer into a mapped image is the index of the image in
  \<open>fs_memory_regions\<close> and the byte offset in it; \<open>NULL\<close> is a value of its own. The functions
  below return \<open>None\<close> where the C program does not return: a dereference of \<open>NULL\<close>, an
  access through an entry of \<open>fs_memory_regions\<close> that was never mapped, a division by zero.
\<close>

record fs =
  fs_memory_regions :: "region list"
  raid_mode :: int
  total_devices :: int
  error_code :: int

datatype cptr = NULL | Ptr int int

fun ptr_add :: "cptr \<Rightarrow> int \<Rightarrow> cptr" where
  "ptr_add NULL k = NULL"
| "ptr_add (Ptr d a) k = Ptr d (a + k)"

definition region :: "fs \<Rightarrow> int \<Rightarrow> region option" where
  "region s d = (if 0 \<le> d \<and> d < int (length (fs_memory_regions s))
                 then Some (fs_memory_regions s ! nat d) else None)"

definition set_region :: "fs \<Rightarrow> int \<Rightarrow> region \<Rightarrow> fs" where
  "set_region s d m = s\<lparr>fs_memory_regions := (fs_memory_regions s)[nat d := m]\<rparr>"

fun rd_int :: "fs \<Rightarrow> cptr \<Rightarrow> int option" where
  "rd_int s NULL = None"
| "rd_int s (Ptr d a) = map_option (\<lambda>m. load_int m a) (region s d)"

fun rd_off :: "fs \<Rightarrow> cptr \<Rightarrow> int option" where
  "rd_off s NULL = None"
| "rd_off s (Ptr d a) = map_option (\<lambda>m. load_off m a) (region s d)"

fun rd_bytes :: "fs \<Rightarrow> cptr \<Rightarrow> nat \<Rightarrow> byte list option" where
  "rd_bytes s NULL n = None"
| "rd_bytes s (Ptr d a) n = map_option (\<lambda>m. load_bytes m a n) (region s d)"

fun wr_int :: "fs \<Rightarrow> cptr \<Rightarrow> int \<Rightarrow> fs option" where
  "wr_int s NULL v = None"
| "wr_int s (Ptr d a) v = map_option (\<lambda>m. set_region s d (store32 m a v)) (region s d)"

fun wr_off :: "fs \<Rightarrow> cptr \<Rightarrow> int \<Rightarrow> fs option" where
  "wr_off s NULL v = None"
| "wr_off s (Ptr d a) v = map_option (\<lambda>m. set_region s d (store64 m a v)) (region s d)"

fun wr_bytes :: "fs \<Rightarrow> cptr \<Rightarrow> byte list \<Rightarrow> fs option" where
  "wr_bytes s NULL bs = None"
| "wr_bytes s (Ptr d a) bs = map_option (\<lambda>m. set_region s d (store_bytes m a bs)) (region s d)"

text \<open>A loop \<open>for (int i = 0; i < n; i++)\<close> whose body may stop the program.\<close>

fun for_each :: "int list \<Rightarrow> (int \<Rightarrow> 's \<Rightarrow> 's option) \<Rightarrow> 's \<Rightarrow> 's option" where
  "for_each [] body s = Some s"
| "for_each (i # is) body s = (case body i s of None \<Rightarrow> None | Some s' \<Rightarrow> for_each is body s')"

subsection \<open>Bitmaps, inodes and blocks\<close>

definition release_bitmap :: "region \<Rightarrow> 32 word \<Rightarrow> int \<Rightarrow> region" where
  "release_bitmap m position bitmap =
     (let mask = NOT (push_bit (unat (position AND 31)) (1 :: 32 word));
          a = bitmap + 4 * uint (drop_bit 5 position)
      in store32 m a (uint (load_u32 m a AND mask)))"

text \<open>
  \<open>release_block\<close> zeroes the block, then computes the bit from the superblock as it is after
  the \<open>memset\<close>.
\<close>

definition release_block :: "fs \<Rightarrow> int \<Rightarrow> int \<Rightarrow> fs option" where
  "release_block s blk disk =
     (case region s disk of
        None \<Rightarrow> None
      | Some m \<Rightarrow>
          let m1 = store_bytes m blk (replicate 512 0);
              position = (word_of_int ((blk - sb_d_blocks_ptr m1) sdiv BLOCK_SIZE) :: 32 word)
          in Some (set_region s disk (release_bitmap m1 position (sb_d_bitmap_ptr m1))))"

text \<open>
  \<open>release_inode\<close>: the bit position is computed from the offset of the inode in the image
  \<^emph>\<open>plus\<close> \<open>i_blocks_ptr\<close>, as the source has it. The pointer difference is only defined for an
  inode of the same image.
\<close>

fun release_inode :: "fs \<Rightarrow> cptr \<Rightarrow> int \<Rightarrow> fs option" where
  "release_inode s NULL disk = None"
| "release_inode s (Ptr d a) disk =
     (case region s disk of
        None \<Rightarrow> None
      | Some m \<Rightarrow>
          if d \<noteq> disk then None
          else
            let m1 = store_bytes m a (replicate 512 0);
                bit_position = (word_of_int ((a + sb_i_blocks_ptr m1) sdiv BLOCK_SIZE) :: 32 word)
            in Some (set_region s disk (release_bitmap m1 bit_position (sb_i_bitmap_ptr m1))))"

text \<open>\<open>get_inode\<close>; a negative number would shift by a negative count, which C leaves undefined.\<close>

definition get_inode :: "fs \<Rightarrow> int \<Rightarrow> int \<Rightarrow> cptr option" where
  "get_inode s num disk =
     (case region s disk of
        None \<Rightarrow> None
      | Some m \<Rightarrow>
          if num < 0 then None
          else
            let bitmap = sb_i_bitmap_ptr m; block = num sdiv 32; position = num smod 32
            in if load_u32 m (bitmap + 4 * block) AND push_bit (nat position) 1 \<noteq> 0
               then Some (Ptr disk (sb_i_blocks_ptr m + num * BLOCK_SIZE))
               else Some NULL)"

text \<open>The inner loop of \<open>allocate_bitmap_block\<close>: the lowest clear bit of a word, from bit \<open>b\<close> on.\<close>

fun first_clear_bit :: "32 word \<Rightarrow> nat \<Rightarrow> nat \<Rightarrow> nat option" where
  "first_clear_bit w b 0 = None"
| "first_clear_bit w b (Suc n) =
     (if w AND push_bit b 1 = 0 then Some b else first_clear_bit w (Suc b) n)"

text \<open>
  \<open>allocate_bitmap_block\<close>, with the words still to scan counted down; the result is the bit
  number and the image with the bit set, or \<open>-1\<close>.
\<close>

fun allocate_bitmap_scan :: "region \<Rightarrow> int \<Rightarrow> int \<Rightarrow> nat \<Rightarrow> int \<times> region" where
  "allocate_bitmap_scan m bitmap word_idx 0 = (- 1, m)"
| "allocate_bitmap_scan m bitmap word_idx (Suc n) =
     (let w = load_u32 m (bitmap + 4 * word_idx)
      in if w \<noteq> 0xFFFFFFFF then
           (case first_clear_bit w 0 32 of
              Some b \<Rightarrow>
                (word_idx * 32 + int b,
                 store32 m (bitmap + 4 * word_idx) (uint (w OR push_bit b 1)))
            | None \<Rightarrow> allocate_bitmap_scan m bitmap (word_idx + 1) n)
         else allocate_bitmap_scan m bitmap (word_idx + 1) n)"

definition allocate_bitmap_block :: "region \<Rightarrow> int \<Rightarrow> int \<Rightarrow> int \<times> region" where
  "allocate_bitmap_block m bitmap len = allocate_bitmap_scan m bitmap 0 (nat len)"

definition allocate_block :: "fs \<Rightarrow> int \<Rightarrow> (int \<times> fs) option" where
  "allocate_block s disk =
     (case region s disk of
        None \<Rightarrow> None
      | Some m \<Rightarrow>
          let (block_num, m1) = allocate_bitmap_block m (sb_d_bitmap_ptr m) (sb_num_data_blocks m div 32)
          in if block_num < 0 then Some (0, set_region s disk m1)
             else Some (sb_d_blocks_ptr m1 + BLOCK_SIZE * block_num, set_region s disk m1))"

definition create_inode :: "fs \<Rightarrow> int \<Rightarrow> (cptr \<times> fs) option" where
  "create_inode s disk =
     (case region s disk of
        None \<Rightarrow> None
      | Some m \<Rightarrow>
          let (block_num, m1) = allocate_bitmap_block m (sb_i_bitmap_ptr m) (sb_num_inodes m div 32)
          in if block_num < 0 then Some (NULL, (set_region s disk m1)\<lparr>error_code := - ENOSPC\<rparr>)
             else
               let a = sb_i_blocks_ptr m1 + BLOCK_SIZE * block_num
               in Some (Ptr disk a, set_region s disk (store32 m1 (a + off_num) block_num)))"

text \<open>
  \<open>setup_inode\<close>; the user, the group and the clock are those of the calling process and are
  parameters here.
\<close>

fun setup_inode :: "int \<Rightarrow> int \<Rightarrow> int \<Rightarrow> fs \<Rightarrow> cptr \<Rightarrow> int \<Rightarrow> fs option" where
  "setup_inode uid gid curr_time s NULL mode = None"
| "setup_inode uid gid curr_time s (Ptr d a) mode =
     (case region s d of
        None \<Rightarrow> None
      | Some m \<Rightarrow>
          Some (set_region s d
            (store64 (store64 (store64 (store32 (store64 (store32 (store32 (store32 m
               (a + off_mode) mode) (a + 8) uid) (a + 12) gid) (a + off_size) 0)
               (a + off_nlinks) 1) (a + 32) curr_time) (a + 40) curr_time) (a + 48) curr_time)))"

subsection \<open>Block resolution\<close>

text \<open>The loops of the striping branch that write a new pointer into the inode copy of every disk.\<close>

definition disk_range :: "int \<Rightarrow> int list" where
  "disk_range n = map int [0..<nat n]"

definition alloc_indirect_all :: "fs \<Rightarrow> cptr \<Rightarrow> fs option" where
  "alloc_indirect_all s inode =
     for_each (disk_range (total_devices s))
       (\<lambda>i s. do {
          n \<leftarrow> rd_int s (ptr_add inode off_num);
          w \<leftarrow> get_inode s n i;
          (b, s1) \<leftarrow> allocate_block s i;
          wr_off s1 (ptr_add w (off_blocks IND_BLOCK)) b
        }) s"

definition store_block_all :: "fs \<Rightarrow> cptr \<Rightarrow> bool \<Rightarrow> int \<Rightarrow> int \<Rightarrow> fs option" where
  "store_block_all s inode indirect block_num new_block_offset =
     for_each (disk_range (total_devices s))
       (\<lambda>i s. do {
          n \<leftarrow> rd_int s (ptr_add inode off_num);
          w \<leftarrow> get_inode s n i;
          if indirect then do {
            ind \<leftarrow> rd_off s (ptr_add w (off_blocks IND_BLOCK));
            wr_off s (Ptr i (ind + 8 * block_num)) new_block_offset
          } else wr_off s (ptr_add w (off_blocks block_num)) new_block_offset
        }) s"

text \<open>
  \<open>get_block_location\<close>. \<open>block_num\<close> is an \<open>int\<close> and the bound \<open>D_BLOCK + BLOCK_SIZE / sizeof(off_t)\<close>
  is a \<open>size_t\<close>, so the range test compares unsigned values and a negative number fails it.
  The result is the returned pointer, \<open>NULL\<close> included, with the globals as the call leaves them.
\<close>

definition get_block_location :: "fs \<Rightarrow> cptr \<Rightarrow> int \<Rightarrow> bool \<Rightarrow> int \<Rightarrow> (cptr \<times> fs) option" where
  "get_block_location s inode offset alloc disk =
     (let block_num = to_int32 (offset sdiv BLOCK_SIZE)
      in if to_size_t block_num > D_BLOCK + BLOCK_SIZE div 8 then Some (NULL, s)
         else if raid_mode s = RAID0 then
           (if total_devices s = 0 then None
            else
              let target_disk = block_num smod total_devices s
              in do {
                (blocks, bn, s1) \<leftarrow>
                  (if block_num > D_BLOCK then do {
                     ind \<leftarrow> rd_off s (ptr_add inode (off_blocks IND_BLOCK));
                     s1 \<leftarrow> (if ind = 0 then alloc_indirect_all s inode else Some s);
                     ind1 \<leftarrow> rd_off s1 (ptr_add inode (off_blocks IND_BLOCK));
                     Some (Ptr disk ind1, block_num - IND_BLOCK, s1)
                   } else Some (ptr_add inode (off_blocks 0), block_num, s));
                cur \<leftarrow> rd_off s1 (ptr_add blocks (8 * bn));
                s2 \<leftarrow>
                  (if alloc \<and> cur = 0 then do {
                     (new_block_offset, s') \<leftarrow> allocate_block s1 target_disk;
                     store_block_all s' inode (blocks \<noteq> ptr_add inode (off_blocks 0)) bn
                       new_block_offset
                   } else Some s1);
                v \<leftarrow> rd_off s2 (ptr_add blocks (8 * bn));
                Some (Ptr target_disk (v + offset smod BLOCK_SIZE), s2)
              })
         else do {
           (blocks, bn, s1) \<leftarrow>
             (if block_num > D_BLOCK then do {
                ind \<leftarrow> rd_off s (ptr_add inode (off_blocks IND_BLOCK));
                s1 \<leftarrow>
                  (if ind = 0 then do {
                     (b, s') \<leftarrow> allocate_block s disk;
                     wr_off s' (ptr_add inode (off_blocks IND_BLOCK)) b
                   } else Some s);
                ind1 \<leftarrow> rd_off s1 (ptr_add inode (off_blocks IND_BLOCK));
                Some (Ptr disk ind1, block_num - IND_BLOCK, s1)
              } else Some (ptr_add inode (off_blocks 0), block_num, s));
           cur \<leftarrow> rd_off s1 (ptr_add blocks (8 * bn));
           s2 \<leftarrow>
             (if alloc \<and> cur = 0 then do {
                (b, s') \<leftarrow> allocate_block s1 disk;
                wr_off s' (ptr_add blocks (8 * bn)) b
              } else Some s1);
           v \<leftarrow> rd_off s2 (ptr_add blocks (8 * bn));
           if v = 0 then Some (NULL, s2)
           else Some (Ptr disk (v + offset smod BLOCK_SIZE), s2)
         })"

subsection \<open>Paths and directories\<close>

text \<open>
  \<open>strcmp(p, str) == 0\<close> for a string \<open>str\<close> without zero bytes: the bytes at \<open>p\<close> are those of
  \<open>str\<close> followed by a zero. \<open>strncpy(dst, name, n)\<close> writes \<open>n\<close> bytes: the name, cut or
  padded with zeros.
\<close>

definition strcmp_eq :: "fs \<Rightarrow> cptr \<Rightarrow> string \<Rightarrow> bool option" where
  "strcmp_eq s p str =
     map_option (\<lambda>bs. bs = map of_char str @ [0]) (rd_bytes s p (length str + 1))"

definition strncpy_bytes :: "string \<Rightarrow> nat \<Rightarrow> byte list" where
  "strncpy_bytes name n = take n (map of_char name @ replicate n 0)"

text \<open>
  The search loop of \<open>locate_inode\<close>: the number stored in the first used entry whose name is
  \<open>next\<close>, or \<open>-1\<close>. \<open>sz\<close> is the directory size as the \<open>size_t\<close> the loop compares with.
\<close>

function lookup_dentry :: "fs \<Rightarrow> cptr \<Rightarrow> string \<Rightarrow> int \<Rightarrow> int \<Rightarrow> int \<Rightarrow> (int \<times> fs) option" where
  "lookup_dentry s enclosing next disk sz off =
     (if off < sz then
        (case get_block_location s enclosing off False disk of
           None \<Rightarrow> None
         | Some (dentries, s1) \<Rightarrow>
             (case rd_int s1 (ptr_add dentries off_dentry_num) of
                None \<Rightarrow> None
              | Some num \<Rightarrow>
                  (case (if num \<noteq> 0 then strcmp_eq s1 dentries next else Some False) of
                     None \<Rightarrow> None
                   | Some eq \<Rightarrow>
                       if num \<noteq> 0 \<and> eq then Some (num, s1)
                       else lookup_dentry s1 enclosing next disk sz (off + sizeof_wfs_dentry))))
      else Some (- 1, s))"
  by pat_completeness auto
termination
  by (relation "measure (\<lambda>(s, enclosing, nxt, disk, sz, off). nat (sz - off))")
     (auto simp: sizeof_wfs_dentry_def)

text \<open>
  \<open>locate_inode\<close>. The result is \<open>Some p\<close> with the pointer stored through the out-parameter
  when the function returns 0 (the pointer may be \<open>NULL\<close>), and \<open>None\<close> when it returns \<open>-1\<close>.
\<close>

definition path_next :: "string \<Rightarrow> string" where
  "path_next path = takeWhile (\<lambda>c. c \<noteq> CHR ''/'') path"

definition path_rest :: "string \<Rightarrow> string" where
  "path_rest path =
     (case dropWhile (\<lambda>c. c \<noteq> CHR ''/'') path of [] \<Rightarrow> [] | c # cs \<Rightarrow> cs)"

function locate_inode :: "fs \<Rightarrow> cptr \<Rightarrow> string \<Rightarrow> int \<Rightarrow> (cptr option \<times> fs) option" where
  "locate_inode s enclosing path disk =
     (if path = [] then Some (Some enclosing, s)
      else
        (case rd_off s (ptr_add enclosing off_size) of
           None \<Rightarrow> None
         | Some sz \<Rightarrow>
             (case lookup_dentry s enclosing (path_next path) disk (to_size_t sz) 0 of
                None \<Rightarrow> None
              | Some (inum, s1) \<Rightarrow>
                  if inum < 0 then Some (None, s1\<lparr>error_code := - ENOENT\<rparr>)
                  else
                    (case get_inode s1 inum disk of
                       None \<Rightarrow> None
                     | Some e \<Rightarrow> locate_inode s1 e (path_rest path) disk))))"
  by pat_completeness auto
termination
proof (relation "measure (\<lambda>(s, enclosing, path, disk). length path)")
  show "wf (measure (\<lambda>(s, enclosing, path, disk). length path))" by simp
next
  fix s :: fs and enclosing :: cptr and path :: string and disk :: int
    and s1 :: fs and e :: cptr
  assume "path \<noteq> []"
  define d where "d = dropWhile (\<lambda>c. c \<noteq> CHR ''/'') path"
  have le: "length d \<le> length path"
    unfolding d_def by (rule length_dropWhile_le)
  have "path_rest path = (case d of [] \<Rightarrow> [] | c # cs \<Rightarrow> cs)"
    by (simp add: path_rest_def d_def)
  then have "length (path_rest path) < length path"
    using le \<open>path \<noteq> []\<close> by (cases d) auto
  then show "((s1, e, path_rest path, disk), (s, enclosing, path, disk))
               \<in> measure (\<lambda>(s, enclosing, path, disk). length path)"
    by simp
qed

definition find_inode_by_path :: "fs \<Rightarrow> string \<Rightarrow> int \<Rightarrow> (cptr option \<times> fs) option" where
  "find_inode_by_path s path disk =
     (case get_inode s 0 disk of
        None \<Rightarrow> None
      | Some root \<Rightarrow>
          if root = NULL then Some (None, s) else locate_inode s root (tl path) disk)"

text \<open>
  The two places of \<open>insert_dir_entry\<close> that count the new link differ only in whether the
  directory also grows by a block; \<open>add_link\<close> is that code, on every disk under striping and
  on the given inode otherwise.
\<close>

definition add_link_one :: "bool \<Rightarrow> fs \<Rightarrow> cptr \<Rightarrow> fs option" where
  "add_link_one grow s w = do {
     k \<leftarrow> rd_int s (ptr_add w off_nlinks);
     s1 \<leftarrow> wr_int s (ptr_add w off_nlinks) (k + 1);
     if grow then do {
       z \<leftarrow> rd_off s1 (ptr_add w off_size);
       wr_off s1 (ptr_add w off_size) (z + BLOCK_SIZE)
     } else Some s1
   }"

definition add_link :: "fs \<Rightarrow> cptr \<Rightarrow> bool \<Rightarrow> fs option" where
  "add_link s parent_inode grow =
     (if raid_mode s = RAID0 then
        for_each (disk_range (total_devices s))
          (\<lambda>i s. do {
             n \<leftarrow> rd_int s (ptr_add parent_inode off_num);
             w \<leftarrow> get_inode s n i;
             add_link_one grow s w
           }) s
      else add_link_one grow s parent_inode)"

definition fill_dentry :: "fs \<Rightarrow> cptr \<Rightarrow> int \<Rightarrow> string \<Rightarrow> fs option" where
  "fill_dentry s dentries num name = do {
     s1 \<leftarrow> wr_int s (ptr_add dentries off_dentry_num) num;
     wr_bytes s1 dentries (strncpy_bytes name MAX_NAME)
   }"

text \<open>
  The first loop of \<open>insert_dir_entry\<close>; it reads the size of the directory from memory at every
  round. The result says whether a free slot was found and filled.
\<close>

partial_function (option) insert_scan ::
    "fs \<Rightarrow> cptr \<Rightarrow> int \<Rightarrow> string \<Rightarrow> int \<Rightarrow> int \<Rightarrow> (bool \<times> fs) option" where
  "insert_scan s parent_inode num name disk offset =
     Option.bind (rd_off s (ptr_add parent_inode off_size)) (\<lambda>sz.
       if offset < sz then
         Option.bind (get_block_location s parent_inode offset False disk) (\<lambda>r.
           Option.bind (rd_int (snd r) (ptr_add (fst r) off_dentry_num)) (\<lambda>n.
             if n = 0 then
               Option.bind (fill_dentry (snd r) (fst r) num name) (\<lambda>s2.
                 Option.bind (add_link s2 parent_inode False) (\<lambda>s3. Some (True, s3)))
             else insert_scan (snd r) parent_inode num name disk (offset + sizeof_wfs_dentry)))
       else Some (False, s))"

definition insert_dir_entry :: "fs \<Rightarrow> cptr \<Rightarrow> int \<Rightarrow> string \<Rightarrow> int \<Rightarrow> (int \<times> fs) option" where
  "insert_dir_entry s parent_inode num name disk = do {
     (found, s1) \<leftarrow> insert_scan s parent_inode num name disk 0;
     if found then Some (0, s1)
     else do {
       sz \<leftarrow> rd_off s1 (ptr_add parent_inode off_size);
       (dentries, s2) \<leftarrow> get_block_location s1 parent_inode sz True disk;
       if dentries = NULL then Some (- 1, s2)
       else do {
         s3 \<leftarrow> fill_dentry s2 dentries num name;
         s4 \<leftarrow> add_link s3 parent_inode True;
         Some (0, s4)
       }
     }
   }"

text \<open>The loop of \<open>delete_dir_entry\<close>, and the function.\<close>

function delete_scan :: "fs \<Rightarrow> cptr \<Rightarrow> int \<Rightarrow> int \<Rightarrow> int \<Rightarrow> int \<Rightarrow> (int \<times> fs) option" where
  "delete_scan s inode inum disk sz off =
     (if off < sz then
        (case get_block_location s inode off False disk of
           None \<Rightarrow> None
         | Some (dentries, s1) \<Rightarrow>
             (case rd_int s1 (ptr_add dentries off_dentry_num) of
                None \<Rightarrow> None
              | Some n \<Rightarrow>
                  if n = inum then
                    map_option (\<lambda>s2. (0, s2)) (wr_int s1 (ptr_add dentries off_dentry_num) 0)
                  else delete_scan s1 inode inum disk sz (off + sizeof_wfs_dentry)))
      else Some (- 1, s))"
  by pat_completeness auto
termination
  by (relation "measure (\<lambda>(s, inode, inum, disk, sz, off). nat (sz - off))")
     (auto simp: sizeof_wfs_dentry_def)

definition delete_dir_entry :: "fs \<Rightarrow> cptr \<Rightarrow> int \<Rightarrow> int \<Rightarrow> (int \<times> fs) option" where
  "delete_dir_entry s inode inum disk =
     (case rd_off s (ptr_add inode off_size) of
        None \<Rightarrow> None
      | Some sz \<Rightarrow> delete_scan s inode inum disk (to_size_t sz) 0)"

text \<open>
  \<open>dirname\<close> of the C library, for the paths the kernel bridge passes: the path without its
  last component and without trailing slashes, \<open>/\<close> when nothing else is left.
\<close>

definition strip_slashes :: "string \<Rightarrow> string" where
  "strip_slashes p = rev (dropWhile (\<lambda>c. c = CHR ''/'') (rev p))"

definition dirname :: "string \<Rightarrow> string" where
  "dirname p =
     (let p1 = strip_slashes p
      in if p1 = [] then (if p = [] then ''.'' else ''/'')
         else if CHR ''/'' \<notin> set p1 then ''.''
         else
           let d = strip_slashes (rev (dropWhile (\<lambda>c. c \<noteq> CHR ''/'') (rev p1)))
           in if d = [] then ''/'' else d)"

definition basename :: "string \<Rightarrow> string" where
  "basename p =
     (let p1 = strip_slashes p
      in if p1 = [] then (if p = [] then ''.'' else ''/'')
         else rev (takeWhile (\<lambda>c. c \<noteq> CHR ''/'') (rev p1)))"

declare lookup_dentry.simps [simp del]
declare locate_inode.simps [simp del]
declare delete_scan.simps [simp del]

subsection \<open>The RAID manager\<close>

datatype RaidState = INIT | READ_READY | WRITE_READY | DELETE_READY | CREATE_READY | ERROR

record RaidManager =
  state :: RaidState
  current_disk :: int
  total_disks :: int
  raid_type :: int
  buffer_size :: int
  operation_id :: int

definition init_raid_manager :: "fs \<Rightarrow> RaidManager" where
  "init_raid_manager s =
     \<lparr>state = INIT, current_disk = 0, total_disks = total_devices s, raid_type = raid_mode s,
      buffer_size = 0, operation_id = 0\<rparr>"

subsection \<open>Read\<close>

text \<open>
  The operations stand for one call each. They take the globals and the manager and return
  the value the C function returns with the globals and the manager as the call leaves them;
  \<open>wfs_read\<close> also returns the bytes it has copied to the buffer of the caller.
\<close>

definition prepare_read_operation :: "RaidManager \<Rightarrow> int \<Rightarrow> int \<times> RaidManager" where
  "prepare_read_operation mgr len =
     (let m1 = mgr\<lparr>buffer_size := len, operation_id := to_size_t (operation_id mgr + 1)\<rparr>
      in if raid_type m1 = RAID0 \<or> raid_type m1 = RAID1
         then (0, m1\<lparr>current_disk := 0, state := READ_READY\<rparr>)
         else if raid_type m1 = RAID1V then (0, m1\<lparr>current_disk := 0, state := INIT\<rparr>)
         else (- 1, m1\<lparr>state := ERROR\<rparr>))"

text \<open>
  The checksum loop of the \<open>INIT\<close> case: it adds the bytes of each piece, read as the signed
  \<open>char\<close> of the target, and cuts a piece at the end of the block and at the end of the file,
  not at the requested length.
\<close>

definition piece_in_block :: "int \<Rightarrow> int \<Rightarrow> int" where
  "piece_in_block position sz =
     (let to_read = BLOCK_SIZE - position mod BLOCK_SIZE;
          remaining = to_size_t (sz - position)
      in if to_read > remaining then remaining else to_read)"

partial_function (option) checksum_scan ::
    "fs \<Rightarrow> cptr \<Rightarrow> int \<Rightarrow> int \<Rightarrow> int \<Rightarrow> int \<Rightarrow> int \<Rightarrow> (int \<times> fs) option" where
  "checksum_scan s inode len disk bytes_read position checksum =
     (if bytes_read < len then
        Option.bind (rd_off s (ptr_add inode off_size)) (\<lambda>sz.
          if position < to_size_t sz then
            Option.bind (get_block_location s inode (to_int64 position) False disk) (\<lambda>r.
              Option.bind (rd_bytes (snd r) (fst r) (nat (piece_in_block position sz))) (\<lambda>bs.
                checksum_scan (snd r) inode len disk
                  (bytes_read + piece_in_block position sz)
                  (position + piece_in_block position sz)
                  (checksum + sum_list (map sint bs))))
          else Some (checksum, s))
      else Some (checksum, s))"

text \<open>
  The copy loop of the \<open>READ_READY\<close> case. The result is \<open>False\<close> when the resolver returned
  \<open>NULL\<close>, with the bytes copied so far.
\<close>

partial_function (option) read_scan ::
    "fs \<Rightarrow> cptr \<Rightarrow> int \<Rightarrow> int \<Rightarrow> int \<Rightarrow> int \<Rightarrow> byte list \<Rightarrow> (bool \<times> byte list \<times> fs) option" where
  "read_scan s inode len disk bytes_read position buf =
     (if bytes_read < len then
        Option.bind (rd_off s (ptr_add inode off_size)) (\<lambda>sz.
          if position < to_size_t sz then
            Option.bind (get_block_location s inode (to_int64 position) False disk) (\<lambda>r.
              if fst r = NULL then Some (False, buf, snd r)
              else
                Option.bind (rd_bytes (snd r) (fst r)
                    (nat (min (piece_in_block position sz) (len - bytes_read)))) (\<lambda>bs.
                  read_scan (snd r) inode len disk
                    (bytes_read + min (piece_in_block position sz) (len - bytes_read))
                    (position + min (piece_in_block position sz) (len - bytes_read))
                    (buf @ bs)))
          else Some (True, buf, s))
      else Some (True, buf, s))"

text \<open>
  The vote of the \<open>INIT\<close> case: one plus the number of earlier disks with the same checksum.
  An element of \<open>checksums\<close> that was never written has no value. The array has \<open>MAX_DISKS\<close>
  (10) elements, as has the array of the mapped images, so that the server holds no more
  disks than that.
\<close>

fun count_equal :: "(int \<Rightarrow> int option) \<Rightarrow> int \<Rightarrow> int list \<Rightarrow> int option" where
  "count_equal checksums d [] = Some 1"
| "count_equal checksums d (j # js) =
     (case (checksums j, checksums d, count_equal checksums d js) of
        (Some cj, Some cd, Some n) \<Rightarrow> Some (if cj = cd then n + 1 else n)
      | _ \<Rightarrow> None)"

record read_locals =
  checksums :: "int \<Rightarrow> int option"
  max_checksum :: int
  best_disk :: int

partial_function (option) wfs_read_loop ::
    "fs \<Rightarrow> RaidManager \<Rightarrow> read_locals \<Rightarrow> string \<Rightarrow> int \<Rightarrow> int
       \<Rightarrow> ((int \<times> byte list) \<times> fs \<times> RaidManager) option" where
  "wfs_read_loop s mgr loc path len offset =
     (if state mgr = INIT then
        Option.bind (find_inode_by_path s path (current_disk mgr)) (\<lambda>r.
          if fst r = None then
            wfs_read_loop (snd r)
              (if current_disk mgr + 1 \<ge> total_disks mgr
               then mgr\<lparr>current_disk := current_disk mgr + 1, state := READ_READY\<rparr>
               else mgr\<lparr>current_disk := current_disk mgr + 1\<rparr>)
              loc path len offset
          else
            Option.bind (checksum_scan (snd r) (the (fst r)) len (current_disk mgr) 0
                           (to_size_t offset) 0) (\<lambda>c.
              Option.bind (count_equal ((checksums loc)(current_disk mgr \<mapsto> fst c))
                             (current_disk mgr) (disk_range (current_disk mgr))) (\<lambda>count.
                wfs_read_loop (snd c)
                  (if current_disk mgr + 1 \<ge> total_disks mgr
                   then mgr\<lparr>current_disk :=
                              (if count > max_checksum loc then current_disk mgr else best_disk loc),
                            state := READ_READY\<rparr>
                   else mgr\<lparr>current_disk := current_disk mgr + 1\<rparr>)
                  (if count > max_checksum loc
                   then loc\<lparr>checksums := (checksums loc)(current_disk mgr \<mapsto> fst c),
                            max_checksum := count, best_disk := current_disk mgr\<rparr>
                   else loc\<lparr>checksums := (checksums loc)(current_disk mgr \<mapsto> fst c)\<rparr>)
                  path len offset)))
      else if state mgr = READ_READY then
        Option.bind (find_inode_by_path s path (current_disk mgr)) (\<lambda>r.
          if fst r = None then Some ((error_code (snd r), []), snd r, mgr\<lparr>state := ERROR\<rparr>)
          else
            Option.bind (read_scan (snd r) (the (fst r)) len (current_disk mgr) 0
                           (to_size_t offset) []) (\<lambda>(ok, buf, s1).
              if ok then Some ((to_int32 (int (length buf)), buf), s1, mgr\<lparr>state := INIT\<rparr>)
              else Some ((- EIO, buf), s1, mgr\<lparr>state := ERROR\<rparr>)))
      else if state mgr = ERROR then Some ((error_code s, []), s, mgr)
      else Some ((- EINVAL, []), s, mgr\<lparr>state := ERROR\<rparr>))"

definition wfs_read ::
    "fs \<Rightarrow> RaidManager \<Rightarrow> string \<Rightarrow> int \<Rightarrow> int \<Rightarrow> ((int \<times> byte list) \<times> fs \<times> RaidManager) option" where
  "wfs_read s mgr path len offset =
     (let (result, mgr1) = prepare_read_operation mgr len
      in if result < 0 then Some ((result, []), s, mgr1)
         else wfs_read_loop s mgr1
                \<lparr>checksums = (\<lambda>_. None), max_checksum = - 1, best_disk = 0\<rparr> path len offset)"

subsection \<open>Write\<close>

definition prepare_write_operation :: "RaidManager \<Rightarrow> int \<Rightarrow> int \<times> RaidManager" where
  "prepare_write_operation mgr len =
     (let m1 = mgr\<lparr>buffer_size := len, operation_id := to_size_t (operation_id mgr + 1),
                    current_disk := 0\<rparr>
      in if raid_type m1 = RAID0 then (0, m1\<lparr>state := WRITE_READY\<rparr>)
         else (0, m1\<lparr>state := INIT\<rparr>))"

text \<open>
  The copy loop of \<open>wfs_write\<close>. The result is \<open>False\<close> when the resolver returned \<open>NULL\<close>, which
  makes \<open>wfs_write\<close> return at once; with it come the two counters of the loop.
  The resolver takes the position as an \<open>off_t\<close>.
\<close>

definition piece_to_write :: "int \<Rightarrow> int \<Rightarrow> int \<Rightarrow> int" where
  "piece_to_write position written_bytes len =
     (let to_write = BLOCK_SIZE - position mod BLOCK_SIZE
      in if to_write + written_bytes > len then len - written_bytes else to_write)"

partial_function (option) write_scan ::
    "fs \<Rightarrow> cptr \<Rightarrow> byte list \<Rightarrow> int \<Rightarrow> int \<Rightarrow> int \<Rightarrow> int
       \<Rightarrow> (bool \<times> int \<times> int \<times> fs) option" where
  "write_scan s inode buf len disk written_bytes position =
     (if written_bytes < len then
        Option.bind (get_block_location s inode (to_int64 position) True disk) (\<lambda>r.
          if fst r = NULL then Some (False, written_bytes, position, snd r)
          else
            Option.bind (wr_bytes (snd r) (fst r)
                (take (nat (piece_to_write position written_bytes len))
                   (drop (nat written_bytes) buf))) (\<lambda>s1.
              write_scan s1 inode buf len disk
                (written_bytes + piece_to_write position written_bytes len)
                (position + piece_to_write position written_bytes len)))
      else Some (True, written_bytes, position, s))"

text \<open>The size update after the copy loop.\<close>

definition update_size :: "fs \<Rightarrow> RaidManager \<Rightarrow> cptr \<Rightarrow> int \<Rightarrow> fs option" where
  "update_size s mgr inode new_data_len =
     (if new_data_len > 0 then do {
        sz \<leftarrow> rd_off s (ptr_add inode off_size);
        s1 \<leftarrow> wr_off s (ptr_add inode off_size) (sz + new_data_len);
        if raid_type mgr = RAID0 then
          for_each (disk_range (total_disks mgr))
            (\<lambda>i s. do {
               n \<leftarrow> rd_int s (ptr_add inode off_num);
               disk_inode \<leftarrow> get_inode s n i;
               z \<leftarrow> rd_off s (ptr_add inode off_size);
               wr_off s (ptr_add disk_inode off_size) z
             }) s1
        else Some s1
      } else Some s)"

record write_locals =
  new_data_len :: int
  written_bytes :: int
  position :: int
  w_inode :: cptr

partial_function (option) wfs_write_loop ::
    "fs \<Rightarrow> RaidManager \<Rightarrow> write_locals \<Rightarrow> string \<Rightarrow> byte list \<Rightarrow> int \<Rightarrow> int
       \<Rightarrow> (int \<times> fs \<times> RaidManager) option" where
  "wfs_write_loop s mgr loc path buf len offset =
     (if state mgr = INIT then
        (if current_disk mgr \<ge> total_disks mgr
         then wfs_write_loop s (mgr\<lparr>state := WRITE_READY, current_disk := 0\<rparr>) loc path buf len offset
         else wfs_write_loop s (mgr\<lparr>state := WRITE_READY\<rparr>) loc path buf len offset)
      else if state mgr = WRITE_READY then
        Option.bind (find_inode_by_path s path (current_disk mgr)) (\<lambda>r.
          if fst r = None then Some (error_code (snd r), snd r, mgr)
          else
            Option.bind (rd_off (snd r) (ptr_add (the (fst r)) off_size)) (\<lambda>sz.
              wfs_write_loop (snd r) (mgr\<lparr>state := READ_READY\<rparr>)
                \<lparr>new_data_len = to_int64 (len - to_size_t (sz - offset)), written_bytes = 0,
                 position = to_size_t offset, w_inode = the (fst r)\<rparr>
                path buf len offset))
      else if state mgr = READ_READY then
        Option.bind (write_scan s (w_inode loc) buf len (current_disk mgr) (written_bytes loc)
                       (position loc)) (\<lambda>(ok, written, pos, s1).
          if \<not> ok then Some (error_code s1, s1, mgr)
          else
            Option.bind (update_size s1 mgr (w_inode loc) (new_data_len loc)) (\<lambda>s2.
              if raid_type mgr = RAID0 \<or> current_disk mgr = total_disks mgr - 1
              then Some (to_int32 written, s2, mgr\<lparr>state := INIT\<rparr>)
              else wfs_write_loop s2 (mgr\<lparr>current_disk := current_disk mgr + 1, state := INIT\<rparr>)
                     (loc\<lparr>written_bytes := written, position := pos\<rparr>) path buf len offset))
      else if state mgr = ERROR then Some (error_code s, s, mgr)
      else Some (- EINVAL, s, mgr\<lparr>state := ERROR\<rparr>))"

definition wfs_write ::
    "fs \<Rightarrow> RaidManager \<Rightarrow> string \<Rightarrow> byte list \<Rightarrow> int \<Rightarrow> int \<Rightarrow> (int \<times> fs \<times> RaidManager) option" where
  "wfs_write s mgr path buf len offset =
     (let (result, mgr1) = prepare_write_operation mgr len
      in if result < 0 then Some (result, s, mgr1)
         else wfs_write_loop s mgr1
                \<lparr>new_data_len = 0, written_bytes = 0, position = to_size_t offset, w_inode = NULL\<rparr>
                path buf len offset)"

subsection \<open>Remove\<close>

definition prepare_delete_operation :: "RaidManager \<Rightarrow> int \<times> RaidManager" where
  "prepare_delete_operation mgr =
     (let m1 = mgr\<lparr>operation_id := to_size_t (operation_id mgr + 1), current_disk := 0\<rparr>
      in if raid_type m1 = RAID0 then (0, m1\<lparr>state := DELETE_READY\<rparr>)
         else (0, m1\<lparr>state := INIT\<rparr>))"

text \<open>
  The two loops of \<open>wfs_unlink\<close> that free blocks: the 64 slots of the indirect block, read from
  the image of the current disk and released on the current disk, then the 8 pointers of the
  inode, released on disk \<open>i % total_disks\<close> under striping and on the current disk otherwise.
\<close>

definition free_indirect_slots :: "fs \<Rightarrow> RaidManager \<Rightarrow> cptr \<Rightarrow> fs option" where
  "free_indirect_slots s mgr blocks =
     for_each (map int [0..<64])
       (\<lambda>i s. do {
          b \<leftarrow> rd_off s (ptr_add blocks (8 * i));
          if b \<noteq> 0 then release_block s b (current_disk mgr) else Some s
        }) s"

definition free_inode_blocks :: "fs \<Rightarrow> RaidManager \<Rightarrow> cptr \<Rightarrow> fs option" where
  "free_inode_blocks s mgr inode =
     for_each (map int [0..<nat N_BLOCKS])
       (\<lambda>i s. do {
          b \<leftarrow> rd_off s (ptr_add inode (off_blocks i));
          if b \<noteq> 0 then
            (if raid_type mgr = RAID0 then
               (if total_disks mgr = 0 then None
                else release_block s b (i smod total_disks mgr))
             else release_block s b (current_disk mgr))
          else Some s
        }) s"

definition release_inode_all :: "fs \<Rightarrow> RaidManager \<Rightarrow> int \<Rightarrow> fs option" where
  "release_inode_all s mgr inum =
     for_each (disk_range (total_disks mgr))
       (\<lambda>i s. do {
          w \<leftarrow> get_inode s inum i;
          release_inode s w i
        }) s"

partial_function (option) wfs_unlink_loop ::
    "fs \<Rightarrow> RaidManager \<Rightarrow> string \<Rightarrow> (int \<times> fs \<times> RaidManager) option" where
  "wfs_unlink_loop s mgr path =
     (if state mgr = INIT then
        (if current_disk mgr \<ge> total_disks mgr
         then wfs_unlink_loop s (mgr\<lparr>state := DELETE_READY, current_disk := 0\<rparr>) path
         else wfs_unlink_loop s (mgr\<lparr>state := DELETE_READY\<rparr>) path)
      else if state mgr = DELETE_READY then
        Option.bind (find_inode_by_path s (dirname path) (current_disk mgr)) (\<lambda>rp.
          if fst rp = None then Some (error_code (snd rp), snd rp, mgr)
          else
            Option.bind (find_inode_by_path (snd rp) path (current_disk mgr)) (\<lambda>ri.
              if fst ri = None then Some (error_code (snd ri), snd ri, mgr)
              else
                Option.bind (rd_off (snd ri) (ptr_add (the (fst ri)) (off_blocks IND_BLOCK))) (\<lambda>ind.
                Option.bind (if ind \<noteq> 0
                             then free_indirect_slots (snd ri) mgr (Ptr (current_disk mgr) ind)
                             else Some (snd ri)) (\<lambda>s1.
                Option.bind (free_inode_blocks s1 mgr (the (fst ri))) (\<lambda>s2.
                Option.bind (rd_int s2 (ptr_add (the (fst ri)) off_num)) (\<lambda>inum.
                Option.bind (delete_dir_entry s2 (the (fst rp)) inum (current_disk mgr)) (\<lambda>rd.
                  if fst rd < 0 then Some (error_code (snd rd), snd rd, mgr)
                  else
                    Option.bind (if raid_type mgr = RAID0
                                 then Option.bind (rd_int (snd rd) (ptr_add (the (fst ri)) off_num))
                                        (\<lambda>inum1. release_inode_all (snd rd) mgr inum1)
                                 else release_inode (snd rd) (the (fst ri)) (current_disk mgr)) (\<lambda>s3.
                      if raid_type mgr = RAID0 \<or> current_disk mgr = total_disks mgr - 1
                      then Some (0, s3, mgr\<lparr>state := INIT\<rparr>)
                      else wfs_unlink_loop s3
                             (mgr\<lparr>current_disk := current_disk mgr + 1, state := INIT\<rparr>) path))))))))
      else if state mgr = ERROR then Some (error_code s, s, mgr)
      else Some (- EINVAL, s, mgr\<lparr>state := ERROR\<rparr>))"

definition wfs_unlink :: "fs \<Rightarrow> RaidManager \<Rightarrow> string \<Rightarrow> (int \<times> fs \<times> RaidManager) option" where
  "wfs_unlink s mgr path =
     (let (result, mgr1) = prepare_delete_operation mgr
      in if result < 0 then Some (result, s, mgr1) else wfs_unlink_loop s mgr1 path)"

subsection \<open>Create\<close>

definition S_IFREG :: int where "S_IFREG = 32768"
definition S_IFDIR :: int where "S_IFDIR = 16384"
definition EEXIST :: int where "EEXIST = 17"

text \<open>
  The allocation loop of \<open>wfs_mknod\<close> under striping: an inode on every disk, with an early
  return when a disk has none left; the pointer that remains is that of the last disk.
\<close>

fun create_inode_all ::
    "int \<Rightarrow> int \<Rightarrow> int \<Rightarrow> int \<Rightarrow> int list \<Rightarrow> cptr \<Rightarrow> fs \<Rightarrow> (cptr \<times> fs) option" where
  "create_inode_all uid gid now mode [] inode s = Some (inode, s)"
| "create_inode_all uid gid now mode (i # is) inode s =
     (case create_inode s i of
        None \<Rightarrow> None
      | Some (p, s1) \<Rightarrow>
          if p = NULL then Some (NULL, s1)
          else
            (case setup_inode uid gid now s1 p mode of
               None \<Rightarrow> None
             | Some s2 \<Rightarrow> create_inode_all uid gid now mode is p s2))"

definition wfs_mknod ::
    "int \<Rightarrow> int \<Rightarrow> int \<Rightarrow> fs \<Rightarrow> string \<Rightarrow> int \<Rightarrow> int \<Rightarrow> (int \<times> fs) option" where
  "wfs_mknod uid gid now s path mode disk = do {
     (r, s1) \<leftarrow> find_inode_by_path s (dirname path) disk;
     case r of
       None \<Rightarrow> Some (- ENOENT, s1)
     | Some parent_inode \<Rightarrow> do {
         (inode, s2) \<leftarrow>
           (if raid_mode s1 = RAID0
            then create_inode_all uid gid now (S_IFREG OR mode) (disk_range (total_devices s1)) NULL s1
            else do {
              (p, s') \<leftarrow> create_inode s1 disk;
              if p = NULL then Some (NULL, s')
              else do { s'' \<leftarrow> setup_inode uid gid now s' p (S_IFREG OR mode); Some (p, s'') }
            });
         if inode = NULL then Some (- ENOSPC, s2)
         else do {
           n \<leftarrow> rd_int s2 (ptr_add inode off_num);
           (rc, s3) \<leftarrow> insert_dir_entry s2 parent_inode n (basename path) disk;
           if rc < 0 then Some (- EEXIST, s3) else Some (0, s3)
         }
       }
   }"

fun mknod_each :: "int \<Rightarrow> int \<Rightarrow> int \<Rightarrow> string \<Rightarrow> int \<Rightarrow> int list \<Rightarrow> fs \<Rightarrow> (int \<times> fs) option" where
  "mknod_each uid gid now path mode [] s = Some (0, s)"
| "mknod_each uid gid now path mode (i # is) s =
     (case wfs_mknod uid gid now s path mode i of
        None \<Rightarrow> None
      | Some (result, s1) \<Rightarrow>
          if result \<noteq> 0 then Some (result, s1) else mknod_each uid gid now path mode is s1)"

definition WFS_MKNOD :: "int \<Rightarrow> int \<Rightarrow> int \<Rightarrow> fs \<Rightarrow> string \<Rightarrow> int \<Rightarrow> (int \<times> fs) option" where
  "WFS_MKNOD uid gid now s path mode =
     (if raid_mode s = RAID0 then wfs_mknod uid gid now s path mode 0
      else mknod_each uid gid now path mode (disk_range (total_devices s)) s)"

subsection \<open>A formatted volume\<close>

text \<open>
  The three writes of \<open>create_filesystem\<close> on an image: the superblock at 0, the word with the
  bit of the root inode at the inode bitmap, and the 120 bytes of the root inode (a directory,
  mode 0755, one link, size 0) at the inode region.
\<close>

definition write_sb :: "wfs_sb \<Rightarrow> region \<Rightarrow> region" where
  "write_sb sb m =
     store64 (store32 (store32 (store64 (store64 (store64 (store64 (store64 (store64 m
       0 (uint (num_inodes sb))) 8 (uint (num_data_blocks sb))) 16 (uint (i_bitmap_ptr sb)))
       24 (uint (d_bitmap_ptr sb))) 32 (uint (i_blocks_ptr sb))) 40 (uint (d_blocks_ptr sb)))
       48 (fs_identifier sb)) 52 (sb_raid_mode sb)) 56 (sb_device_order sb)"

definition write_root :: "int \<Rightarrow> int \<Rightarrow> int \<Rightarrow> int \<Rightarrow> region \<Rightarrow> region" where
  "write_root uid gid now a m =
     store64 (store64 (store64 (store32 (store32 (store32 (store32
       (store_bytes m a (replicate 120 0))
       (a + off_mode) (S_IFDIR OR 493)) (a + off_nlinks) 1) (a + 8) uid) (a + 12) gid)
       (a + 32) now) (a + 40) now) (a + 48) now"

definition create_filesystem_image :: "int \<Rightarrow> int \<Rightarrow> int \<Rightarrow> disk_state \<Rightarrow> region \<Rightarrow> region" where
  "create_filesystem_image uid gid now disk m =
     (let sb = fst (create_filesystem_sb disk)
      in write_root uid gid now (uint (i_blocks_ptr sb))
           (store32 (write_sb sb m) (uint (i_bitmap_ptr sb)) 1))"

text \<open>
  The volume that \<open>mkfs -r mode -i 32 -b 32\<close> makes of \<open>n\<close> zero-filled images, for user and
  group 1000 at time 7, as the server holds it after mounting.
\<close>

definition fresh_image :: "int \<Rightarrow> int \<Rightarrow> region" where
  "fresh_image mode ord =
     create_filesystem_image 1000 1000 7
       (empty_disk_state\<lparr>inode_count := 32, block_count := 32, ds_raid_mode := mode,
          ds_device_order := ord, fs_id := 7\<rparr>) (\<lambda>_. 0)"

definition fresh_volume :: "int \<Rightarrow> nat \<Rightarrow> fs" where
  "fresh_volume mode n =
     \<lparr>fs_memory_regions = map (\<lambda>i. fresh_image mode (int i)) [0..<n], raid_mode = mode,
      total_devices = int n, error_code = 0\<rparr>"

declare insert_scan.simps [code]
declare wfs_read_loop.simps [code]
declare wfs_write_loop.simps [code]
declare wfs_unlink_loop.simps [code]
declare checksum_scan.simps [code]
declare read_scan.simps [code]
declare write_scan.simps [code]

text \<open>
  Concrete images are written as lists of segments, a start offset with the bytes stored from
  there on, the latest segment first; every byte outside the segments is zero.
\<close>

fun disk_image :: "(int \<times> byte list) list \<Rightarrow> region" where
  "disk_image [] x = 0"
| "disk_image ((a, bs) # segs) x =
     (if a \<le> x \<and> x < a + int (length bs) then bs ! nat (x - a) else disk_image segs x)"

declare disk_image.simps [simp del]

text \<open>The byte at an offset of the image of a disk, to state what an operation leaves unchanged.\<close>

definition byte_at :: "fs \<Rightarrow> int \<Rightarrow> int \<Rightarrow> byte option" where
  "byte_at s d x = map_option (\<lambda>m. m x) (region s d)"

subsection \<open>Sessions\<close>

text \<open>
  Sequences of calls as the server serves them after mounting a formatted volume, each call
  on the globals and the manager that the call before has left. The process runs as user
  and group 1000 and the clock shows 8.

  On two mirrored disks: \<open>/a\<close> is created, one byte is written to it, and it is removed;
  or, after the creation, \<open>/b\<close> is created as well; or, after the creation, 31 blocks of data
  are written to \<open>/a\<close> in one call, on a volume of 32 data blocks of which the root directory
  has taken one.
\<close>

definition mirror_created :: "(int \<times> fs) option" where
  "mirror_created = WFS_MKNOD 1000 1000 8 (fresh_volume RAID1 2) ''/a'' 420"

definition mirror_volume :: fs where
  "mirror_volume = snd (the mirror_created)"

definition mirror_written :: "(int \<times> fs \<times> RaidManager) option" where
  "mirror_written =
     wfs_write mirror_volume (init_raid_manager mirror_volume) ''/a'' [120] 1 0"

definition mirror_removed :: "(int \<times> fs \<times> RaidManager) option" where
  "mirror_removed = do { (rc, s, mgr) \<leftarrow> mirror_written; wfs_unlink s mgr ''/a'' }"

definition mirror_second :: "(int \<times> fs) option" where
  "mirror_second = WFS_MKNOD 1000 1000 8 mirror_volume ''/b'' 420"

definition mirror_pair :: fs where
  "mirror_pair = snd (the mirror_second)"

definition mirror_filled :: "(int \<times> fs \<times> RaidManager) option" where
  "mirror_filled =
     wfs_write mirror_volume (init_raid_manager mirror_volume) ''/a'' (replicate 15872 1) 15872 0"

text \<open>
  On two striped disks: \<open>/f\<close> is created, one byte is written at offset 0 (logical block 0) and
  one at offset 3584 (logical block 7, the first behind the indirect block), and \<open>/f\<close> is removed.
\<close>

definition stripe_created :: "(int \<times> fs) option" where
  "stripe_created = WFS_MKNOD 1000 1000 8 (fresh_volume RAID0 2) ''/f'' 420"

definition stripe_volume :: fs where
  "stripe_volume = snd (the stripe_created)"

definition stripe_head :: "(int \<times> fs \<times> RaidManager) option" where
  "stripe_head = wfs_write stripe_volume (init_raid_manager stripe_volume) ''/f'' [121] 1 0"

definition stripe_tail :: "(int \<times> fs \<times> RaidManager) option" where
  "stripe_tail = do { (rc, s, mgr) \<leftarrow> stripe_head; wfs_write s mgr ''/f'' [122] 1 3584 }"

definition stripe_removed :: "(int \<times> fs \<times> RaidManager) option" where
  "stripe_removed = do { (rc, s, mgr) \<leftarrow> stripe_tail; wfs_unlink s mgr ''/f'' }"

text \<open>
  On \<open>n\<close> mirrored disks with voting: \<open>/a\<close> is created and the bytes 1, 2, 3, 4 are written to
  it; its data block is then at offset 17408 of every image. Before the file is read, the copy
  of disk \<open>d\<close> is overwritten with \<open>bs\<close> behind the back of the server.
\<close>

definition vote_written :: "nat \<Rightarrow> (int \<times> fs \<times> RaidManager) option" where
  "vote_written n = do {
     (rc, s) \<leftarrow> WFS_MKNOD 1000 1000 8 (fresh_volume RAID1V n) ''/a'' 420;
     wfs_write s (init_raid_manager s) ''/a'' [1, 2, 3, 4] 4 0
   }"

definition corrupted :: "nat \<Rightarrow> int \<Rightarrow> byte list \<Rightarrow> (fs \<times> RaidManager) option" where
  "corrupted n d bs = do {
     (rc, s, mgr) \<leftarrow> vote_written n;
     s' \<leftarrow> wr_bytes s (Ptr d 17408) bs;
     Some (s', mgr)
   }"

definition vote_read :: "nat \<Rightarrow> int \<Rightarrow> byte list \<Rightarrow> ((int \<times> byte list) \<times> fs \<times> RaidManager) option" where
  "vote_read n d bs = do { (s, mgr) \<leftarrow> corrupted n d bs; wfs_read s mgr ''/a'' 4 0 }"

text \<open>The globals and the manager that a call of a session leaves.\<close>

definition volume_after :: "('a \<times> fs \<times> 'b) option \<Rightarrow> fs" where
  "volume_after r = fst (snd (the r))"

definition manager_after :: "('a \<times> fs \<times> 'b) option \<Rightarrow> 'b" where
  "manager_after r = snd (snd (the r))"

text \<open>
  The number of entries of a directory that are in use, which are those that \<open>wfs_readdir\<close>
  lists: the slots at the offsets 0, 32, ... below the size of the directory whose inode
  number is not 0.
\<close>

fun count_used :: "fs \<Rightarrow> cptr \<Rightarrow> int \<Rightarrow> int list \<Rightarrow> nat option" where
  "count_used s dir disk [] = Some 0"
| "count_used s dir disk (off # offs) = do {
     (p, s1) \<leftarrow> get_block_location s dir off False disk;
     n \<leftarrow> rd_int s1 (ptr_add p off_dentry_num);
     c \<leftarrow> count_used s dir disk offs;
     Some (if n \<noteq> 0 then Suc c else c)
   }"

definition used_entries :: "fs \<Rightarrow> cptr \<Rightarrow> int \<Rightarrow> nat option" where
  "used_entries s dir disk = do {
     sz \<leftarrow> rd_off s (ptr_add dir off_size);
     count_used s dir disk
       (map (\<lambda>i. sizeof_wfs_dentry * int i) [0..<nat (to_size_t sz div sizeof_wfs_dentry)])
   }"
section \<open>Properties of the initializer\<close>

lemma round_up_mult: "(n::nat) + (k - n mod k) = k * (n div k + 1)" if "0 < k"
proof -
  have "n mod k < k" using that by simp
  moreover have "n = k * (n div k) + n mod k" by simp
  ultimately show ?thesis
    by (metis add.assoc add_mult_distrib2 le_add_diff_inverse less_imp_le_nat mult.right_neutral)
qed

lemma unat_round_up:
  assumes k: "k \<noteq> 0"
  shows "unat (round_up k w) =
    (if unat w mod unat k = 0 then unat w else (unat k * (unat w div unat k + 1)) mod 2 ^ 64)"
proof -
  have kp: "0 < unat k" using k by (simp add: unat_gt_0)
  have r: "unat (w mod k) = unat w mod unat k" by (simp add: unat_mod)
  have lt: "unat w mod unat k < unat k" using kp by simp
  have s: "unat (k - w mod k) = unat k - unat w mod unat k"
    using lt by (subst unat_sub) (simp_all add: word_le_nat_alt r)
  have z: "(w mod k = 0) = (unat w mod unat k = 0)"
    using r by (metis unat_eq_0)
  show ?thesis
    unfolding round_up_def z
    by (simp add: unat_word_ariths s round_up_mult[OF kp])
qed

lemma round_up_mod:
  assumes k: "k \<noteq> 0" and d: "unat k dvd 2 ^ 64"
  shows "round_up k w mod k = 0"
proof -
  have "(unat k * (unat w div unat k + 1)) mod 2 ^ 64 mod unat k = 0"
    by (simp only: mod_mod_cancel[OF d] mod_mult_self1_is_0)
  then have "unat (round_up k w) mod unat k = 0"
    unfolding unat_round_up[OF k] by (cases "unat w mod unat k = 0") simp_all
  then show ?thesis
    by (metis unat_mod unat_eq_0)
qed

lemma round_up_diff:
  assumes k: "k \<noteq> 0"
  shows "round_up k w - w < k"
proof (cases "w mod k = 0")
  case True
  then show ?thesis using k by (simp add: round_up_def word_gt_0)
next
  case False
  have kp: "0 < unat k" using k by (simp add: unat_gt_0)
  have r: "unat (w mod k) = unat w mod unat k" by (simp add: unat_mod)
  have lt: "unat w mod unat k < unat k" using kp by simp
  have s: "unat (k - w mod k) = unat k - unat w mod unat k"
    using lt by (subst unat_sub) (simp_all add: word_le_nat_alt r)
  have nz: "0 < unat w mod unat k"
    using False r by (metis unat_eq_0 neq0_conv)
  have "round_up k w - w = k - w mod k" using False by (simp add: round_up_def)
  moreover have "unat (k - w mod k) < unat k" using s nz lt by simp
  ultimately show ?thesis by (simp add: word_less_nat_alt)
qed

lemma round_up_nat:
  assumes k: "k \<noteq> 0" and b: "unat w + unat k \<le> 2 ^ 64"
  shows "unat w \<le> unat (round_up k w) \<and> unat (round_up k w) < unat w + unat k"
proof (cases "unat w mod unat k = 0")
  case True
  then show ?thesis using k by (simp add: unat_round_up unat_gt_0)
next
  case False
  have kp: "0 < unat k" using k by (simp add: unat_gt_0)
  let ?n = "unat w" and ?k = "unat k"
  have e: "?k * (?n div ?k + 1) = ?n + (?k - ?n mod ?k)" by (simp add: round_up_mult[OF kp])
  have lt: "?n mod ?k < ?k" using kp by simp
  have "?n + (?k - ?n mod ?k) < 2 ^ 64" using b False lt by linarith
  then have "unat (round_up k w) = ?n + (?k - ?n mod ?k)"
    using False e by (simp add: unat_round_up[OF k])
  then show ?thesis using False lt by linarith
qed

lemma gas_round_up: "get_aligned_size x = round_up 32 x"
  by (simp add: get_aligned_size_def round_up_def Let_def)

lemma layout_fields:
  "i_bitmap_ptr (fst (calculate_layout sb I B)) = sizeof_wfs_sb"
  "d_bitmap_ptr (fst (calculate_layout sb I B)) = sizeof_wfs_sb + drop_bit 3 (I + 7)"
  "i_blocks_ptr (fst (calculate_layout sb I B)) = round_up 512 (sizeof_wfs_sb + drop_bit 3 (I + 7) + drop_bit 3 (B + 7))"
  "d_blocks_ptr (fst (calculate_layout sb I B)) = round_up 512 (sizeof_wfs_sb + drop_bit 3 (I + 7) + drop_bit 3 (B + 7)) + I * 512"
  "snd (calculate_layout sb I B) = round_up 512 (sizeof_wfs_sb + drop_bit 3 (I + 7) + drop_bit 3 (B + 7)) + I * 512 + B * 512"
  "num_inodes (fst (calculate_layout sb I B)) = num_inodes sb"
  "num_data_blocks (fst (calculate_layout sb I B)) = num_data_blocks sb"
  by (simp_all add: calculate_layout_def Let_def round_up_def)

lemma dvd_gap: "(k::nat) dvd n \<Longrightarrow> k dvd m \<Longrightarrow> n < m \<Longrightarrow> n + k \<le> m"
proof -
  assume a: "k dvd n" "k dvd m" "n < m"
  then obtain a b where ab: "n = k * a" "m = k * b" by (auto simp: dvd_def)
  with a(3) have "a < b" by simp
  then have "k * (a + 1) \<le> k * b" by (simp only: mult_le_mono2 Suc_leI Suc_eq_plus1[symmetric])
  then show ?thesis using ab by simp
qed

lemma dvd32: "(32::nat) dvd 2 ^ 64"
proof -
  have "(2::nat) ^ 64 = 32 * 2 ^ 59" by simp
  then show ?thesis by (metis dvd_triv_left)
qed

lemma bitmap_bytes:
  assumes "x mod 32 = (0::size_t)"
  shows "drop_bit 3 (x + 7) = x div 8"
proof -
  have "unat (x mod 32) = 0" using assms by simp
  then have m: "32 dvd unat x" by (simp add: unat_mod dvd_eq_mod_eq_0)
  have lt: "unat x < 2 ^ 64" using unsigned_less[of x] by simp
  have "unat x + 32 \<le> 2 ^ 64" by (rule dvd_gap[OF m dvd32 lt])
  then have "unat x + 7 < 2 ^ 64" by linarith
  then have a: "unat (x + 7) = unat x + 7" by (simp add: unat_word_ariths)
  obtain q where q: "unat x = 32 * q" using m by (auto simp: dvd_def)
  have "(8 * (4 * q) + 7) div 8 = (4 * q :: nat)" by simp
  then have b: "(unat x + 7) div 8 = unat x div 8" using q by simp
  have "unat (drop_bit 3 (x + 7)) = unat (x div 8)"
    by (simp add: unat_drop_bit_eq drop_bit_eq_div unat_div a b)
  then show ?thesis by (rule word_unat_eq_iff[THEN iffD2])
qed

lemma parse_args_append:
  "parse_args od pre st ds = Inr (st', ds') \<Longrightarrow>
   parse_args od (pre @ post) st ds = parse_args od post st' ds'"
proof (induction od pre st ds rule: parse_args.induct)
  case (1 od st ds)
  then show ?case by simp
next
  case (2 od flag st ds)
  then show ?case by simp
next
  case (3 od flag val rest st ds)
  show ?case
    using "3.prems" "3.IH"
    by (auto simp: Let_def split: if_splits)
qed

text \<open>
  Claim C6, as the code has it: wherever a \<open>-r\<close> flag is reached by the argument loop, the
  values 0 and 1 are accepted (the loop goes on with the mode stored) and every other value,
  2 included, ends the process with exit code 1. The value of an argument is the \<open>int\<close> that
  \<open>atoi\<close> returns for it.
\<close>

theorem raid_mode_flag:
  assumes pre: "parse_args od pre empty_disk_state [] = Inr (st, ds)"
  shows "(atoi v = 0 \<or> atoi v = 1 \<longrightarrow>
            parse_args od (pre @ ''-r'' # v # rest) empty_disk_state [] =
            parse_args od rest (st\<lparr>ds_raid_mode := atoi v\<rparr>) ds)
       \<and> (atoi v \<noteq> 0 \<and> atoi v \<noteq> 1 \<longrightarrow>
            mkfs_main od st_size now (prog # pre @ ''-r'' # v # rest) = 1)"
proof -
  have "parse_args od (pre @ ''-r'' # v # rest) empty_disk_state [] =
        parse_args od (''-r'' # v # rest) st ds"
    by (rule parse_args_append[OF pre])
  then show ?thesis
    by (simp add: mkfs_main_def char_at_def Let_def)
qed

lemma atoi_simps:
  "atoi ''0'' = 0" "atoi ''1'' = 1" "atoi ''2'' = 2" "atoi ''32'' = 32" "atoi ''1v'' = 1"
  "atoi ''-5'' = - 5" "atoi ''4294967296'' = 0" "atoi ''4294967298'' = 2"
  by (simp_all add: atoi_def strtol_def to_int32_def isspace_def isdigit_def)

text \<open>
  The same at concrete command lines: \<open>-i 32 -r 1\<close> is parsed and \<open>-i 32 -r 2\<close> exits with code
  1; \<open>-r 4294967296\<close>, which \<open>atoi\<close> cuts to 0, is parsed as mode 0 and \<open>-r 4294967298\<close>, which
  it cuts to 2, exits with code 1.
\<close>

theorem raid_mode_flag_witness:
  "parse_args (\<lambda>_. 3) [''-i'', ''32''] empty_disk_state [] = Inr (empty_disk_state\<lparr>inode_count := 32\<rparr>, [])
   \<and> parse_args (\<lambda>_. 3) ([''-i'', ''32''] @ ''-r'' # ''1'' # []) empty_disk_state [] =
       Inr (empty_disk_state\<lparr>inode_count := 32, ds_raid_mode := 1\<rparr>, [])
   \<and> mkfs_main (\<lambda>_. 3) (\<lambda>_. Some 1048576) 7 (''mkfs'' # [''-i'', ''32''] @ ''-r'' # ''2'' # []) = 1
   \<and> parse_args (\<lambda>_. 3) ([''-i'', ''32''] @ ''-r'' # ''4294967296'' # []) empty_disk_state [] =
       Inr (empty_disk_state\<lparr>inode_count := 32, ds_raid_mode := 0\<rparr>, [])
   \<and> mkfs_main (\<lambda>_. 3) (\<lambda>_. Some 1048576) 7 (''mkfs'' # [''-i'', ''32''] @ ''-r'' # ''4294967298'' # []) = 1"
proof -
  have pre: "parse_args (\<lambda>_. 3) [''-i'', ''32''] empty_disk_state [] = Inr (empty_disk_state\<lparr>inode_count := 32\<rparr>, [])"
    by (simp add: char_at_def atoi_simps)
  show ?thesis
    using raid_mode_flag[OF pre, of "''1''" "[]" "\<lambda>_. Some 1048576" 7 "''mkfs''"]
      raid_mode_flag[OF pre, of "''2''" "[]" "\<lambda>_. Some 1048576" 7 "''mkfs''"]
      raid_mode_flag[OF pre, of "''4294967296''" "[]" "\<lambda>_. Some 1048576" 7 "''mkfs''"]
      raid_mode_flag[OF pre, of "''4294967298''" "[]" "\<lambda>_. Some 1048576" 7 "''mkfs''"] pre
    by (simp add: atoi_simps)
qed

text \<open>
  Claim C6 as stated fails: a complete command line with \<open>-r 2\<close> exits with code 1, while the
  same command line with \<open>-r 1\<close> formats the disks and returns 0.
\<close>

theorem raid_mode_two_rejected:
  "mkfs_main (\<lambda>_. 3) (\<lambda>_. Some 1048576) 7
     [''mkfs'', ''-r'', ''2'', ''-i'', ''32'', ''-b'', ''32'', ''-d'', ''a'', ''-d'', ''b''] = 1
   \<and> mkfs_main (\<lambda>_. 3) (\<lambda>_. Some 1048576) 7
     [''mkfs'', ''-r'', ''1'', ''-i'', ''32'', ''-b'', ''32'', ''-d'', ''a'', ''-d'', ''b''] = 0"
  by (simp add: mkfs_main_def align_state_def atoi_simps char_at_def empty_disk_state_def
      MAX_DISK_COUNT_def get_aligned_size_def create_filesystem_def create_filesystem_sb_def
      calculate_layout_def sizeof_wfs_sb_def empty_sb_def WFS_OK_def WFS_ERROR_def Let_def)

text \<open>
  The layout for counts that are given as positive numbers. For all counts I and B, the
  aligned counts are multiples of 32 less than 32 above the given ones, and the layout has the
  inode bitmap at \<open>sizeof(struct wfs_sb)\<close>, the data bitmap right after the I/8 bytes of the
  inode bitmap, the inode region at the next multiple of \<open>BLOCK_SIZE\<close> at or after the end of
  the data bitmap (with no pad when that end is aligned), and the data region right after the
  I blocks of the inode region. The equations are those of the 64-bit \<open>size_t\<close> arithmetic of
  the code, in which every sum may wrap; for counts below \<open>2^31\<close> (every positive \<open>int\<close>)
  nothing wraps and they hold of the numbers.
\<close>

theorem layout_in_order:
  fixes I B :: size_t and sb :: wfs_sb
  defines "I' \<equiv> get_aligned_size I" and "B' \<equiv> get_aligned_size B"
  defines "L \<equiv> fst (calculate_layout sb I' B')"
  shows "I' mod 32 = 0 \<and> I' - I < 32 \<and> B' mod 32 = 0 \<and> B' - B < 32
       \<and> i_bitmap_ptr L = sizeof_wfs_sb
       \<and> d_bitmap_ptr L = i_bitmap_ptr L + I' div 8
       \<and> i_blocks_ptr L mod 512 = 0
       \<and> i_blocks_ptr L - (d_bitmap_ptr L + B' div 8) < 512
       \<and> ((d_bitmap_ptr L + B' div 8) mod 512 = 0 \<longrightarrow> i_blocks_ptr L = d_bitmap_ptr L + B' div 8)
       \<and> d_blocks_ptr L = i_blocks_ptr L + I' * 512
       \<and> (unat I < 2 ^ 31 \<and> unat B < 2 ^ 31 \<longrightarrow>
            unat I \<le> unat I' \<and> unat I' < unat I + 32 \<and> unat B \<le> unat B' \<and> unat B' < unat B + 32
          \<and> unat (d_bitmap_ptr L) = unat (i_bitmap_ptr L) + unat I' div 8
          \<and> unat (d_bitmap_ptr L) + unat B' div 8 \<le> unat (i_blocks_ptr L)
          \<and> unat (i_blocks_ptr L) < unat (d_bitmap_ptr L) + unat B' div 8 + 512
          \<and> unat (d_blocks_ptr L) = unat (i_blocks_ptr L) + unat I' * 512)"
proof -
  have k32: "(32::size_t) \<noteq> 0" and k512: "(512::size_t) \<noteq> 0" by simp_all
  have d512: "unat (512::size_t) dvd 2 ^ 64"
  proof -
    have "(2::nat) ^ 64 = 512 * 2 ^ 55" by simp
    then have "(512::nat) dvd 2 ^ 64" by (metis dvd_triv_left)
    then show ?thesis by simp
  qed
  have d32: "unat (32::size_t) dvd 2 ^ 64" using dvd32 by simp
  have i1: "I' mod 32 = 0" and b1: "B' mod 32 = 0"
    unfolding I'_def B'_def gas_round_up by (rule round_up_mod[OF k32 d32])+
  have i2: "I' - I < 32" and b2: "B' - B < 32"
    unfolding I'_def B'_def gas_round_up by (rule round_up_diff[OF k32])+
  have ib: "drop_bit 3 (I' + 7) = I' div 8" and bb: "drop_bit 3 (B' + 7) = B' div 8"
    by (rule bitmap_bytes[OF i1], rule bitmap_bytes[OF b1])
  have f1: "i_bitmap_ptr L = sizeof_wfs_sb" by (simp add: L_def layout_fields)
  have f2: "d_bitmap_ptr L = i_bitmap_ptr L + I' div 8" by (simp add: L_def layout_fields ib)
  have f3: "i_blocks_ptr L = round_up 512 (d_bitmap_ptr L + B' div 8)"
    by (simp add: L_def layout_fields ib bb)
  have f4: "d_blocks_ptr L = i_blocks_ptr L + I' * 512" by (simp add: L_def layout_fields)
  have a1: "i_blocks_ptr L mod 512 = 0" unfolding f3 by (rule round_up_mod[OF k512 d512])
  have a2: "i_blocks_ptr L - (d_bitmap_ptr L + B' div 8) < 512"
    unfolding f3 by (rule round_up_diff[OF k512])
  have a3: "(d_bitmap_ptr L + B' div 8) mod 512 = 0 \<longrightarrow> i_blocks_ptr L = d_bitmap_ptr L + B' div 8"
    unfolding f3 by (simp add: round_up_def)
  have n: "unat I \<le> unat I' \<and> unat I' < unat I + 32 \<and> unat B \<le> unat B' \<and> unat B' < unat B + 32
          \<and> unat (d_bitmap_ptr L) = unat (i_bitmap_ptr L) + unat I' div 8
          \<and> unat (d_bitmap_ptr L) + unat B' div 8 \<le> unat (i_blocks_ptr L)
          \<and> unat (i_blocks_ptr L) < unat (d_bitmap_ptr L) + unat B' div 8 + 512
          \<and> unat (d_blocks_ptr L) = unat (i_blocks_ptr L) + unat I' * 512"
    if bI: "unat I < 2 ^ 31" and bB: "unat B < 2 ^ 31"
  proof -
    have rI: "unat I \<le> unat I' \<and> unat I' < unat I + 32"
      unfolding I'_def gas_round_up using round_up_nat[OF k32, of I] bI by simp
    have rB: "unat B \<le> unat B' \<and> unat B' < unat B + 32"
      unfolding B'_def gas_round_up using round_up_nat[OF k32, of B] bB by simp
    have uI8: "unat (I' div 8) = unat I' div 8" and uB8: "unat (B' div 8) = unat B' div 8"
      by (simp_all add: unat_div)
    have u1: "unat (i_bitmap_ptr L) = 64" by (simp add: f1 sizeof_wfs_sb_def)
    have len: "2 ^ LENGTH(64) = (18446744073709551616::nat)" by simp
    have cI: "unat I' < 2147483680" and cB: "unat B' < 2147483680"
      using rI bI rB bB by simp_all
    have dI: "unat I' div 8 < 2147483680" and dB: "unat B' div 8 < 2147483680"
      using cI cB by (meson div_le_dividend le_less_trans)+
    have u2: "unat (d_bitmap_ptr L) = 64 + unat I' div 8"
    proof -
      have "unat (i_bitmap_ptr L) + unat (I' div 8) < 2 ^ LENGTH(64)"
        unfolding len u1 uI8 using dI by linarith
      then show ?thesis unfolding f2 by (simp only: unat_add_lem[THEN iffD1] u1 uI8)
    qed
    have u3: "unat (d_bitmap_ptr L + B' div 8) = unat (d_bitmap_ptr L) + unat B' div 8"
    proof -
      have "unat (d_bitmap_ptr L) + unat (B' div 8) < 2 ^ LENGTH(64)"
        unfolding len u2 uB8 using dI dB by linarith
      then show ?thesis by (simp only: unat_add_lem[THEN iffD1] uB8)
    qed
    have u4: "unat (d_bitmap_ptr L + B' div 8) \<le> unat (i_blocks_ptr L) \<and>
              unat (i_blocks_ptr L) < unat (d_bitmap_ptr L + B' div 8) + 512"
    proof -
      have "unat (d_bitmap_ptr L + B' div 8) + unat (512::size_t) \<le> 2 ^ 64"
        unfolding u3 u2 using dI dB by simp
      from round_up_nat[OF k512 this] show ?thesis unfolding f3 by simp
    qed
    have u5: "unat (I' * 512) = unat I' * 512"
    proof -
      have "unat I' * unat (512::size_t) < 2 ^ LENGTH(64)"
        unfolding len using cI by simp
      then show ?thesis using unat_mult_lem[THEN iffD1, of I' 512] by simp
    qed
    have u6: "unat (d_blocks_ptr L) = unat (i_blocks_ptr L) + unat I' * 512"
    proof -
      have "unat (i_blocks_ptr L) + unat (I' * 512) < 2 ^ LENGTH(64)"
        unfolding len u5 using u4 u3 u2 cI dI dB by linarith
      then show ?thesis unfolding f4 by (simp only: unat_add_lem[THEN iffD1] u5)
    qed
    show ?thesis using rI rB u1 u2 u3 u4 u6 by simp
  qed
  show ?thesis using i1 i2 b1 b2 f1 f2 a1 a2 a3 f4 n by blast
qed

text \<open>The layout for 1 inode and 40 blocks: 32 inodes, 64 blocks, inodes at 512, data at 16896.\<close>

theorem layout_in_order_witness:
  "unat (1::size_t) < 2 ^ 31 \<and> unat (40::size_t) < 2 ^ 31
   \<and> get_aligned_size 1 = 32 \<and> get_aligned_size 40 = 64
   \<and> i_bitmap_ptr (fst (calculate_layout empty_sb (get_aligned_size 1) (get_aligned_size 40))) = 64
   \<and> unat (d_bitmap_ptr (fst (calculate_layout empty_sb (get_aligned_size 1) (get_aligned_size 40)))) = 64 + 32 div 8
   \<and> unat (d_bitmap_ptr (fst (calculate_layout empty_sb (get_aligned_size 1) (get_aligned_size 40)))) + 64 div 8
        \<le> unat (i_blocks_ptr (fst (calculate_layout empty_sb (get_aligned_size 1) (get_aligned_size 40))))
   \<and> i_blocks_ptr (fst (calculate_layout empty_sb (get_aligned_size 1) (get_aligned_size 40))) = 512
   \<and> d_blocks_ptr (fst (calculate_layout empty_sb (get_aligned_size 1) (get_aligned_size 40))) = 512 + 32 * 512"
proof -
  have g: "get_aligned_size 1 = 32" "get_aligned_size 40 = 64"
    by (simp_all add: get_aligned_size_def)
  show ?thesis
    using layout_in_order[of 1 40 empty_sb]
    by (simp add: g layout_fields sizeof_wfs_sb_def round_up_def)
qed

text \<open>
  Claim C9 at a count that the initializer should not accept. The tests \<open>inode_count <= 0\<close> and
  \<open>block_count <= 0\<close> of \<open>main\<close> are made on \<open>size_t\<close> fields, where they only catch 0: \<open>-i -5\<close> is
  stored as \<open>2^64 - 5\<close> and accepted. The alignment wraps to 0, which is below the count, and
  \<open>main\<close> formats both disks and returns 0: \<open>create_filesystem\<close> gets a state with no inodes
  and lays the inode region and the data region at the same offset 512.
\<close>

theorem negative_count_accepted:
  "parse_args (\<lambda>_. 3) [''-r'', ''1'', ''-i'', ''-5'', ''-b'', ''32'', ''-d'', ''a'', ''-d'', ''b'']
       empty_disk_state [] =
     Inr (empty_disk_state\<lparr>ds_raid_mode := 1, inode_count := 18446744073709551611,
            block_count := 32\<rparr>, [(''a'', 3), (''b'', 3)])
   \<and> mkfs_main (\<lambda>_. 3) (\<lambda>_. Some 1048576) 7
       [''mkfs'', ''-r'', ''1'', ''-i'', ''-5'', ''-b'', ''32'', ''-d'', ''a'', ''-d'', ''b''] = 0
   \<and> get_aligned_size 18446744073709551611 = 0
   \<and> create_filesystem_sb
         (align_state (empty_disk_state\<lparr>ds_raid_mode := 1, inode_count := 18446744073709551611,
            block_count := 32\<rparr>) 2 7) =
       (\<lparr>num_inodes = 0, num_data_blocks = 32, i_bitmap_ptr = 64, d_bitmap_ptr = 64,
         i_blocks_ptr = 512, d_blocks_ptr = 512, fs_identifier = 7, sb_raid_mode = 1,
         sb_device_order = 0\<rparr>, 16896)"
  by (simp add: mkfs_main_def align_state_def atoi_simps char_at_def empty_disk_state_def
      MAX_DISK_COUNT_def get_aligned_size_def create_filesystem_def create_filesystem_sb_def
      calculate_layout_def sizeof_wfs_sb_def empty_sb_def WFS_OK_def WFS_ERROR_def Let_def
      to_int32_def)

section \<open>Running the server on concrete volumes\<close>

text \<open>
  Stores into an image given by segments put a new segment in front, so that the images of a
  run stay lists of segments with numerals, which the simplifier reads byte by byte.
\<close>

lemma store_bytes_image: "store_bytes (disk_image segs) a bs = disk_image ((a, bs) # segs)"
  by (rule ext) (simp add: store_bytes_def disk_image.simps)

lemma byte_of_int_mod: "(of_int (v mod 256) :: byte) = of_int v"
  by (simp add: word_of_int_eq_iff take_bit_eq_mod)

lemma store32_image:
  "store32 (disk_image segs) a v =
     disk_image ((a, [of_int (v mod 256), of_int (v div 256 mod 256),
                      of_int (v div 65536 mod 256), of_int (v div 16777216 mod 256)]) # segs)"
  by (rule ext) (auto simp: store32_def nth_Cons' byte_of_int_mod disk_image.simps)

lemma store64_image:
  "store64 (disk_image segs) a v =
     disk_image ((a, [of_int (v mod 256), of_int (v div 256 mod 256),
                      of_int (v div 65536 mod 256), of_int (v div 16777216 mod 256),
                      of_int (v div 4294967296 mod 256),
                      of_int (v div 4294967296 div 256 mod 256),
                      of_int (v div 4294967296 div 65536 mod 256),
                      of_int (v div 4294967296 div 16777216 mod 256)]) # segs)"
proof (rule ext)
  fix x
  show "store64 (disk_image segs) a v x =
        disk_image ((a, [of_int (v mod 256), of_int (v div 256 mod 256),
                      of_int (v div 65536 mod 256), of_int (v div 16777216 mod 256),
                      of_int (v div 4294967296 mod 256),
                      of_int (v div 4294967296 div 256 mod 256),
                      of_int (v div 4294967296 div 65536 mod 256),
                      of_int (v div 4294967296 div 16777216 mod 256)]) # segs) x"
    by (simp add: store64_def store32_image) (auto simp: nth_Cons' disk_image.simps)
qed

lemma zero_image: "(\<lambda>_. 0) = disk_image []"
  by (rule ext) (simp add: disk_image.simps)

lemma load_bytes_numeral:
  "load_bytes m a (numeral k) = m a # load_bytes m (a + 1) (pred_numeral k)"
  by (simp add: numeral_eq_Suc)

lemma list_update_numeral:
  "(x # xs)[numeral k := y] = x # xs[pred_numeral k := y]"
  by (simp add: numeral_eq_Suc)

lemma disk_range_simps:
  "disk_range 0 = []" "disk_range 1 = [0]" "disk_range 2 = [0, 1]" "disk_range 3 = [0, 1, 2]"
  by (simp_all add: disk_range_def upt_rec)

lemma first_clear_bit_numeral:
  "first_clear_bit w b (numeral k) =
     (if w AND push_bit b 1 = 0 then Some b else first_clear_bit w (Suc b) (pred_numeral k))"
  by (simp add: numeral_eq_Suc)

lemma allocate_bitmap_scan_numeral:
  "allocate_bitmap_scan m bitmap word_idx (numeral k) =
     (let w = load_u32 m (bitmap + 4 * word_idx)
      in if w \<noteq> 0xFFFFFFFF then
           (case first_clear_bit w 0 32 of
              Some b \<Rightarrow>
                (word_idx * 32 + int b,
                 store32 m (bitmap + 4 * word_idx) (uint (w OR push_bit b 1)))
            | None \<Rightarrow> allocate_bitmap_scan m bitmap (word_idx + 1) (pred_numeral k))
         else allocate_bitmap_scan m bitmap (word_idx + 1) (pred_numeral k))"
  by (simp add: numeral_eq_Suc)


text \<open>
  Reading a word of an image given by segments: a segment that the word does not touch is
  skipped as a whole, and a segment that holds the word gives its value. The rules below are
  the instances for the shapes of segment that the stores produce.
\<close>

lemma disk_image_skip:
  "x < a \<or> a + int (length bs) \<le> x \<Longrightarrow> disk_image ((a, bs) # segs) x = disk_image segs x"
  by (auto simp: disk_image.simps)

lemma disk_image_hit:
  "a \<le> x \<Longrightarrow> x < a + int (length bs) \<Longrightarrow> disk_image ((a, bs) # segs) x = bs ! nat (x - a)"
  by (simp add: disk_image.simps)

lemma le32_skip:
  assumes "x + 4 \<le> a \<or> a + int (length bs) \<le> x"
  shows "le32 (disk_image ((a, bs) # segs)) x = le32 (disk_image segs) x"
proof -
  have "disk_image ((a, bs) # segs) y = disk_image segs y" if "x \<le> y" "y < x + 4" for y
    using assms that by (intro disk_image_skip) linarith
  then show ?thesis
    unfolding le32_def by simp
qed

lemma le64_skip:
  assumes "x + 8 \<le> a \<or> a + int (length bs) \<le> x"
  shows "le64 (disk_image ((a, bs) # segs)) x = le64 (disk_image segs) x"
proof -
  have "le32 (disk_image ((a, bs) # segs)) x = le32 (disk_image segs) x"
    using assms by (intro le32_skip) linarith
  moreover have "le32 (disk_image ((a, bs) # segs)) (x + 4) = le32 (disk_image segs) (x + 4)"
    using assms by (intro le32_skip) linarith
  ultimately show ?thesis
    unfolding le64_def by simp
qed

lemma le32_hit:
  assumes "a \<le> x" "x + 4 \<le> a + int (length bs)"
  shows "le32 (disk_image ((a, bs) # segs)) x =
       uint (bs ! nat (x - a)) + 256 * uint (bs ! Suc (nat (x - a)))
       + 65536 * uint (bs ! Suc (Suc (nat (x - a))))
       + 16777216 * uint (bs ! Suc (Suc (Suc (nat (x - a)))))"
proof -
  have b: "disk_image ((a, bs) # segs) (x + int k) = bs ! (nat (x - a) + k)" if "k < 4" for k
  proof -
    have "nat (x + int k - a) = nat (x - a) + k"
      using assms by linarith
    moreover have "a \<le> x + int k" "x + int k < a + int (length bs)"
      using assms that by linarith+
    ultimately show ?thesis
      by (simp add: disk_image_hit)
  qed
  show ?thesis
    unfolding le32_def using b [of 0] b [of 1] b [of 2] b [of 3]
    by (simp add: eval_nat_numeral)
qed

lemma le32_seg4:
  "x = a \<Longrightarrow> le32 (disk_image ((a, [b0, b1, b2, b3]) # segs)) x =
     uint b0 + 256 * uint b1 + 65536 * uint b2 + 16777216 * uint b3"
  "x + 4 \<le> a \<or> a + 4 \<le> x \<Longrightarrow> le32 (disk_image ((a, [b0, b1, b2, b3]) # segs)) x = le32 (disk_image segs) x"
  using le32_hit [of a x "[b0, b1, b2, b3]" segs] le32_skip [of x a "[b0, b1, b2, b3]" segs]
  by simp_all

lemma le32_seg8:
  "x = a \<Longrightarrow> le32 (disk_image ((a, [b0, b1, b2, b3, b4, b5, b6, b7]) # segs)) x =
     uint b0 + 256 * uint b1 + 65536 * uint b2 + 16777216 * uint b3"
  "x = a + 4 \<Longrightarrow> le32 (disk_image ((a, [b0, b1, b2, b3, b4, b5, b6, b7]) # segs)) x =
     uint b4 + 256 * uint b5 + 65536 * uint b6 + 16777216 * uint b7"
  "x + 4 \<le> a \<or> a + 8 \<le> x \<Longrightarrow> le32 (disk_image ((a, [b0, b1, b2, b3, b4, b5, b6, b7]) # segs)) x = le32 (disk_image segs) x"
  using le32_hit [of a x "[b0, b1, b2, b3, b4, b5, b6, b7]" segs]
        le32_skip [of x a "[b0, b1, b2, b3, b4, b5, b6, b7]" segs]
  by simp_all

lemma le32_rep:
  "a \<le> x \<and> x + 4 \<le> a + int n \<Longrightarrow> le32 (disk_image ((a, replicate n v) # segs)) x = 16843009 * uint v"
  "x + 4 \<le> a \<or> a + int n \<le> x \<Longrightarrow> le32 (disk_image ((a, replicate n v) # segs)) x = le32 (disk_image segs) x"
proof -
  assume h: "a \<le> x \<and> x + 4 \<le> a + int n"
  then have "Suc (Suc (Suc (nat (x - a)))) < n"
    by linarith
  then show "le32 (disk_image ((a, replicate n v) # segs)) x = 16843009 * uint v"
    using h le32_hit [of a x "replicate n v" segs] by simp
next
  assume "x + 4 \<le> a \<or> a + int n \<le> x"
  then show "le32 (disk_image ((a, replicate n v) # segs)) x = le32 (disk_image segs) x"
    using le32_skip [of x a "replicate n v" segs] by simp
qed

lemma le32_seg1:
  "x + 4 \<le> a \<or> a + 1 \<le> x \<Longrightarrow> le32 (disk_image ((a, [b0]) # segs)) x = le32 (disk_image segs) x"
  using le32_skip [of x a "[b0]" segs] by simp

lemma le32_name:
  "x + 4 \<le> a \<or> a + 1 + int n \<le> x \<Longrightarrow> le32 (disk_image ((a, b # replicate n v) # segs)) x = le32 (disk_image segs) x"
  using le32_skip [of x a "b # replicate n v" segs] by (simp add: add.commute add.left_commute)

lemma le32_nil: "le32 (disk_image []) x = 0"
  by (simp add: le32_def disk_image.simps)

lemma le64_seg8:
  "x = a \<Longrightarrow> le64 (disk_image ((a, [b0, b1, b2, b3, b4, b5, b6, b7]) # segs)) x =
     uint b0 + 256 * uint b1 + 65536 * uint b2 + 16777216 * uint b3
     + 4294967296 * (uint b4 + 256 * uint b5 + 65536 * uint b6 + 16777216 * uint b7)"
  "x + 8 \<le> a \<or> a + 8 \<le> x \<Longrightarrow> le64 (disk_image ((a, [b0, b1, b2, b3, b4, b5, b6, b7]) # segs)) x = le64 (disk_image segs) x"
  using le64_skip [of x a "[b0, b1, b2, b3, b4, b5, b6, b7]" segs]
  by (simp_all add: le64_def le32_seg8)

lemma le64_seg4:
  "x + 8 \<le> a \<or> a + 4 \<le> x \<Longrightarrow> le64 (disk_image ((a, [b0, b1, b2, b3]) # segs)) x = le64 (disk_image segs) x"
  "\<not> (x + 8 \<le> a \<or> a + 4 \<le> x) \<Longrightarrow> le64 (disk_image ((a, [b0, b1, b2, b3]) # segs)) x =
      le32 (disk_image ((a, [b0, b1, b2, b3]) # segs)) x
      + 4294967296 * le32 (disk_image ((a, [b0, b1, b2, b3]) # segs)) (x + 4)"
  using le64_skip [of x a "[b0, b1, b2, b3]" segs]
  by (simp_all add: le64_def)

lemma le64_rep:
  "a \<le> x \<and> x + 8 \<le> a + int n \<Longrightarrow> le64 (disk_image ((a, replicate n v) # segs)) x = 72340172838076673 * uint v"
  "x + 8 \<le> a \<or> a + int n \<le> x \<Longrightarrow> le64 (disk_image ((a, replicate n v) # segs)) x = le64 (disk_image segs) x"
  using le64_skip [of x a "replicate n v" segs]
  by (simp_all add: le64_def le32_rep)

lemma le64_seg1:
  "x + 8 \<le> a \<or> a + 1 \<le> x \<Longrightarrow> le64 (disk_image ((a, [b0]) # segs)) x = le64 (disk_image segs) x"
  using le64_skip [of x a "[b0]" segs] by simp

lemma le64_name:
  "x + 8 \<le> a \<or> a + 1 + int n \<le> x \<Longrightarrow> le64 (disk_image ((a, b # replicate n v) # segs)) x = le64 (disk_image segs) x"
  using le64_skip [of x a "b # replicate n v" segs] by (simp add: add.commute add.left_commute)

lemma le64_nil: "le64 (disk_image []) x = 0"
  by (simp add: le64_def le32_def disk_image.simps)

lemmas word_simps = le32_seg4 le32_seg8 le32_rep le32_seg1 le32_name le32_nil
  le64_seg8 le64_seg4 le64_rep le64_seg1 le64_name le64_nil

lemma disk_image_seg1: "disk_image ((a, [b0]) # segs) x = (if x = a then b0 else disk_image segs x)"
  by (auto simp: disk_image.simps)

lemma disk_image_seg4:
  "disk_image ((a, [b0, b1, b2, b3]) # segs) x =
     (if x < a \<or> a + 4 \<le> x then disk_image segs x else [b0, b1, b2, b3] ! nat (x - a))"
  by (auto simp: disk_image.simps)

lemma disk_image_seg8:
  "disk_image ((a, [b0, b1, b2, b3, b4, b5, b6, b7]) # segs) x =
     (if x < a \<or> a + 8 \<le> x then disk_image segs x else [b0, b1, b2, b3, b4, b5, b6, b7] ! nat (x - a))"
  by (auto simp: disk_image.simps)

lemma disk_image_rep:
  "disk_image ((a, replicate n v) # segs) x =
     (if x < a \<or> a + int n \<le> x then disk_image segs x else v)"
  by (auto simp: disk_image.simps)

lemma disk_image_name:
  "disk_image ((a, b # replicate n v) # segs) x =
     (if x = a then b else if x < a \<or> a + 1 + int n \<le> x then disk_image segs x else v)"
  by (auto simp: nth_Cons' disk_image.simps)

lemmas byte_simps = disk_image_seg1 disk_image_seg4 disk_image_seg8 disk_image_rep disk_image_name

text \<open>An argument is evaluated before the function that consumes it is unfolded.\<close>

lemma bind_weak_cong: "x = y \<Longrightarrow> Option.bind x f = Option.bind y f"
  by simp

lemma case_prod_weak_cong: "p = q \<Longrightarrow> case_prod f p = case_prod f q"
  by simp

lemma for_each_weak_cong: "xs = ys \<Longrightarrow> s = t \<Longrightarrow> for_each xs body s = for_each ys body t"
  by simp

lemma map_option_weak_cong: "x = y \<Longrightarrow> map_option f x = map_option f y"
  by simp

lemmas weak_congs = bind_weak_cong case_prod_weak_cong for_each_weak_cong map_option_weak_cong

lemmas img_simps = store_bytes_image store32_image store64_image zero_image

lemmas mem_simps = word_simps byte_simps first_clear_bit_numeral allocate_bitmap_scan_numeral
  load_int_def load_u32_def load_off_def load_size_def
  load_bytes_numeral list_update_numeral disk_range_simps
  sb_num_inodes_def sb_num_data_blocks_def sb_i_bitmap_ptr_def sb_d_bitmap_ptr_def
  sb_i_blocks_ptr_def sb_d_blocks_ptr_def
  off_num_def off_mode_def off_size_def off_nlinks_def off_blocks_def off_dentry_num_def
  MAX_NAME_def sizeof_wfs_dentry_def
  D_BLOCK_def IND_BLOCK_def N_BLOCKS_def RAID0_def RAID1_def RAID1V_def
  ENOENT_def EIO_def EINVAL_def ENOSPC_def EEXIST_def BLOCK_SIZE_def S_IFREG_def S_IFDIR_def
  to_int32_def to_int64_def to_size_t_def region_def set_region_def Let_def

lemmas op_simps = get_inode_def release_bitmap_def release_block_def
  allocate_bitmap_block_def allocate_block_def create_inode_def
  get_block_location_def alloc_indirect_all_def store_block_all_def
  strcmp_eq_def strncpy_bytes_def lookup_dentry.simps locate_inode.simps
  find_inode_by_path_def path_next_def path_rest_def
  add_link_one_def add_link_def fill_dentry_def insert_scan.simps insert_dir_entry_def
  delete_scan.simps delete_dir_entry_def strip_slashes_def dirname_def basename_def
  wfs_mknod_def WFS_MKNOD_def

lemmas fs_op_simps = init_raid_manager_def
  prepare_read_operation_def piece_in_block_def checksum_scan.simps read_scan.simps
  wfs_read_loop.simps wfs_read_def
  prepare_write_operation_def piece_to_write_def write_scan.simps update_size_def
  wfs_write_loop.simps wfs_write_def
  prepare_delete_operation_def free_indirect_slots_def free_inode_blocks_def
  release_inode_all_def wfs_unlink_loop.simps wfs_unlink_def

text \<open>The images of the formatted volume, for the three modes and the first three disks.\<close>

lemma fresh_image_segments:
  "fresh_image mode ord =
     disk_image
      [(560, [7, 0, 0, 0, 0, 0, 0, 0]), (552, [7, 0, 0, 0, 0, 0, 0, 0]),
       (544, [7, 0, 0, 0, 0, 0, 0, 0]), (524, [232, 3, 0, 0]), (520, [232, 3, 0, 0]),
       (536, [1, 0, 0, 0]), (516, [237, 65, 0, 0]), (512, replicate 120 0),
       (64, [1, 0, 0, 0]),
       (56, [of_int (ord mod 256), of_int (ord div 256 mod 256),
             of_int (ord div 65536 mod 256), of_int (ord div 16777216 mod 256),
             of_int (ord div 4294967296 mod 256),
             of_int (ord div 4294967296 div 256 mod 256),
             of_int (ord div 4294967296 div 65536 mod 256),
             of_int (ord div 4294967296 div 16777216 mod 256)]),
       (52, [of_int (mode mod 256), of_int (mode div 256 mod 256),
             of_int (mode div 65536 mod 256), of_int (mode div 16777216 mod 256)]),
       (48, [7, 0, 0, 0]), (40, [0, 66, 0, 0, 0, 0, 0, 0]),
       (32, [0, 2, 0, 0, 0, 0, 0, 0]), (24, [68, 0, 0, 0, 0, 0, 0, 0]),
       (16, [64, 0, 0, 0, 0, 0, 0, 0]), (8, [32, 0, 0, 0, 0, 0, 0, 0]),
       (0, [32, 0, 0, 0, 0, 0, 0, 0])]"
  by (simp add: fresh_image_def create_filesystem_image_def create_filesystem_sb_def
      calculate_layout_def empty_disk_state_def empty_sb_def sizeof_wfs_sb_def Let_def
      write_sb_def write_root_def img_simps off_mode_def off_nlinks_def S_IFDIR_def)

lemma upt_small: "[0..<2] = [0, Suc 0]" "[0..<3] = [0, Suc 0, 2]"
  by (simp_all add: upt_rec)

lemmas fresh_simps = fresh_volume_def fresh_image_segments upt_small

lemma sdiv_nonneg: "0 \<le> a \<Longrightarrow> 0 \<le> b \<Longrightarrow> a sdiv b = a div (b :: int)"
  by (cases "a = 0"; cases "b = 0") (simp_all add: signed_divide_int_def sgn_if)

lemma smod_nonneg: "0 \<le> a \<Longrightarrow> 0 \<le> b \<Longrightarrow> a smod b = a mod (b :: int)"
  by (cases "a = 0"; cases "b = 0") (simp_all add: signed_modulo_int_def sgn_if)



lemma int_range_8: "map int [0..<8] = [0, 1, 2, 3, 4, 5, 6, 7]"
  by (simp add: upt_rec)

lemma for_each_range:
  "for_each (map int [i..<n]) body s =
     (if i < n
      then (case body (int i) s of None \<Rightarrow> None
            | Some s' \<Rightarrow> for_each (map int [Suc i..<n]) body s')
      else Some s)"
  by (cases "i < n") (simp_all add: upt_conv_Cons)

lemmas loop_simps = int_range_8 for_each_range

lemmas run_simps = fresh_simps mem_simps img_simps op_simps fs_op_simps sdiv_nonneg smod_nonneg
  loop_simps

section \<open>Loads and stores\<close>

lemma store32_outside: "x < a \<or> a + 4 \<le> x \<Longrightarrow> store32 m a v x = m x"
  by (auto simp: store32_def)

lemma store64_outside: "x < a \<or> a + 8 \<le> x \<Longrightarrow> store64 m a v x = m x"
  by (auto simp: store64_def store32_def)

lemma store_bytes_outside: "x < a \<or> a + int (length bs) \<le> x \<Longrightarrow> store_bytes m a bs x = m x"
  by (auto simp: store_bytes_def)

lemma le32_cong: "(\<And>x. a \<le> x \<Longrightarrow> x < a + 4 \<Longrightarrow> m x = m' x) \<Longrightarrow> le32 m a = le32 m' a"
  by (simp add: le32_def)

lemma le64_cong: "(\<And>x. a \<le> x \<Longrightarrow> x < a + 8 \<Longrightarrow> m x = m' x) \<Longrightarrow> le64 m a = le64 m' a"
  by (simp add: le64_def le32_def)

lemma load_int_cong: "(\<And>x. a \<le> x \<Longrightarrow> x < a + 4 \<Longrightarrow> m x = m' x) \<Longrightarrow> load_int m a = load_int m' a"
  by (simp add: load_int_def le32_cong[of a m m'])

lemma load_off_cong: "(\<And>x. a \<le> x \<Longrightarrow> x < a + 8 \<Longrightarrow> m x = m' x) \<Longrightarrow> load_off m a = load_off m' a"
  by (simp add: load_off_def le64_cong[of a m m'])

lemma load_bytes_cong:
  "(\<And>x. a \<le> x \<Longrightarrow> x < a + int n \<Longrightarrow> m x = m' x) \<Longrightarrow> load_bytes m a n = load_bytes m' a n"
  by (induction n arbitrary: a) auto

lemma uint_byte_of_int: "uint (of_int v :: byte) = v mod 256"
  by (simp add: uint_word_of_int take_bit_eq_mod)

lemma le32_store32: "le32 (store32 m a v) a = v mod 4294967296"
proof -
  have "le32 (store32 m a v) a =
        v mod 256 + 256 * (v div 256 mod 256) + 65536 * (v div 65536 mod 256)
          + 16777216 * (v div 16777216 mod 256)"
    by (simp add: le32_def store32_def uint_byte_of_int)
  also have "\<dots> = v mod 4294967296"
  proof -
    have a: "v mod 65536 = v mod 256 + 256 * (v div 256 mod 256)"
      using mod_mult2_eq'[of v 256 256] by simp
    have b: "v mod 16777216 = v mod 65536 + 65536 * (v div 65536 mod 256)"
      using mod_mult2_eq'[of v 65536 256] by simp
    have c: "v mod 4294967296 = v mod 16777216 + 16777216 * (v div 16777216 mod 256)"
      using mod_mult2_eq'[of v 16777216 256] by simp
    show ?thesis using a b c by linarith
  qed
  finally show ?thesis .
qed

lemma load_int_store32: "load_int (store32 m a v) a = to_int32 v"
  by (simp add: load_int_def to_int32_def le32_store32)

lemma le64_store64: "le64 (store64 m a v) a = v mod 18446744073709551616"
proof -
  have lo: "le32 (store64 m a v) a = v mod 4294967296"
  proof -
    have "le32 (store64 m a v) a = le32 (store32 m a v) a"
      unfolding store64_def by (rule le32_cong) (simp add: store32_outside)
    then show ?thesis
      by (simp add: le32_store32)
  qed
  have hi: "le32 (store64 m a v) (a + 4) = v div 4294967296 mod 4294967296"
    unfolding store64_def by (rule le32_store32)
  have "v mod 18446744073709551616 = v mod 4294967296 + 4294967296 * (v div 4294967296 mod 4294967296)"
    using mod_mult2_eq'[of v 4294967296 4294967296] by simp
  then show ?thesis
    unfolding le64_def lo hi by simp
qed

lemma load_off_store64: "load_off (store64 m a v) a = to_int64 v"
  by (simp add: load_off_def to_int64_def le64_store64)


section \<open>Directory entries\<close>

lemma region_set_region:
  "region s d = Some m0 \<Longrightarrow> region (set_region s d m) d' = (if d' = d then Some m else region s d')"
  by (auto simp: region_def set_region_def nth_list_update split: if_splits)

lemma set_region_globals [simp]:
  "raid_mode (set_region s d m) = raid_mode s"
  "total_devices (set_region s d m) = total_devices s"
  "error_code (set_region s d m) = error_code s"
  by (simp_all add: set_region_def)

lemma wr_int_Some:
  "wr_int s p v = Some s' \<Longrightarrow> \<exists>d a m. p = Ptr d a \<and> region s d = Some m \<and> s' = set_region s d (store32 m a v)"
  by (cases p) auto

lemma rd_int_Some:
  "rd_int s p = Some v \<Longrightarrow> \<exists>d a m. p = Ptr d a \<and> region s d = Some m \<and> v = load_int m a"
  by (cases p) auto

text \<open>The delete loop: when the first entry holding the number is slot j\<close>

lemma delete_scan_finds:
  assumes "0 \<le> i" "i \<le> j" "32 * j < sz"
      and slot: "get_block_location s inode (32 * j) False disk = Some (Ptr d a, s)"
                "region s d = Some m" "load_int m (a + 28) = inum"
      and before: "\<forall>k. i \<le> k \<and> k < j \<longrightarrow>
                    (\<exists>q n. get_block_location s inode (32 * k) False disk = Some (q, s)
                           \<and> rd_int s (ptr_add q off_dentry_num) = Some n \<and> n \<noteq> inum)"
  shows "delete_scan s inode inum disk sz (32 * i) = Some (0, set_region s d (store32 m (a + 28) 0))"
  using assms
proof (induction "nat (j - i)" arbitrary: i)
  case 0
  then have ij: "i = j" by simp
  show ?case
    using 0 by (subst delete_scan.simps) (simp add: ij off_dentry_num_def)
next
  case (Suc n)
  then have lt: "i < j" by linarith
  from Suc.prems(7) lt obtain q k where
    q: "get_block_location s inode (32 * i) False disk = Some (q, s)"
       "rd_int s (ptr_add q off_dentry_num) = Some k" "k \<noteq> inum"
    by (metis order_refl)
  have n: "n = nat (j - (i + 1))" using Suc.hyps(2) by linarith
  have step: "delete_scan s inode inum disk sz (32 * (i + 1)) = Some (0, set_region s d (store32 m (a + 28) 0))"
    using Suc.prems lt by (intro Suc.hyps(1)[OF n]) auto
  have "32 * i < sz" using lt Suc.prems(3) by linarith
  then show ?case
    using q step
    by (subst delete_scan.simps) (simp add: sizeof_wfs_dentry_def algebra_simps)
qed


lemma store32_zero_inside: "a \<le> x \<Longrightarrow> x < a + 4 \<Longrightarrow> store32 m a 0 x = 0"
  by (auto simp: store32_def)

lemma byte_at_set_region:
  "region s d = Some m0 \<Longrightarrow>
   byte_at (set_region s d m) d' x = (if d' = d then Some (m x) else byte_at s d' x)"
  by (simp add: byte_at_def region_set_region)

text \<open>
  Claim C10: when the first entry of a directory that holds the number \<open>inum\<close> is slot \<open>j\<close>
  (the resolver gives its address and leaves the state alone, there and at the slots before
  it), \<open>delete_dir_entry\<close> returns 0 and the only bytes of all the images that change are the four
  bytes of the number of that slot, which become zero: the 28 bytes of its name, every other
  slot and every other disk are as before, the globals are unchanged, and so are the size and
  the link count of the directory, whose inode does not hold the slot.
\<close>

theorem delete_dir_entry_frame:
  assumes sz: "rd_off s (ptr_add inode off_size) = Some sz"
      and j: "0 \<le> j" "32 * j < to_size_t sz"
      and slot: "get_block_location s inode (32 * j) False disk = Some (Ptr d a, s)"
                "region s d = Some m" "load_int m (a + 28) = inum"
      and before: "\<forall>k. 0 \<le> k \<and> k < j \<longrightarrow>
                    (\<exists>q n. get_block_location s inode (32 * k) False disk = Some (q, s)
                           \<and> rd_int s (ptr_add q off_dentry_num) = Some n \<and> n \<noteq> inum)"
  shows "\<exists>s'. delete_dir_entry s inode inum disk = Some (0, s')
          \<and> (\<forall>x. a + 28 \<le> x \<and> x < a + 32 \<longrightarrow> byte_at s' d x = Some 0)
          \<and> (\<forall>d' x. \<not> (d' = d \<and> a + 28 \<le> x \<and> x < a + 32) \<longrightarrow> byte_at s' d' x = byte_at s d' x)
          \<and> rd_bytes s' (Ptr d a) MAX_NAME = rd_bytes s (Ptr d a) MAX_NAME
          \<and> raid_mode s' = raid_mode s \<and> total_devices s' = total_devices s
          \<and> error_code s' = error_code s
          \<and> (\<forall>di ai. inode = Ptr di ai \<and> (di \<noteq> d \<or> a + 32 \<le> ai + 16 \<or> ai + 28 \<le> a + 28) \<longrightarrow>
                 rd_off s' (ptr_add inode off_size) = rd_off s (ptr_add inode off_size)
               \<and> rd_int s' (ptr_add inode off_nlinks) = rd_int s (ptr_add inode off_nlinks))"
proof -
  let ?m' = "store32 m (a + 28) 0"
  let ?s' = "set_region s d ?m'"
  have scan: "delete_scan s inode inum disk (to_size_t sz) (32 * 0) = Some (0, ?s')"
    using j slot before by (intro delete_scan_finds[where j = j]) auto
  have r: "delete_dir_entry s inode inum disk = Some (0, ?s')"
    using scan sz by (simp add: delete_dir_entry_def)
  have reg: "\<And>d'. region ?s' d' = (if d' = d then Some ?m' else region s d')"
    by (rule region_set_region[OF slot(2)])
  have inside: "\<forall>x. a + 28 \<le> x \<and> x < a + 32 \<longrightarrow> byte_at ?s' d x = Some 0"
    by (simp add: byte_at_set_region[OF slot(2)] store32_zero_inside)
  have outside: "\<forall>d' x. \<not> (d' = d \<and> a + 28 \<le> x \<and> x < a + 32) \<longrightarrow> byte_at ?s' d' x = byte_at s d' x"
    using slot(2) by (auto simp: byte_at_def reg store32_outside)
  have name: "rd_bytes ?s' (Ptr d a) MAX_NAME = rd_bytes s (Ptr d a) MAX_NAME"
  proof -
    have "load_bytes ?m' a MAX_NAME = load_bytes m a MAX_NAME"
      by (rule load_bytes_cong) (simp add: MAX_NAME_def store32_outside)
    then show ?thesis by (simp add: reg slot(2))
  qed
  have fields: "rd_off ?s' (ptr_add inode off_size) = rd_off s (ptr_add inode off_size)
              \<and> rd_int ?s' (ptr_add inode off_nlinks) = rd_int s (ptr_add inode off_nlinks)"
    if "inode = Ptr di ai" and dis: "di \<noteq> d \<or> a + 32 \<le> ai + 16 \<or> ai + 28 \<le> a + 28" for di ai
  proof (cases "di = d")
    case False
    then show ?thesis using that by (simp add: reg)
  next
    case True
    have "load_off ?m' (ai + 16) = load_off m (ai + 16)"
      using dis True by (intro load_off_cong) (auto simp: store32_outside)
    moreover have "load_int ?m' (ai + 24) = load_int m (ai + 24)"
      using dis True by (intro load_int_cong) (auto simp: store32_outside)
    ultimately show ?thesis
      using that True slot(2) by (simp add: reg off_size_def off_nlinks_def)
  qed
  show ?thesis
    using r inside outside name fields by (intro exI[of _ ?s']) (simp add: set_region_globals)
qed

subsection \<open>The sessions, call by call\<close>

text \<open>
  The value of every call of the sessions: the result with the images and the manager that the
  call leaves.
\<close>

lemma mirror_created_image:
  "mirror_created =
     Some (0, \<lparr>fs_memory_regions = [disk_image [(528, [0, 2, 0, 0, 0, 0, 0, 0]), (536, [2,
       0, 0, 0]), (16896, 97 # replicate 27 0), (16924, [1, 0, 0, 0]), (568, [0, 66, 0, 0, 0, 0,
       0, 0]), (68, [1, 0, 0, 0]), (1072, [8, 0, 0, 0, 0, 0, 0, 0]), (1064, [8, 0, 0, 0, 0, 0, 0,
       0]), (1056, [8, 0, 0, 0, 0, 0, 0, 0]), (1048, [1, 0, 0, 0]), (1040, [0, 0, 0, 0, 0, 0, 0,
       0]), (1036, [232, 3, 0, 0]), (1032, [232, 3, 0, 0]), (1028, [164, 129, 0, 0]), (1024, [1,
       0, 0, 0]), (64, [3, 0, 0, 0]), (560, [7, 0, 0, 0, 0, 0, 0, 0]), (552, [7, 0, 0, 0, 0, 0,
       0, 0]), (544, [7, 0, 0, 0, 0, 0, 0, 0]), (524, [232, 3, 0, 0]), (520, [232, 3, 0, 0]),
       (536, [1, 0, 0, 0]), (516, [237, 65, 0, 0]), (512, replicate 120 0), (64, [1, 0, 0, 0]),
       (56, [0, 0, 0, 0, 0, 0, 0, 0]), (52, [1, 0, 0, 0]), (48, [7, 0, 0, 0]), (40, [0, 66, 0, 0,
       0, 0, 0, 0]), (32, [0, 2, 0, 0, 0, 0, 0, 0]), (24, [68, 0, 0, 0, 0, 0, 0, 0]), (16, [64,
       0, 0, 0, 0, 0, 0, 0]), (8, [32, 0, 0, 0, 0, 0, 0, 0]), (0, [32, 0, 0, 0, 0, 0, 0, 0])],
       disk_image [(528, [0, 2, 0, 0, 0, 0, 0, 0]), (536, [2, 0, 0, 0]), (16896,
       97 # replicate 27 0), (16924, [1, 0, 0, 0]), (568, [0, 66, 0, 0, 0, 0, 0, 0]), (68, [1, 0,
       0, 0]), (1072, [8, 0, 0, 0, 0, 0, 0, 0]), (1064, [8, 0, 0, 0, 0, 0, 0, 0]), (1056, [8, 0,
       0, 0, 0, 0, 0, 0]), (1048, [1, 0, 0, 0]), (1040, [0, 0, 0, 0, 0, 0, 0, 0]), (1036, [232,
       3, 0, 0]), (1032, [232, 3, 0, 0]), (1028, [164, 129, 0, 0]), (1024, [1, 0, 0, 0]), (64,
       [3, 0, 0, 0]), (560, [7, 0, 0, 0, 0, 0, 0, 0]), (552, [7, 0, 0, 0, 0, 0, 0, 0]), (544, [7,
       0, 0, 0, 0, 0, 0, 0]), (524, [232, 3, 0, 0]), (520, [232, 3, 0, 0]), (536, [1, 0, 0, 0]),
       (516, [237, 65, 0, 0]), (512, replicate 120 0), (64, [1, 0, 0, 0]), (56, [1, 0, 0, 0, 0,
       0, 0, 0]), (52, [1, 0, 0, 0]), (48, [7, 0, 0, 0]), (40, [0, 66, 0, 0, 0, 0, 0, 0]), (32,
       [0, 2, 0, 0, 0, 0, 0, 0]), (24, [68, 0, 0, 0, 0, 0, 0, 0]), (16, [64, 0, 0, 0, 0, 0, 0,
       0]), (8, [32, 0, 0, 0, 0, 0, 0, 0]), (0, [32, 0, 0, 0, 0, 0, 0, 0])]], raid_mode = 1,
       total_devices = 2, error_code = 0\<rparr>)"
  by (simp add: mirror_created_def run_simps cong: weak_congs)

lemma mirror_written_image:
  "mirror_written =
     Some (1, \<lparr>fs_memory_regions = [disk_image [(1040, [1, 0, 0, 0, 0, 0, 0, 0]), (17408,
       [120]), (1080, [0, 68, 0, 0, 0, 0, 0, 0]), (68, [3, 0, 0, 0]), (528, [0, 2, 0, 0, 0, 0, 0,
       0]), (536, [2, 0, 0, 0]), (16896, 97 # replicate 27 0), (16924, [1, 0, 0, 0]), (568, [0,
       66, 0, 0, 0, 0, 0, 0]), (68, [1, 0, 0, 0]), (1072, [8, 0, 0, 0, 0, 0, 0, 0]), (1064, [8,
       0, 0, 0, 0, 0, 0, 0]), (1056, [8, 0, 0, 0, 0, 0, 0, 0]), (1048, [1, 0, 0, 0]), (1040, [0,
       0, 0, 0, 0, 0, 0, 0]), (1036, [232, 3, 0, 0]), (1032, [232, 3, 0, 0]), (1028, [164, 129,
       0, 0]), (1024, [1, 0, 0, 0]), (64, [3, 0, 0, 0]), (560, [7, 0, 0, 0, 0, 0, 0, 0]), (552,
       [7, 0, 0, 0, 0, 0, 0, 0]), (544, [7, 0, 0, 0, 0, 0, 0, 0]), (524, [232, 3, 0, 0]), (520,
       [232, 3, 0, 0]), (536, [1, 0, 0, 0]), (516, [237, 65, 0, 0]), (512, replicate 120 0), (64,
       [1, 0, 0, 0]), (56, [0, 0, 0, 0, 0, 0, 0, 0]), (52, [1, 0, 0, 0]), (48, [7, 0, 0, 0]),
       (40, [0, 66, 0, 0, 0, 0, 0, 0]), (32, [0, 2, 0, 0, 0, 0, 0, 0]), (24, [68, 0, 0, 0, 0, 0,
       0, 0]), (16, [64, 0, 0, 0, 0, 0, 0, 0]), (8, [32, 0, 0, 0, 0, 0, 0, 0]), (0, [32, 0, 0, 0,
       0, 0, 0, 0])], disk_image [(1040, [1, 0, 0, 0, 0, 0, 0, 0]), (17408, [120]), (1080, [0,
       68, 0, 0, 0, 0, 0, 0]), (68, [3, 0, 0, 0]), (528, [0, 2, 0, 0, 0, 0, 0, 0]), (536, [2, 0,
       0, 0]), (16896, 97 # replicate 27 0), (16924, [1, 0, 0, 0]), (568, [0, 66, 0, 0, 0, 0, 0,
       0]), (68, [1, 0, 0, 0]), (1072, [8, 0, 0, 0, 0, 0, 0, 0]), (1064, [8, 0, 0, 0, 0, 0, 0,
       0]), (1056, [8, 0, 0, 0, 0, 0, 0, 0]), (1048, [1, 0, 0, 0]), (1040, [0, 0, 0, 0, 0, 0, 0,
       0]), (1036, [232, 3, 0, 0]), (1032, [232, 3, 0, 0]), (1028, [164, 129, 0, 0]), (1024, [1,
       0, 0, 0]), (64, [3, 0, 0, 0]), (560, [7, 0, 0, 0, 0, 0, 0, 0]), (552, [7, 0, 0, 0, 0, 0,
       0, 0]), (544, [7, 0, 0, 0, 0, 0, 0, 0]), (524, [232, 3, 0, 0]), (520, [232, 3, 0, 0]),
       (536, [1, 0, 0, 0]), (516, [237, 65, 0, 0]), (512, replicate 120 0), (64, [1, 0, 0, 0]),
       (56, [1, 0, 0, 0, 0, 0, 0, 0]), (52, [1, 0, 0, 0]), (48, [7, 0, 0, 0]), (40, [0, 66, 0, 0,
       0, 0, 0, 0]), (32, [0, 2, 0, 0, 0, 0, 0, 0]), (24, [68, 0, 0, 0, 0, 0, 0, 0]), (16, [64,
       0, 0, 0, 0, 0, 0, 0]), (8, [32, 0, 0, 0, 0, 0, 0, 0]), (0, [32, 0, 0, 0, 0, 0, 0, 0])]],
       raid_mode = 1, total_devices = 2, error_code = 0\<rparr>, \<lparr>state = INIT,
       current_disk = 1, total_disks = 2, raid_type = 1, buffer_size = 1,
       operation_id = 1\<rparr>)"
  by (simp add: mirror_written_def mirror_volume_def mirror_created_image run_simps cong: weak_congs)

lemma mirror_removed_image:
  "mirror_removed =
     Some (0, \<lparr>fs_memory_regions = [disk_image [(64, [3, 0, 0, 0]), (1024,
       replicate 512 0), (16924, [0, 0, 0, 0]), (68, [1, 0, 0, 0]), (17408, replicate 512 0),
       (1040, [1, 0, 0, 0, 0, 0, 0, 0]), (17408, [120]), (1080, [0, 68, 0, 0, 0, 0, 0, 0]), (68,
       [3, 0, 0, 0]), (528, [0, 2, 0, 0, 0, 0, 0, 0]), (536, [2, 0, 0, 0]), (16896,
       97 # replicate 27 0), (16924, [1, 0, 0, 0]), (568, [0, 66, 0, 0, 0, 0, 0, 0]), (68, [1, 0,
       0, 0]), (1072, [8, 0, 0, 0, 0, 0, 0, 0]), (1064, [8, 0, 0, 0, 0, 0, 0, 0]), (1056, [8, 0,
       0, 0, 0, 0, 0, 0]), (1048, [1, 0, 0, 0]), (1040, [0, 0, 0, 0, 0, 0, 0, 0]), (1036, [232,
       3, 0, 0]), (1032, [232, 3, 0, 0]), (1028, [164, 129, 0, 0]), (1024, [1, 0, 0, 0]), (64,
       [3, 0, 0, 0]), (560, [7, 0, 0, 0, 0, 0, 0, 0]), (552, [7, 0, 0, 0, 0, 0, 0, 0]), (544, [7,
       0, 0, 0, 0, 0, 0, 0]), (524, [232, 3, 0, 0]), (520, [232, 3, 0, 0]), (536, [1, 0, 0, 0]),
       (516, [237, 65, 0, 0]), (512, replicate 120 0), (64, [1, 0, 0, 0]), (56, [0, 0, 0, 0, 0,
       0, 0, 0]), (52, [1, 0, 0, 0]), (48, [7, 0, 0, 0]), (40, [0, 66, 0, 0, 0, 0, 0, 0]), (32,
       [0, 2, 0, 0, 0, 0, 0, 0]), (24, [68, 0, 0, 0, 0, 0, 0, 0]), (16, [64, 0, 0, 0, 0, 0, 0,
       0]), (8, [32, 0, 0, 0, 0, 0, 0, 0]), (0, [32, 0, 0, 0, 0, 0, 0, 0])], disk_image [(64, [3,
       0, 0, 0]), (1024, replicate 512 0), (16924, [0, 0, 0, 0]), (68, [1, 0, 0, 0]), (17408,
       replicate 512 0), (1040, [1, 0, 0, 0, 0, 0, 0, 0]), (17408, [120]), (1080, [0, 68, 0, 0,
       0, 0, 0, 0]), (68, [3, 0, 0, 0]), (528, [0, 2, 0, 0, 0, 0, 0, 0]), (536, [2, 0, 0, 0]),
       (16896, 97 # replicate 27 0), (16924, [1, 0, 0, 0]), (568, [0, 66, 0, 0, 0, 0, 0, 0]),
       (68, [1, 0, 0, 0]), (1072, [8, 0, 0, 0, 0, 0, 0, 0]), (1064, [8, 0, 0, 0, 0, 0, 0, 0]),
       (1056, [8, 0, 0, 0, 0, 0, 0, 0]), (1048, [1, 0, 0, 0]), (1040, [0, 0, 0, 0, 0, 0, 0, 0]),
       (1036, [232, 3, 0, 0]), (1032, [232, 3, 0, 0]), (1028, [164, 129, 0, 0]), (1024, [1, 0, 0,
       0]), (64, [3, 0, 0, 0]), (560, [7, 0, 0, 0, 0, 0, 0, 0]), (552, [7, 0, 0, 0, 0, 0, 0, 0]),
       (544, [7, 0, 0, 0, 0, 0, 0, 0]), (524, [232, 3, 0, 0]), (520, [232, 3, 0, 0]), (536, [1,
       0, 0, 0]), (516, [237, 65, 0, 0]), (512, replicate 120 0), (64, [1, 0, 0, 0]), (56, [1, 0,
       0, 0, 0, 0, 0, 0]), (52, [1, 0, 0, 0]), (48, [7, 0, 0, 0]), (40, [0, 66, 0, 0, 0, 0, 0,
       0]), (32, [0, 2, 0, 0, 0, 0, 0, 0]), (24, [68, 0, 0, 0, 0, 0, 0, 0]), (16, [64, 0, 0, 0,
       0, 0, 0, 0]), (8, [32, 0, 0, 0, 0, 0, 0, 0]), (0, [32, 0, 0, 0, 0, 0, 0, 0])]],
       raid_mode = 1, total_devices = 2, error_code = 0\<rparr>, \<lparr>state = INIT,
       current_disk = 1, total_disks = 2, raid_type = 1, buffer_size = 1,
       operation_id = 2\<rparr>)"
  by (simp add: mirror_removed_def mirror_written_image run_simps cong: weak_congs)

lemma mirror_second_image:
  "mirror_second =
     Some (0, \<lparr>fs_memory_regions = [disk_image [(536, [3, 0, 0, 0]), (16928,
       98 # replicate 27 0), (16956, [2, 0, 0, 0]), (1584, [8, 0, 0, 0, 0, 0, 0, 0]), (1576, [8,
       0, 0, 0, 0, 0, 0, 0]), (1568, [8, 0, 0, 0, 0, 0, 0, 0]), (1560, [1, 0, 0, 0]), (1552, [0,
       0, 0, 0, 0, 0, 0, 0]), (1548, [232, 3, 0, 0]), (1544, [232, 3, 0, 0]), (1540, [164, 129,
       0, 0]), (1536, [2, 0, 0, 0]), (64, [7, 0, 0, 0]), (528, [0, 2, 0, 0, 0, 0, 0, 0]), (536,
       [2, 0, 0, 0]), (16896, 97 # replicate 27 0), (16924, [1, 0, 0, 0]), (568, [0, 66, 0, 0, 0,
       0, 0, 0]), (68, [1, 0, 0, 0]), (1072, [8, 0, 0, 0, 0, 0, 0, 0]), (1064, [8, 0, 0, 0, 0, 0,
       0, 0]), (1056, [8, 0, 0, 0, 0, 0, 0, 0]), (1048, [1, 0, 0, 0]), (1040, [0, 0, 0, 0, 0, 0,
       0, 0]), (1036, [232, 3, 0, 0]), (1032, [232, 3, 0, 0]), (1028, [164, 129, 0, 0]), (1024,
       [1, 0, 0, 0]), (64, [3, 0, 0, 0]), (560, [7, 0, 0, 0, 0, 0, 0, 0]), (552, [7, 0, 0, 0, 0,
       0, 0, 0]), (544, [7, 0, 0, 0, 0, 0, 0, 0]), (524, [232, 3, 0, 0]), (520, [232, 3, 0, 0]),
       (536, [1, 0, 0, 0]), (516, [237, 65, 0, 0]), (512, replicate 120 0), (64, [1, 0, 0, 0]),
       (56, [0, 0, 0, 0, 0, 0, 0, 0]), (52, [1, 0, 0, 0]), (48, [7, 0, 0, 0]), (40, [0, 66, 0, 0,
       0, 0, 0, 0]), (32, [0, 2, 0, 0, 0, 0, 0, 0]), (24, [68, 0, 0, 0, 0, 0, 0, 0]), (16, [64,
       0, 0, 0, 0, 0, 0, 0]), (8, [32, 0, 0, 0, 0, 0, 0, 0]), (0, [32, 0, 0, 0, 0, 0, 0, 0])],
       disk_image [(536, [3, 0, 0, 0]), (16928, 98 # replicate 27 0), (16956, [2, 0, 0, 0]),
       (1584, [8, 0, 0, 0, 0, 0, 0, 0]), (1576, [8, 0, 0, 0, 0, 0, 0, 0]), (1568, [8, 0, 0, 0, 0,
       0, 0, 0]), (1560, [1, 0, 0, 0]), (1552, [0, 0, 0, 0, 0, 0, 0, 0]), (1548, [232, 3, 0, 0]),
       (1544, [232, 3, 0, 0]), (1540, [164, 129, 0, 0]), (1536, [2, 0, 0, 0]), (64, [7, 0, 0,
       0]), (528, [0, 2, 0, 0, 0, 0, 0, 0]), (536, [2, 0, 0, 0]), (16896, 97 # replicate 27 0),
       (16924, [1, 0, 0, 0]), (568, [0, 66, 0, 0, 0, 0, 0, 0]), (68, [1, 0, 0, 0]), (1072, [8, 0,
       0, 0, 0, 0, 0, 0]), (1064, [8, 0, 0, 0, 0, 0, 0, 0]), (1056, [8, 0, 0, 0, 0, 0, 0, 0]),
       (1048, [1, 0, 0, 0]), (1040, [0, 0, 0, 0, 0, 0, 0, 0]), (1036, [232, 3, 0, 0]), (1032,
       [232, 3, 0, 0]), (1028, [164, 129, 0, 0]), (1024, [1, 0, 0, 0]), (64, [3, 0, 0, 0]), (560,
       [7, 0, 0, 0, 0, 0, 0, 0]), (552, [7, 0, 0, 0, 0, 0, 0, 0]), (544, [7, 0, 0, 0, 0, 0, 0,
       0]), (524, [232, 3, 0, 0]), (520, [232, 3, 0, 0]), (536, [1, 0, 0, 0]), (516, [237, 65, 0,
       0]), (512, replicate 120 0), (64, [1, 0, 0, 0]), (56, [1, 0, 0, 0, 0, 0, 0, 0]), (52, [1,
       0, 0, 0]), (48, [7, 0, 0, 0]), (40, [0, 66, 0, 0, 0, 0, 0, 0]), (32, [0, 2, 0, 0, 0, 0, 0,
       0]), (24, [68, 0, 0, 0, 0, 0, 0, 0]), (16, [64, 0, 0, 0, 0, 0, 0, 0]), (8, [32, 0, 0, 0,
       0, 0, 0, 0]), (0, [32, 0, 0, 0, 0, 0, 0, 0])]], raid_mode = 1, total_devices = 2,
       error_code = 0\<rparr>)"
  by (simp add: mirror_second_def mirror_volume_def mirror_created_image run_simps cong: weak_congs)

lemma mirror_filled_image:
  "mirror_filled =
     Some (0, \<lparr>fs_memory_regions = [disk_image [(21176, [0, 0, 0, 0, 0, 0, 0, 0]), (32768,
       replicate 512 1), (21168, [0, 128, 0, 0, 0, 0, 0, 0]), (68, [255, 255, 255, 255]), (32256,
       replicate 512 1), (21160, [0, 126, 0, 0, 0, 0, 0, 0]), (68, [255, 255, 255, 127]), (31744,
       replicate 512 1), (21152, [0, 124, 0, 0, 0, 0, 0, 0]), (68, [255, 255, 255, 63]), (31232,
       replicate 512 1), (21144, [0, 122, 0, 0, 0, 0, 0, 0]), (68, [255, 255, 255, 31]), (30720,
       replicate 512 1), (21136, [0, 120, 0, 0, 0, 0, 0, 0]), (68, [255, 255, 255, 15]), (30208,
       replicate 512 1), (21128, [0, 118, 0, 0, 0, 0, 0, 0]), (68, [255, 255, 255, 7]), (29696,
       replicate 512 1), (21120, [0, 116, 0, 0, 0, 0, 0, 0]), (68, [255, 255, 255, 3]), (29184,
       replicate 512 1), (21112, [0, 114, 0, 0, 0, 0, 0, 0]), (68, [255, 255, 255, 1]), (28672,
       replicate 512 1), (21104, [0, 112, 0, 0, 0, 0, 0, 0]), (68, [255, 255, 255, 0]), (28160,
       replicate 512 1), (21096, [0, 110, 0, 0, 0, 0, 0, 0]), (68, [255, 255, 127, 0]), (27648,
       replicate 512 1), (21088, [0, 108, 0, 0, 0, 0, 0, 0]), (68, [255, 255, 63, 0]), (27136,
       replicate 512 1), (21080, [0, 106, 0, 0, 0, 0, 0, 0]), (68, [255, 255, 31, 0]), (26624,
       replicate 512 1), (21072, [0, 104, 0, 0, 0, 0, 0, 0]), (68, [255, 255, 15, 0]), (26112,
       replicate 512 1), (21064, [0, 102, 0, 0, 0, 0, 0, 0]), (68, [255, 255, 7, 0]), (25600,
       replicate 512 1), (21056, [0, 100, 0, 0, 0, 0, 0, 0]), (68, [255, 255, 3, 0]), (25088,
       replicate 512 1), (21048, [0, 98, 0, 0, 0, 0, 0, 0]), (68, [255, 255, 1, 0]), (24576,
       replicate 512 1), (21040, [0, 96, 0, 0, 0, 0, 0, 0]), (68, [255, 255, 0, 0]), (24064,
       replicate 512 1), (21032, [0, 94, 0, 0, 0, 0, 0, 0]), (68, [255, 127, 0, 0]), (23552,
       replicate 512 1), (21024, [0, 92, 0, 0, 0, 0, 0, 0]), (68, [255, 63, 0, 0]), (23040,
       replicate 512 1), (21016, [0, 90, 0, 0, 0, 0, 0, 0]), (68, [255, 31, 0, 0]), (22528,
       replicate 512 1), (21008, [0, 88, 0, 0, 0, 0, 0, 0]), (68, [255, 15, 0, 0]), (22016,
       replicate 512 1), (21000, [0, 86, 0, 0, 0, 0, 0, 0]), (68, [255, 7, 0, 0]), (21504,
       replicate 512 1), (20992, [0, 84, 0, 0, 0, 0, 0, 0]), (68, [255, 3, 0, 0]), (1136, [0, 82,
       0, 0, 0, 0, 0, 0]), (68, [255, 1, 0, 0]), (20480, replicate 512 1), (1128, [0, 80, 0, 0,
       0, 0, 0, 0]), (68, [255, 0, 0, 0]), (19968, replicate 512 1), (1120, [0, 78, 0, 0, 0, 0,
       0, 0]), (68, [127, 0, 0, 0]), (19456, replicate 512 1), (1112, [0, 76, 0, 0, 0, 0, 0, 0]),
       (68, [63, 0, 0, 0]), (18944, replicate 512 1), (1104, [0, 74, 0, 0, 0, 0, 0, 0]), (68,
       [31, 0, 0, 0]), (18432, replicate 512 1), (1096, [0, 72, 0, 0, 0, 0, 0, 0]), (68, [15, 0,
       0, 0]), (17920, replicate 512 1), (1088, [0, 70, 0, 0, 0, 0, 0, 0]), (68, [7, 0, 0, 0]),
       (17408, replicate 512 1), (1080, [0, 68, 0, 0, 0, 0, 0, 0]), (68, [3, 0, 0, 0]), (528, [0,
       2, 0, 0, 0, 0, 0, 0]), (536, [2, 0, 0, 0]), (16896, 97 # replicate 27 0), (16924, [1, 0,
       0, 0]), (568, [0, 66, 0, 0, 0, 0, 0, 0]), (68, [1, 0, 0, 0]), (1072, [8, 0, 0, 0, 0, 0, 0,
       0]), (1064, [8, 0, 0, 0, 0, 0, 0, 0]), (1056, [8, 0, 0, 0, 0, 0, 0, 0]), (1048, [1, 0, 0,
       0]), (1040, [0, 0, 0, 0, 0, 0, 0, 0]), (1036, [232, 3, 0, 0]), (1032, [232, 3, 0, 0]),
       (1028, [164, 129, 0, 0]), (1024, [1, 0, 0, 0]), (64, [3, 0, 0, 0]), (560, [7, 0, 0, 0, 0,
       0, 0, 0]), (552, [7, 0, 0, 0, 0, 0, 0, 0]), (544, [7, 0, 0, 0, 0, 0, 0, 0]), (524, [232,
       3, 0, 0]), (520, [232, 3, 0, 0]), (536, [1, 0, 0, 0]), (516, [237, 65, 0, 0]), (512,
       replicate 120 0), (64, [1, 0, 0, 0]), (56, [0, 0, 0, 0, 0, 0, 0, 0]), (52, [1, 0, 0, 0]),
       (48, [7, 0, 0, 0]), (40, [0, 66, 0, 0, 0, 0, 0, 0]), (32, [0, 2, 0, 0, 0, 0, 0, 0]), (24,
       [68, 0, 0, 0, 0, 0, 0, 0]), (16, [64, 0, 0, 0, 0, 0, 0, 0]), (8, [32, 0, 0, 0, 0, 0, 0,
       0]), (0, [32, 0, 0, 0, 0, 0, 0, 0])], disk_image [(528, [0, 2, 0, 0, 0, 0, 0, 0]), (536,
       [2, 0, 0, 0]), (16896, 97 # replicate 27 0), (16924, [1, 0, 0, 0]), (568, [0, 66, 0, 0, 0,
       0, 0, 0]), (68, [1, 0, 0, 0]), (1072, [8, 0, 0, 0, 0, 0, 0, 0]), (1064, [8, 0, 0, 0, 0, 0,
       0, 0]), (1056, [8, 0, 0, 0, 0, 0, 0, 0]), (1048, [1, 0, 0, 0]), (1040, [0, 0, 0, 0, 0, 0,
       0, 0]), (1036, [232, 3, 0, 0]), (1032, [232, 3, 0, 0]), (1028, [164, 129, 0, 0]), (1024,
       [1, 0, 0, 0]), (64, [3, 0, 0, 0]), (560, [7, 0, 0, 0, 0, 0, 0, 0]), (552, [7, 0, 0, 0, 0,
       0, 0, 0]), (544, [7, 0, 0, 0, 0, 0, 0, 0]), (524, [232, 3, 0, 0]), (520, [232, 3, 0, 0]),
       (536, [1, 0, 0, 0]), (516, [237, 65, 0, 0]), (512, replicate 120 0), (64, [1, 0, 0, 0]),
       (56, [1, 0, 0, 0, 0, 0, 0, 0]), (52, [1, 0, 0, 0]), (48, [7, 0, 0, 0]), (40, [0, 66, 0, 0,
       0, 0, 0, 0]), (32, [0, 2, 0, 0, 0, 0, 0, 0]), (24, [68, 0, 0, 0, 0, 0, 0, 0]), (16, [64,
       0, 0, 0, 0, 0, 0, 0]), (8, [32, 0, 0, 0, 0, 0, 0, 0]), (0, [32, 0, 0, 0, 0, 0, 0, 0])]],
       raid_mode = 1, total_devices = 2, error_code = 0\<rparr>, \<lparr>state = READ_READY,
       current_disk = 0, total_disks = 2, raid_type = 1, buffer_size = 15872,
       operation_id = 1\<rparr>)"
  by (simp add: mirror_filled_def mirror_volume_def mirror_created_image run_simps cong: weak_congs)

lemma stripe_created_image:
  "stripe_created =
     Some (0, \<lparr>fs_memory_regions = [disk_image [(528, [0, 2, 0, 0, 0, 0, 0, 0]), (536, [2,
       0, 0, 0]), (16896, 102 # replicate 27 0), (16924, [1, 0, 0, 0]), (568, [0, 66, 0, 0, 0, 0,
       0, 0]), (68, [1, 0, 0, 0]), (1072, [8, 0, 0, 0, 0, 0, 0, 0]), (1064, [8, 0, 0, 0, 0, 0, 0,
       0]), (1056, [8, 0, 0, 0, 0, 0, 0, 0]), (1048, [1, 0, 0, 0]), (1040, [0, 0, 0, 0, 0, 0, 0,
       0]), (1036, [232, 3, 0, 0]), (1032, [232, 3, 0, 0]), (1028, [164, 129, 0, 0]), (1024, [1,
       0, 0, 0]), (64, [3, 0, 0, 0]), (560, [7, 0, 0, 0, 0, 0, 0, 0]), (552, [7, 0, 0, 0, 0, 0,
       0, 0]), (544, [7, 0, 0, 0, 0, 0, 0, 0]), (524, [232, 3, 0, 0]), (520, [232, 3, 0, 0]),
       (536, [1, 0, 0, 0]), (516, [237, 65, 0, 0]), (512, replicate 120 0), (64, [1, 0, 0, 0]),
       (56, [0, 0, 0, 0, 0, 0, 0, 0]), (52, [0, 0, 0, 0]), (48, [7, 0, 0, 0]), (40, [0, 66, 0, 0,
       0, 0, 0, 0]), (32, [0, 2, 0, 0, 0, 0, 0, 0]), (24, [68, 0, 0, 0, 0, 0, 0, 0]), (16, [64,
       0, 0, 0, 0, 0, 0, 0]), (8, [32, 0, 0, 0, 0, 0, 0, 0]), (0, [32, 0, 0, 0, 0, 0, 0, 0])],
       disk_image [(528, [0, 2, 0, 0, 0, 0, 0, 0]), (536, [2, 0, 0, 0]), (568, [0, 66, 0, 0, 0,
       0, 0, 0]), (1072, [8, 0, 0, 0, 0, 0, 0, 0]), (1064, [8, 0, 0, 0, 0, 0, 0, 0]), (1056, [8,
       0, 0, 0, 0, 0, 0, 0]), (1048, [1, 0, 0, 0]), (1040, [0, 0, 0, 0, 0, 0, 0, 0]), (1036,
       [232, 3, 0, 0]), (1032, [232, 3, 0, 0]), (1028, [164, 129, 0, 0]), (1024, [1, 0, 0, 0]),
       (64, [3, 0, 0, 0]), (560, [7, 0, 0, 0, 0, 0, 0, 0]), (552, [7, 0, 0, 0, 0, 0, 0, 0]),
       (544, [7, 0, 0, 0, 0, 0, 0, 0]), (524, [232, 3, 0, 0]), (520, [232, 3, 0, 0]), (536, [1,
       0, 0, 0]), (516, [237, 65, 0, 0]), (512, replicate 120 0), (64, [1, 0, 0, 0]), (56, [1, 0,
       0, 0, 0, 0, 0, 0]), (52, [0, 0, 0, 0]), (48, [7, 0, 0, 0]), (40, [0, 66, 0, 0, 0, 0, 0,
       0]), (32, [0, 2, 0, 0, 0, 0, 0, 0]), (24, [68, 0, 0, 0, 0, 0, 0, 0]), (16, [64, 0, 0, 0,
       0, 0, 0, 0]), (8, [32, 0, 0, 0, 0, 0, 0, 0]), (0, [32, 0, 0, 0, 0, 0, 0, 0])]],
       raid_mode = 0, total_devices = 2, error_code = 0\<rparr>)"
  by (simp add: stripe_created_def run_simps cong: weak_congs)

lemma stripe_head_image:
  "stripe_head =
     Some (1, \<lparr>fs_memory_regions = [disk_image [(1040, [1, 0, 0, 0, 0, 0, 0, 0]), (1040,
       [1, 0, 0, 0, 0, 0, 0, 0]), (17408, [121]), (1080, [0, 68, 0, 0, 0, 0, 0, 0]), (68, [3, 0,
       0, 0]), (528, [0, 2, 0, 0, 0, 0, 0, 0]), (536, [2, 0, 0, 0]), (16896,
       102 # replicate 27 0), (16924, [1, 0, 0, 0]), (568, [0, 66, 0, 0, 0, 0, 0, 0]), (68, [1,
       0, 0, 0]), (1072, [8, 0, 0, 0, 0, 0, 0, 0]), (1064, [8, 0, 0, 0, 0, 0, 0, 0]), (1056, [8,
       0, 0, 0, 0, 0, 0, 0]), (1048, [1, 0, 0, 0]), (1040, [0, 0, 0, 0, 0, 0, 0, 0]), (1036,
       [232, 3, 0, 0]), (1032, [232, 3, 0, 0]), (1028, [164, 129, 0, 0]), (1024, [1, 0, 0, 0]),
       (64, [3, 0, 0, 0]), (560, [7, 0, 0, 0, 0, 0, 0, 0]), (552, [7, 0, 0, 0, 0, 0, 0, 0]),
       (544, [7, 0, 0, 0, 0, 0, 0, 0]), (524, [232, 3, 0, 0]), (520, [232, 3, 0, 0]), (536, [1,
       0, 0, 0]), (516, [237, 65, 0, 0]), (512, replicate 120 0), (64, [1, 0, 0, 0]), (56, [0, 0,
       0, 0, 0, 0, 0, 0]), (52, [0, 0, 0, 0]), (48, [7, 0, 0, 0]), (40, [0, 66, 0, 0, 0, 0, 0,
       0]), (32, [0, 2, 0, 0, 0, 0, 0, 0]), (24, [68, 0, 0, 0, 0, 0, 0, 0]), (16, [64, 0, 0, 0,
       0, 0, 0, 0]), (8, [32, 0, 0, 0, 0, 0, 0, 0]), (0, [32, 0, 0, 0, 0, 0, 0, 0])],
       disk_image [(1040, [1, 0, 0, 0, 0, 0, 0, 0]), (1080, [0, 68, 0, 0, 0, 0, 0, 0]), (528, [0,
       2, 0, 0, 0, 0, 0, 0]), (536, [2, 0, 0, 0]), (568, [0, 66, 0, 0, 0, 0, 0, 0]), (1072, [8,
       0, 0, 0, 0, 0, 0, 0]), (1064, [8, 0, 0, 0, 0, 0, 0, 0]), (1056, [8, 0, 0, 0, 0, 0, 0, 0]),
       (1048, [1, 0, 0, 0]), (1040, [0, 0, 0, 0, 0, 0, 0, 0]), (1036, [232, 3, 0, 0]), (1032,
       [232, 3, 0, 0]), (1028, [164, 129, 0, 0]), (1024, [1, 0, 0, 0]), (64, [3, 0, 0, 0]), (560,
       [7, 0, 0, 0, 0, 0, 0, 0]), (552, [7, 0, 0, 0, 0, 0, 0, 0]), (544, [7, 0, 0, 0, 0, 0, 0,
       0]), (524, [232, 3, 0, 0]), (520, [232, 3, 0, 0]), (536, [1, 0, 0, 0]), (516, [237, 65, 0,
       0]), (512, replicate 120 0), (64, [1, 0, 0, 0]), (56, [1, 0, 0, 0, 0, 0, 0, 0]), (52, [0,
       0, 0, 0]), (48, [7, 0, 0, 0]), (40, [0, 66, 0, 0, 0, 0, 0, 0]), (32, [0, 2, 0, 0, 0, 0, 0,
       0]), (24, [68, 0, 0, 0, 0, 0, 0, 0]), (16, [64, 0, 0, 0, 0, 0, 0, 0]), (8, [32, 0, 0, 0,
       0, 0, 0, 0]), (0, [32, 0, 0, 0, 0, 0, 0, 0])]], raid_mode = 0, total_devices = 2,
       error_code = 0\<rparr>, \<lparr>state = INIT, current_disk = 0, total_disks = 2,
       raid_type = 0, buffer_size = 1, operation_id = 1\<rparr>)"
  by (simp add: stripe_head_def stripe_volume_def stripe_created_image run_simps cong: weak_congs)

lemma stripe_tail_image:
  "stripe_tail =
     Some (1, \<lparr>fs_memory_regions = [disk_image [(1040, [1, 14, 0, 0, 0, 0, 0, 0]), (1040,
       [1, 14, 0, 0, 0, 0, 0, 0]), (17920, [0, 68, 0, 0, 0, 0, 0, 0]), (1136, [0, 70, 0, 0, 0, 0,
       0, 0]), (68, [7, 0, 0, 0]), (1040, [1, 0, 0, 0, 0, 0, 0, 0]), (1040, [1, 0, 0, 0, 0, 0, 0,
       0]), (17408, [121]), (1080, [0, 68, 0, 0, 0, 0, 0, 0]), (68, [3, 0, 0, 0]), (528, [0, 2,
       0, 0, 0, 0, 0, 0]), (536, [2, 0, 0, 0]), (16896, 102 # replicate 27 0), (16924, [1, 0, 0,
       0]), (568, [0, 66, 0, 0, 0, 0, 0, 0]), (68, [1, 0, 0, 0]), (1072, [8, 0, 0, 0, 0, 0, 0,
       0]), (1064, [8, 0, 0, 0, 0, 0, 0, 0]), (1056, [8, 0, 0, 0, 0, 0, 0, 0]), (1048, [1, 0, 0,
       0]), (1040, [0, 0, 0, 0, 0, 0, 0, 0]), (1036, [232, 3, 0, 0]), (1032, [232, 3, 0, 0]),
       (1028, [164, 129, 0, 0]), (1024, [1, 0, 0, 0]), (64, [3, 0, 0, 0]), (560, [7, 0, 0, 0, 0,
       0, 0, 0]), (552, [7, 0, 0, 0, 0, 0, 0, 0]), (544, [7, 0, 0, 0, 0, 0, 0, 0]), (524, [232,
       3, 0, 0]), (520, [232, 3, 0, 0]), (536, [1, 0, 0, 0]), (516, [237, 65, 0, 0]), (512,
       replicate 120 0), (64, [1, 0, 0, 0]), (56, [0, 0, 0, 0, 0, 0, 0, 0]), (52, [0, 0, 0, 0]),
       (48, [7, 0, 0, 0]), (40, [0, 66, 0, 0, 0, 0, 0, 0]), (32, [0, 2, 0, 0, 0, 0, 0, 0]), (24,
       [68, 0, 0, 0, 0, 0, 0, 0]), (16, [64, 0, 0, 0, 0, 0, 0, 0]), (8, [32, 0, 0, 0, 0, 0, 0,
       0]), (0, [32, 0, 0, 0, 0, 0, 0, 0])], disk_image [(1040, [1, 14, 0, 0, 0, 0, 0, 0]),
       (17408, [122]), (16896, [0, 68, 0, 0, 0, 0, 0, 0]), (68, [3, 0, 0, 0]), (1136, [0, 66, 0,
       0, 0, 0, 0, 0]), (68, [1, 0, 0, 0]), (1040, [1, 0, 0, 0, 0, 0, 0, 0]), (1080, [0, 68, 0,
       0, 0, 0, 0, 0]), (528, [0, 2, 0, 0, 0, 0, 0, 0]), (536, [2, 0, 0, 0]), (568, [0, 66, 0, 0,
       0, 0, 0, 0]), (1072, [8, 0, 0, 0, 0, 0, 0, 0]), (1064, [8, 0, 0, 0, 0, 0, 0, 0]), (1056,
       [8, 0, 0, 0, 0, 0, 0, 0]), (1048, [1, 0, 0, 0]), (1040, [0, 0, 0, 0, 0, 0, 0, 0]), (1036,
       [232, 3, 0, 0]), (1032, [232, 3, 0, 0]), (1028, [164, 129, 0, 0]), (1024, [1, 0, 0, 0]),
       (64, [3, 0, 0, 0]), (560, [7, 0, 0, 0, 0, 0, 0, 0]), (552, [7, 0, 0, 0, 0, 0, 0, 0]),
       (544, [7, 0, 0, 0, 0, 0, 0, 0]), (524, [232, 3, 0, 0]), (520, [232, 3, 0, 0]), (536, [1,
       0, 0, 0]), (516, [237, 65, 0, 0]), (512, replicate 120 0), (64, [1, 0, 0, 0]), (56, [1, 0,
       0, 0, 0, 0, 0, 0]), (52, [0, 0, 0, 0]), (48, [7, 0, 0, 0]), (40, [0, 66, 0, 0, 0, 0, 0,
       0]), (32, [0, 2, 0, 0, 0, 0, 0, 0]), (24, [68, 0, 0, 0, 0, 0, 0, 0]), (16, [64, 0, 0, 0,
       0, 0, 0, 0]), (8, [32, 0, 0, 0, 0, 0, 0, 0]), (0, [32, 0, 0, 0, 0, 0, 0, 0])]],
       raid_mode = 0, total_devices = 2, error_code = 0\<rparr>, \<lparr>state = INIT,
       current_disk = 0, total_disks = 2, raid_type = 0, buffer_size = 1,
       operation_id = 2\<rparr>)"
  by (simp add: stripe_tail_def stripe_head_image run_simps cong: weak_congs)

lemma stripe_removed_image:
  "stripe_removed =
     Some (0, \<lparr>fs_memory_regions = [disk_image [(64, [3, 0, 0, 0]), (1024,
       replicate 512 0), (16924, [0, 0, 0, 0]), (68, [5, 0, 0, 0]), (17408, replicate 512 0),
       (68, [5, 0, 0, 0]), (17408, replicate 512 0), (1040, [1, 14, 0, 0, 0, 0, 0, 0]), (1040,
       [1, 14, 0, 0, 0, 0, 0, 0]), (17920, [0, 68, 0, 0, 0, 0, 0, 0]), (1136, [0, 70, 0, 0, 0, 0,
       0, 0]), (68, [7, 0, 0, 0]), (1040, [1, 0, 0, 0, 0, 0, 0, 0]), (1040, [1, 0, 0, 0, 0, 0, 0,
       0]), (17408, [121]), (1080, [0, 68, 0, 0, 0, 0, 0, 0]), (68, [3, 0, 0, 0]), (528, [0, 2,
       0, 0, 0, 0, 0, 0]), (536, [2, 0, 0, 0]), (16896, 102 # replicate 27 0), (16924, [1, 0, 0,
       0]), (568, [0, 66, 0, 0, 0, 0, 0, 0]), (68, [1, 0, 0, 0]), (1072, [8, 0, 0, 0, 0, 0, 0,
       0]), (1064, [8, 0, 0, 0, 0, 0, 0, 0]), (1056, [8, 0, 0, 0, 0, 0, 0, 0]), (1048, [1, 0, 0,
       0]), (1040, [0, 0, 0, 0, 0, 0, 0, 0]), (1036, [232, 3, 0, 0]), (1032, [232, 3, 0, 0]),
       (1028, [164, 129, 0, 0]), (1024, [1, 0, 0, 0]), (64, [3, 0, 0, 0]), (560, [7, 0, 0, 0, 0,
       0, 0, 0]), (552, [7, 0, 0, 0, 0, 0, 0, 0]), (544, [7, 0, 0, 0, 0, 0, 0, 0]), (524, [232,
       3, 0, 0]), (520, [232, 3, 0, 0]), (536, [1, 0, 0, 0]), (516, [237, 65, 0, 0]), (512,
       replicate 120 0), (64, [1, 0, 0, 0]), (56, [0, 0, 0, 0, 0, 0, 0, 0]), (52, [0, 0, 0, 0]),
       (48, [7, 0, 0, 0]), (40, [0, 66, 0, 0, 0, 0, 0, 0]), (32, [0, 2, 0, 0, 0, 0, 0, 0]), (24,
       [68, 0, 0, 0, 0, 0, 0, 0]), (16, [64, 0, 0, 0, 0, 0, 0, 0]), (8, [32, 0, 0, 0, 0, 0, 0,
       0]), (0, [32, 0, 0, 0, 0, 0, 0, 0])], disk_image [(64, [3, 0, 0, 0]), (1024,
       replicate 512 0), (68, [3, 0, 0, 0]), (17920, replicate 512 0), (1040, [1, 14, 0, 0, 0, 0,
       0, 0]), (17408, [122]), (16896, [0, 68, 0, 0, 0, 0, 0, 0]), (68, [3, 0, 0, 0]), (1136, [0,
       66, 0, 0, 0, 0, 0, 0]), (68, [1, 0, 0, 0]), (1040, [1, 0, 0, 0, 0, 0, 0, 0]), (1080, [0,
       68, 0, 0, 0, 0, 0, 0]), (528, [0, 2, 0, 0, 0, 0, 0, 0]), (536, [2, 0, 0, 0]), (568, [0,
       66, 0, 0, 0, 0, 0, 0]), (1072, [8, 0, 0, 0, 0, 0, 0, 0]), (1064, [8, 0, 0, 0, 0, 0, 0,
       0]), (1056, [8, 0, 0, 0, 0, 0, 0, 0]), (1048, [1, 0, 0, 0]), (1040, [0, 0, 0, 0, 0, 0, 0,
       0]), (1036, [232, 3, 0, 0]), (1032, [232, 3, 0, 0]), (1028, [164, 129, 0, 0]), (1024, [1,
       0, 0, 0]), (64, [3, 0, 0, 0]), (560, [7, 0, 0, 0, 0, 0, 0, 0]), (552, [7, 0, 0, 0, 0, 0,
       0, 0]), (544, [7, 0, 0, 0, 0, 0, 0, 0]), (524, [232, 3, 0, 0]), (520, [232, 3, 0, 0]),
       (536, [1, 0, 0, 0]), (516, [237, 65, 0, 0]), (512, replicate 120 0), (64, [1, 0, 0, 0]),
       (56, [1, 0, 0, 0, 0, 0, 0, 0]), (52, [0, 0, 0, 0]), (48, [7, 0, 0, 0]), (40, [0, 66, 0, 0,
       0, 0, 0, 0]), (32, [0, 2, 0, 0, 0, 0, 0, 0]), (24, [68, 0, 0, 0, 0, 0, 0, 0]), (16, [64,
       0, 0, 0, 0, 0, 0, 0]), (8, [32, 0, 0, 0, 0, 0, 0, 0]), (0, [32, 0, 0, 0, 0, 0, 0, 0])]],
       raid_mode = 0, total_devices = 2, error_code = 0\<rparr>, \<lparr>state = INIT,
       current_disk = 0, total_disks = 2, raid_type = 0, buffer_size = 1,
       operation_id = 3\<rparr>)"
  by (simp add: stripe_removed_def stripe_tail_image run_simps cong: weak_congs)

lemma vote_written_2_image:
  "vote_written 2 =
     Some (4, \<lparr>fs_memory_regions = [disk_image [(1040, [4, 0, 0, 0, 0, 0, 0, 0]), (17408,
       [1, 2, 3, 4]), (1080, [0, 68, 0, 0, 0, 0, 0, 0]), (68, [3, 0, 0, 0]), (528, [0, 2, 0, 0,
       0, 0, 0, 0]), (536, [2, 0, 0, 0]), (16896, 97 # replicate 27 0), (16924, [1, 0, 0, 0]),
       (568, [0, 66, 0, 0, 0, 0, 0, 0]), (68, [1, 0, 0, 0]), (1072, [8, 0, 0, 0, 0, 0, 0, 0]),
       (1064, [8, 0, 0, 0, 0, 0, 0, 0]), (1056, [8, 0, 0, 0, 0, 0, 0, 0]), (1048, [1, 0, 0, 0]),
       (1040, [0, 0, 0, 0, 0, 0, 0, 0]), (1036, [232, 3, 0, 0]), (1032, [232, 3, 0, 0]), (1028,
       [164, 129, 0, 0]), (1024, [1, 0, 0, 0]), (64, [3, 0, 0, 0]), (560, [7, 0, 0, 0, 0, 0, 0,
       0]), (552, [7, 0, 0, 0, 0, 0, 0, 0]), (544, [7, 0, 0, 0, 0, 0, 0, 0]), (524, [232, 3, 0,
       0]), (520, [232, 3, 0, 0]), (536, [1, 0, 0, 0]), (516, [237, 65, 0, 0]), (512,
       replicate 120 0), (64, [1, 0, 0, 0]), (56, [0, 0, 0, 0, 0, 0, 0, 0]), (52, [2, 0, 0, 0]),
       (48, [7, 0, 0, 0]), (40, [0, 66, 0, 0, 0, 0, 0, 0]), (32, [0, 2, 0, 0, 0, 0, 0, 0]), (24,
       [68, 0, 0, 0, 0, 0, 0, 0]), (16, [64, 0, 0, 0, 0, 0, 0, 0]), (8, [32, 0, 0, 0, 0, 0, 0,
       0]), (0, [32, 0, 0, 0, 0, 0, 0, 0])], disk_image [(1040, [4, 0, 0, 0, 0, 0, 0, 0]),
       (17408, [1, 2, 3, 4]), (1080, [0, 68, 0, 0, 0, 0, 0, 0]), (68, [3, 0, 0, 0]), (528, [0, 2,
       0, 0, 0, 0, 0, 0]), (536, [2, 0, 0, 0]), (16896, 97 # replicate 27 0), (16924, [1, 0, 0,
       0]), (568, [0, 66, 0, 0, 0, 0, 0, 0]), (68, [1, 0, 0, 0]), (1072, [8, 0, 0, 0, 0, 0, 0,
       0]), (1064, [8, 0, 0, 0, 0, 0, 0, 0]), (1056, [8, 0, 0, 0, 0, 0, 0, 0]), (1048, [1, 0, 0,
       0]), (1040, [0, 0, 0, 0, 0, 0, 0, 0]), (1036, [232, 3, 0, 0]), (1032, [232, 3, 0, 0]),
       (1028, [164, 129, 0, 0]), (1024, [1, 0, 0, 0]), (64, [3, 0, 0, 0]), (560, [7, 0, 0, 0, 0,
       0, 0, 0]), (552, [7, 0, 0, 0, 0, 0, 0, 0]), (544, [7, 0, 0, 0, 0, 0, 0, 0]), (524, [232,
       3, 0, 0]), (520, [232, 3, 0, 0]), (536, [1, 0, 0, 0]), (516, [237, 65, 0, 0]), (512,
       replicate 120 0), (64, [1, 0, 0, 0]), (56, [1, 0, 0, 0, 0, 0, 0, 0]), (52, [2, 0, 0, 0]),
       (48, [7, 0, 0, 0]), (40, [0, 66, 0, 0, 0, 0, 0, 0]), (32, [0, 2, 0, 0, 0, 0, 0, 0]), (24,
       [68, 0, 0, 0, 0, 0, 0, 0]), (16, [64, 0, 0, 0, 0, 0, 0, 0]), (8, [32, 0, 0, 0, 0, 0, 0,
       0]), (0, [32, 0, 0, 0, 0, 0, 0, 0])]], raid_mode = 2, total_devices = 2,
       error_code = 0\<rparr>, \<lparr>state = INIT, current_disk = 1, total_disks = 2,
       raid_type = 2, buffer_size = 4, operation_id = 1\<rparr>)"
  by (simp add: vote_written_def run_simps cong: weak_congs)

lemma vote_written_3_image:
  "vote_written 3 =
     Some (4, \<lparr>fs_memory_regions = [disk_image [(1040, [4, 0, 0, 0, 0, 0, 0, 0]), (17408,
       [1, 2, 3, 4]), (1080, [0, 68, 0, 0, 0, 0, 0, 0]), (68, [3, 0, 0, 0]), (528, [0, 2, 0, 0,
       0, 0, 0, 0]), (536, [2, 0, 0, 0]), (16896, 97 # replicate 27 0), (16924, [1, 0, 0, 0]),
       (568, [0, 66, 0, 0, 0, 0, 0, 0]), (68, [1, 0, 0, 0]), (1072, [8, 0, 0, 0, 0, 0, 0, 0]),
       (1064, [8, 0, 0, 0, 0, 0, 0, 0]), (1056, [8, 0, 0, 0, 0, 0, 0, 0]), (1048, [1, 0, 0, 0]),
       (1040, [0, 0, 0, 0, 0, 0, 0, 0]), (1036, [232, 3, 0, 0]), (1032, [232, 3, 0, 0]), (1028,
       [164, 129, 0, 0]), (1024, [1, 0, 0, 0]), (64, [3, 0, 0, 0]), (560, [7, 0, 0, 0, 0, 0, 0,
       0]), (552, [7, 0, 0, 0, 0, 0, 0, 0]), (544, [7, 0, 0, 0, 0, 0, 0, 0]), (524, [232, 3, 0,
       0]), (520, [232, 3, 0, 0]), (536, [1, 0, 0, 0]), (516, [237, 65, 0, 0]), (512,
       replicate 120 0), (64, [1, 0, 0, 0]), (56, [0, 0, 0, 0, 0, 0, 0, 0]), (52, [2, 0, 0, 0]),
       (48, [7, 0, 0, 0]), (40, [0, 66, 0, 0, 0, 0, 0, 0]), (32, [0, 2, 0, 0, 0, 0, 0, 0]), (24,
       [68, 0, 0, 0, 0, 0, 0, 0]), (16, [64, 0, 0, 0, 0, 0, 0, 0]), (8, [32, 0, 0, 0, 0, 0, 0,
       0]), (0, [32, 0, 0, 0, 0, 0, 0, 0])], disk_image [(1040, [4, 0, 0, 0, 0, 0, 0, 0]),
       (17408, [1, 2, 3, 4]), (1080, [0, 68, 0, 0, 0, 0, 0, 0]), (68, [3, 0, 0, 0]), (528, [0, 2,
       0, 0, 0, 0, 0, 0]), (536, [2, 0, 0, 0]), (16896, 97 # replicate 27 0), (16924, [1, 0, 0,
       0]), (568, [0, 66, 0, 0, 0, 0, 0, 0]), (68, [1, 0, 0, 0]), (1072, [8, 0, 0, 0, 0, 0, 0,
       0]), (1064, [8, 0, 0, 0, 0, 0, 0, 0]), (1056, [8, 0, 0, 0, 0, 0, 0, 0]), (1048, [1, 0, 0,
       0]), (1040, [0, 0, 0, 0, 0, 0, 0, 0]), (1036, [232, 3, 0, 0]), (1032, [232, 3, 0, 0]),
       (1028, [164, 129, 0, 0]), (1024, [1, 0, 0, 0]), (64, [3, 0, 0, 0]), (560, [7, 0, 0, 0, 0,
       0, 0, 0]), (552, [7, 0, 0, 0, 0, 0, 0, 0]), (544, [7, 0, 0, 0, 0, 0, 0, 0]), (524, [232,
       3, 0, 0]), (520, [232, 3, 0, 0]), (536, [1, 0, 0, 0]), (516, [237, 65, 0, 0]), (512,
       replicate 120 0), (64, [1, 0, 0, 0]), (56, [1, 0, 0, 0, 0, 0, 0, 0]), (52, [2, 0, 0, 0]),
       (48, [7, 0, 0, 0]), (40, [0, 66, 0, 0, 0, 0, 0, 0]), (32, [0, 2, 0, 0, 0, 0, 0, 0]), (24,
       [68, 0, 0, 0, 0, 0, 0, 0]), (16, [64, 0, 0, 0, 0, 0, 0, 0]), (8, [32, 0, 0, 0, 0, 0, 0,
       0]), (0, [32, 0, 0, 0, 0, 0, 0, 0])], disk_image [(1040, [4, 0, 0, 0, 0, 0, 0, 0]),
       (17408, [1, 2, 3, 4]), (1080, [0, 68, 0, 0, 0, 0, 0, 0]), (68, [3, 0, 0, 0]), (528, [0, 2,
       0, 0, 0, 0, 0, 0]), (536, [2, 0, 0, 0]), (16896, 97 # replicate 27 0), (16924, [1, 0, 0,
       0]), (568, [0, 66, 0, 0, 0, 0, 0, 0]), (68, [1, 0, 0, 0]), (1072, [8, 0, 0, 0, 0, 0, 0,
       0]), (1064, [8, 0, 0, 0, 0, 0, 0, 0]), (1056, [8, 0, 0, 0, 0, 0, 0, 0]), (1048, [1, 0, 0,
       0]), (1040, [0, 0, 0, 0, 0, 0, 0, 0]), (1036, [232, 3, 0, 0]), (1032, [232, 3, 0, 0]),
       (1028, [164, 129, 0, 0]), (1024, [1, 0, 0, 0]), (64, [3, 0, 0, 0]), (560, [7, 0, 0, 0, 0,
       0, 0, 0]), (552, [7, 0, 0, 0, 0, 0, 0, 0]), (544, [7, 0, 0, 0, 0, 0, 0, 0]), (524, [232,
       3, 0, 0]), (520, [232, 3, 0, 0]), (536, [1, 0, 0, 0]), (516, [237, 65, 0, 0]), (512,
       replicate 120 0), (64, [1, 0, 0, 0]), (56, [2, 0, 0, 0, 0, 0, 0, 0]), (52, [2, 0, 0, 0]),
       (48, [7, 0, 0, 0]), (40, [0, 66, 0, 0, 0, 0, 0, 0]), (32, [0, 2, 0, 0, 0, 0, 0, 0]), (24,
       [68, 0, 0, 0, 0, 0, 0, 0]), (16, [64, 0, 0, 0, 0, 0, 0, 0]), (8, [32, 0, 0, 0, 0, 0, 0,
       0]), (0, [32, 0, 0, 0, 0, 0, 0, 0])]], raid_mode = 2, total_devices = 3,
       error_code = 0\<rparr>, \<lparr>state = INIT, current_disk = 2, total_disks = 3,
       raid_type = 2, buffer_size = 4, operation_id = 1\<rparr>)"
  by (simp add: vote_written_def run_simps cong: weak_congs)


text \<open>What the evaluation of a term over the sessions unfolds.\<close>

lemmas session_simps = volume_after_def manager_after_def mirror_volume_def stripe_volume_def
  mirror_pair_def mirror_second_image mirror_created_image mirror_written_image mirror_removed_image mirror_filled_image
  stripe_created_image stripe_head_image stripe_tail_image stripe_removed_image
  corrupted_def vote_read_def vote_written_2_image vote_written_3_image

text \<open>The modes and the numbers of disks of the volumes.\<close>

lemma session_modes:
  "raid_mode mirror_volume = 1" "total_devices mirror_volume = 2"
  "raid_mode (volume_after stripe_tail) = 0" "total_devices (volume_after stripe_tail) = 2"
  "raid_mode (fresh_volume RAID0 0) = 0" "total_devices (fresh_volume RAID0 0) = 0"
  by (simp_all add: session_simps run_simps cong: weak_congs)

text \<open>The offsets of the slots of a directory, for counting its entries.\<close>

lemma upt_from_0: "[0..<numeral n] = 0 # [Suc 0..<numeral n]"
  by (rule upt_conv_Cons) simp

lemma upt_from_1:
  "[Suc 0..<numeral n] = (if 1 < (numeral n :: nat) then Suc 0 # [2..<numeral n] else [])"
proof (cases "1 < (numeral n :: nat)")
  case True
  then have "[Suc 0..<numeral n] = Suc 0 # [Suc (Suc 0)..<numeral n]"
    by (intro upt_conv_Cons) simp
  then show ?thesis
    using True by (simp add: numeral_2_eq_2)
next
  case False
  then show ?thesis
    by simp
qed

lemmas count_simps = used_entries_def upt_from_0 upt_from_1

section \<open>The block resolver\<close>

text \<open>What is written through a pointer is read back through it, cut to the 64 bits of the slot.\<close>

lemma rd_off_wr_off: "wr_off s p v = Some s' \<Longrightarrow> rd_off s' p = Some (to_int64 v)"
  by (cases p) (auto simp: region_def set_region_def load_off_store64 split: if_splits)

text \<open>
  For an offset from 0 to \<open>2^41 - 1\<close> the quotient by the block size is below \<open>2^32\<close>; the \<open>int\<close>
  that \<open>get_block_location\<close> holds is the quotient when that is below \<open>2^31\<close>, and negative
  otherwise.
\<close>

lemma block_num_of_offset:
  assumes "0 \<le> offset" "offset < 2 ^ 41"
  shows "offset div 512 < 2147483648 \<Longrightarrow> to_int32 (offset sdiv 512) = offset div 512"
    and "2147483648 \<le> offset div 512 \<Longrightarrow> to_int32 (offset sdiv 512) = offset div 512 - 4294967296"
    and "offset smod 512 = offset mod 512"
proof -
  have k: "0 \<le> offset div 512" "offset div 512 < 4294967296"
    using assms by simp_all
  show "to_int32 (offset sdiv 512) = offset div 512" if "offset div 512 < 2147483648"
    using k that assms by (simp add: to_int32_def sdiv_nonneg)
  show "to_int32 (offset sdiv 512) = offset div 512 - 4294967296" if "2147483648 \<le> offset div 512"
    using k that assms by (simp add: to_int32_def sdiv_nonneg)
  show "offset smod 512 = offset mod 512"
    using assms by (simp add: smod_nonneg)
qed

text \<open>
  The resolver case by case: above block 70; a direct block and a block behind the indirect
  block, first on a mirrored volume and then on a striped one.
\<close>

lemma resolve_beyond:
  assumes "0 \<le> offset" "offset < 2 ^ 41" "70 < offset div 512"
  shows "get_block_location s inode offset alloc disk = Some (NULL, s)"
proof -
  have "D_BLOCK + BLOCK_SIZE div 8 < to_size_t (to_int32 (offset sdiv BLOCK_SIZE))"
  proof (cases "offset div 512 < 2147483648")
    case True
    then show ?thesis
      using assms by (simp add: block_num_of_offset D_BLOCK_def BLOCK_SIZE_def to_size_t_def)
  next
    case False
    have "offset div 512 < 4294967296"
      using assms by simp
    then have "(offset div 512 - 4294967296 + 18446744073709551616) mod 18446744073709551616 =
               offset div 512 - 4294967296 + 18446744073709551616"
      using False by (intro mod_pos_pos_trivial) linarith+
    moreover have "(offset div 512 - 4294967296) mod 18446744073709551616 =
               (offset div 512 - 4294967296 + 18446744073709551616) mod 18446744073709551616"
      by (simp only: mod_add_self2)
    ultimately have "(offset div 512 - 4294967296) mod 18446744073709551616 =
               offset div 512 + 18446744069414584320"
      by linarith
    then show ?thesis
      using assms False
      by (simp add: block_num_of_offset D_BLOCK_def BLOCK_SIZE_def to_size_t_def)
  qed
  then show ?thesis
    by (simp add: get_block_location_def Let_def)
qed

lemma resolve_direct_mirrored:
  assumes "0 \<le> offset" "offset div 512 \<le> 6" "raid_mode s \<noteq> RAID0"
  shows "get_block_location s inode offset alloc disk = do {
           cur \<leftarrow> rd_off s (ptr_add inode (off_blocks (offset div 512)));
           if alloc \<and> cur = 0 then do {
             (b, s1) \<leftarrow> allocate_block s disk;
             s2 \<leftarrow> wr_off s1 (ptr_add inode (off_blocks (offset div 512))) b;
             Some (if to_int64 b = 0 then NULL else Ptr disk (to_int64 b + offset mod 512), s2)
           } else Some (if cur = 0 then NULL else Ptr disk (cur + offset mod 512), s)
         }"
proof -
  have r: "offset < 2 ^ 41"
    using assms(2) by simp
  have slot: "ptr_add (ptr_add inode (off_blocks 0)) (8 * (offset div 512)) =
              ptr_add inode (off_blocks (offset div 512))"
    by (cases inode) (simp_all add: off_blocks_def)
  show ?thesis
    using assms
    by (auto simp: get_block_location_def block_num_of_offset[OF assms(1) r] slot D_BLOCK_def
        BLOCK_SIZE_def Let_def to_size_t_def rd_off_wr_off
        split: Option.bind_splits prod.splits)
qed

lemma slot_tail:
  "do {
     cur \<leftarrow> rd_off s1 slot;
     s2 \<leftarrow> (if alloc \<and> cur = 0
            then do { (b, s') \<leftarrow> allocate_block s1 disk; wr_off s' slot b }
            else Some s1);
     v \<leftarrow> rd_off s2 slot;
     if v = 0 then Some (NULL, s2) else Some (Ptr disk (v + r), s2)
   } = do {
     cur \<leftarrow> rd_off s1 slot;
     if alloc \<and> cur = 0 then do {
       (b, s') \<leftarrow> allocate_block s1 disk;
       s2 \<leftarrow> wr_off s' slot b;
       Some (if to_int64 b = 0 then NULL else Ptr disk (to_int64 b + r), s2)
     } else Some (if cur = 0 then NULL else Ptr disk (cur + r), s1)
   }"
  by (auto simp: rd_off_wr_off split: Option.bind_splits prod.splits)

lemma indirect_head:
  "do {
     ind \<leftarrow> rd_off s islot;
     s1 \<leftarrow> (if ind = 0
            then do { (b, s') \<leftarrow> allocate_block s disk; wr_off s' islot b }
            else Some s);
     ind1 \<leftarrow> rd_off s1 islot;
     f ind1 s1
   } = do {
     ind \<leftarrow> rd_off s islot;
     (ind1, s1) \<leftarrow>
       (if ind = 0 then do {
          (ib, s') \<leftarrow> allocate_block s disk;
          s1 \<leftarrow> wr_off s' islot ib;
          Some (to_int64 ib, s1)
        } else Some (ind, s));
     f ind1 s1
   }"
  by (auto simp: rd_off_wr_off split: Option.bind_splits prod.splits)

lemma resolve_indirect_mirrored:
  assumes "0 \<le> offset" "7 \<le> offset div 512" "offset div 512 \<le> 70" "raid_mode s \<noteq> RAID0"
  shows "get_block_location s inode offset alloc disk = do {
           ind \<leftarrow> rd_off s (ptr_add inode (off_blocks 7));
           (ind1, s1) \<leftarrow>
             (if ind = 0 then do {
                (ib, s') \<leftarrow> allocate_block s disk;
                s1 \<leftarrow> wr_off s' (ptr_add inode (off_blocks 7)) ib;
                Some (to_int64 ib, s1)
              } else Some (ind, s));
           cur \<leftarrow> rd_off s1 (Ptr disk (ind1 + 8 * (offset div 512 - 7)));
           if alloc \<and> cur = 0 then do {
             (b, s') \<leftarrow> allocate_block s1 disk;
             s2 \<leftarrow> wr_off s' (Ptr disk (ind1 + 8 * (offset div 512 - 7))) b;
             Some (if to_int64 b = 0 then NULL else Ptr disk (to_int64 b + offset mod 512), s2)
           } else Some (if cur = 0 then NULL else Ptr disk (cur + offset mod 512), s1)
         }"
proof -
  have r: "offset < 2 ^ 41"
    using assms(3) by simp
  show ?thesis
    using assms
    by (simp add: get_block_location_def block_num_of_offset[OF assms(1) r] D_BLOCK_def
        IND_BLOCK_def BLOCK_SIZE_def Let_def to_size_t_def slot_tail[unfolded split_def]
        indirect_head[unfolded split_def]
        split_def algebra_simps del: rd_off.simps wr_off.simps cong: if_cong)
qed

lemma resolve_direct_striped:
  assumes "0 \<le> offset" "offset div 512 \<le> 6" "raid_mode s = RAID0" "total_devices s \<noteq> 0"
  shows "get_block_location s inode offset alloc disk = do {
           cur \<leftarrow> rd_off s (ptr_add inode (off_blocks (offset div 512)));
           s2 \<leftarrow>
             (if alloc \<and> cur = 0 then do {
                (b, s1) \<leftarrow> allocate_block s (offset div 512 smod total_devices s);
                store_block_all s1 inode False (offset div 512) b
              } else Some s);
           v \<leftarrow> rd_off s2 (ptr_add inode (off_blocks (offset div 512)));
           Some (Ptr (offset div 512 smod total_devices s) (v + offset mod 512), s2)
         }"
proof -
  have r: "offset < 2 ^ 41"
    using assms(2) by simp
  have slot: "ptr_add (ptr_add inode (off_blocks 0)) (8 * (offset div 512)) =
              ptr_add inode (off_blocks (offset div 512))"
    by (cases inode) (simp_all add: off_blocks_def)
  show ?thesis
    using assms
    by (simp add: get_block_location_def block_num_of_offset[OF assms(1) r] slot D_BLOCK_def
        BLOCK_SIZE_def Let_def to_size_t_def cong: if_cong)
qed

lemma resolve_indirect_striped:
  assumes "0 \<le> offset" "7 \<le> offset div 512" "offset div 512 \<le> 70" "raid_mode s = RAID0"
    "total_devices s \<noteq> 0"
  shows "get_block_location s inode offset alloc disk = do {
           ind \<leftarrow> rd_off s (ptr_add inode (off_blocks 7));
           s1 \<leftarrow> (if ind = 0 then alloc_indirect_all s inode else Some s);
           ind1 \<leftarrow> rd_off s1 (ptr_add inode (off_blocks 7));
           cur \<leftarrow> rd_off s1 (Ptr disk (ind1 + 8 * (offset div 512 - 7)));
           s2 \<leftarrow>
             (if alloc \<and> cur = 0 then do {
                (b, s') \<leftarrow> allocate_block s1 (offset div 512 smod total_devices s);
                store_block_all s' inode (Ptr disk ind1 \<noteq> ptr_add inode (off_blocks 0))
                  (offset div 512 - 7) b
              } else Some s1);
           v \<leftarrow> rd_off s2 (Ptr disk (ind1 + 8 * (offset div 512 - 7)));
           Some (Ptr (offset div 512 smod total_devices s) (v + offset mod 512), s2)
         }"
proof -
  have r: "offset < 2 ^ 41"
    using assms(3) by simp
  show ?thesis
    using assms
    by (simp add: get_block_location_def block_num_of_offset[OF assms(1) r] D_BLOCK_def
        IND_BLOCK_def BLOCK_SIZE_def Let_def to_size_t_def)
qed

lemma resolve_no_devices:
  assumes "0 \<le> offset" "offset div 512 \<le> 70" "raid_mode s = RAID0" "total_devices s = 0"
  shows "get_block_location s inode offset alloc disk = None"
proof -
  have r: "offset < 2 ^ 41"
    using assms(2) by simp
  show ?thesis
    using assms
    by (simp add: get_block_location_def block_num_of_offset[OF assms(1) r] D_BLOCK_def
        BLOCK_SIZE_def Let_def to_size_t_def)
qed

text \<open>
  Claim C8, with the maximum that the code has. For every byte offset from 0 to \<open>2^41 - 1\<close> and
  \<open>k = offset / BLOCK_SIZE\<close>, every call of the resolver is one of these:
  \<^item> for \<open>k\<close> above 70 it returns \<open>NULL\<close> and changes nothing;
  \<^item> for \<open>k \<le> 6\<close> the slot is \<open>inode.blocks[k]\<close>. On a mirrored volume a slot that holds 0 is,
    when the flag is set, filled with the block that \<open>allocate_block\<close> returns for the disk of
    the call, and the address is that block, or the block the slot held, plus the offset in
    the block; it is \<open>NULL\<close> when the slot holds 0 afterwards;
  \<^item> for \<open>k\<close> from 7 to 70 the slot is slot \<open>k - 7\<close> of the array that \<open>inode.blocks[7]\<close>
    addresses in the image of the disk of the call; when \<open>inode.blocks[7]\<close> is 0 it is first
    filled with a block from \<open>allocate_block\<close>, whatever the flag, and then the slot is treated
    as a direct one;
  \<^item> on a striped volume the slots are the same; the target disk is \<open>k % total_devices\<close>
    (which is \<open>k mod D\<close> for \<open>D\<close> disks), the block is allocated there and stored by the loop
    over the copies of the inode, the indirect block is allocated on every disk by that loop,
    and the address is on the target disk, with no test for 0;
  \<^item> on a striped volume of no disks the remainder is undefined and the call does not return.
\<close>

theorem block_index_resolution:
  fixes offset k :: int
  assumes "0 \<le> offset" "offset < 2 ^ 41" "k = offset div BLOCK_SIZE"
  shows
    "(70 < k \<longrightarrow> get_block_location s inode offset alloc disk = Some (NULL, s))
   \<and> (k \<le> 6 \<and> raid_mode s \<noteq> RAID0 \<longrightarrow>
        get_block_location s inode offset alloc disk = do {
          cur \<leftarrow> rd_off s (ptr_add inode (off_blocks k));
          if alloc \<and> cur = 0 then do {
            (b, s1) \<leftarrow> allocate_block s disk;
            s2 \<leftarrow> wr_off s1 (ptr_add inode (off_blocks k)) b;
            Some (if to_int64 b = 0 then NULL else Ptr disk (to_int64 b + offset mod BLOCK_SIZE), s2)
          } else Some (if cur = 0 then NULL else Ptr disk (cur + offset mod BLOCK_SIZE), s)
        })
   \<and> (7 \<le> k \<and> k \<le> 70 \<and> raid_mode s \<noteq> RAID0 \<longrightarrow>
        get_block_location s inode offset alloc disk = do {
          ind \<leftarrow> rd_off s (ptr_add inode (off_blocks 7));
          (ind1, s1) \<leftarrow>
            (if ind = 0 then do {
               (ib, s') \<leftarrow> allocate_block s disk;
               s1 \<leftarrow> wr_off s' (ptr_add inode (off_blocks 7)) ib;
               Some (to_int64 ib, s1)
             } else Some (ind, s));
          cur \<leftarrow> rd_off s1 (Ptr disk (ind1 + 8 * (k - 7)));
          if alloc \<and> cur = 0 then do {
            (b, s') \<leftarrow> allocate_block s1 disk;
            s2 \<leftarrow> wr_off s' (Ptr disk (ind1 + 8 * (k - 7))) b;
            Some (if to_int64 b = 0 then NULL else Ptr disk (to_int64 b + offset mod BLOCK_SIZE), s2)
          } else Some (if cur = 0 then NULL else Ptr disk (cur + offset mod BLOCK_SIZE), s1)
        })
   \<and> (k \<le> 6 \<and> raid_mode s = RAID0 \<and> total_devices s \<noteq> 0 \<longrightarrow>
        get_block_location s inode offset alloc disk = do {
          cur \<leftarrow> rd_off s (ptr_add inode (off_blocks k));
          s2 \<leftarrow>
            (if alloc \<and> cur = 0 then do {
               (b, s1) \<leftarrow> allocate_block s (k smod total_devices s);
               store_block_all s1 inode False k b
             } else Some s);
          v \<leftarrow> rd_off s2 (ptr_add inode (off_blocks k));
          Some (Ptr (k smod total_devices s) (v + offset mod BLOCK_SIZE), s2)
        })
   \<and> (7 \<le> k \<and> k \<le> 70 \<and> raid_mode s = RAID0 \<and> total_devices s \<noteq> 0 \<longrightarrow>
        get_block_location s inode offset alloc disk = do {
          ind \<leftarrow> rd_off s (ptr_add inode (off_blocks 7));
          s1 \<leftarrow> (if ind = 0 then alloc_indirect_all s inode else Some s);
          ind1 \<leftarrow> rd_off s1 (ptr_add inode (off_blocks 7));
          cur \<leftarrow> rd_off s1 (Ptr disk (ind1 + 8 * (k - 7)));
          s2 \<leftarrow>
            (if alloc \<and> cur = 0 then do {
               (b, s') \<leftarrow> allocate_block s1 (k smod total_devices s);
               store_block_all s' inode (Ptr disk ind1 \<noteq> ptr_add inode (off_blocks 0)) (k - 7) b
             } else Some s1);
          v \<leftarrow> rd_off s2 (Ptr disk (ind1 + 8 * (k - 7)));
          Some (Ptr (k smod total_devices s) (v + offset mod BLOCK_SIZE), s2)
        })
   \<and> (k \<le> 70 \<and> raid_mode s = RAID0 \<and> total_devices s = 0 \<longrightarrow>
        get_block_location s inode offset alloc disk = None)"
proof -
  have k: "k = offset div 512" and b: "BLOCK_SIZE = 512"
    using assms by (simp_all add: BLOCK_SIZE_def)
  show ?thesis
    unfolding k b
    using resolve_beyond [OF assms(1,2), of s inode alloc disk]
      resolve_direct_mirrored [OF assms(1), of s inode alloc disk]
      resolve_indirect_mirrored [OF assms(1), of s inode alloc disk]
      resolve_direct_striped [OF assms(1), of s inode alloc disk]
      resolve_indirect_striped [OF assms(1), of s inode alloc disk]
      resolve_no_devices [OF assms(1), of s inode alloc disk]
    by blast
qed

text \<open>
  The cases at calls of the sessions, for the inode of the file at 1024 on disk 0. On the
  striped volume after the two writes block 100 is not resolved, offset 5 is resolved through
  \<open>blocks[0]\<close> to disk 0 and offset 3584 (block 7) through slot 0 of the indirect block to disk
  1. On the mirrored volume with the empty file \<open>/a\<close>, where the next free block is at 17408,
  offset 5 is resolved to that block when the flag is set and to \<open>NULL\<close> when it is clear, and
  offset 3584 takes that block as the indirect block and the next one, at 17920, for the data.
  With no disks the call does not return.
\<close>

theorem block_index_resolution_witness:
  "get_block_location (volume_after stripe_tail) (Ptr 0 1024) 51200 True 0 =
     Some (NULL, volume_after stripe_tail)
   \<and> map_option fst (allocate_block mirror_volume 0) = Some 17408
   \<and> map_option fst (get_block_location mirror_volume (Ptr 0 1024) 5 True 0) = Some (Ptr 0 17413)
   \<and> map_option fst (get_block_location mirror_volume (Ptr 0 1024) 5 False 0) = Some NULL
   \<and> map_option fst (get_block_location mirror_volume (Ptr 0 1024) 3584 True 0) = Some (Ptr 0 17920)
   \<and> map_option fst (get_block_location (volume_after stripe_tail) (Ptr 0 1024) 5 False 0) =
       Some (Ptr 0 17413)
   \<and> map_option fst (get_block_location (volume_after stripe_tail) (Ptr 0 1024) 3584 False 0) =
       Some (Ptr 1 17408)
   \<and> get_block_location (fresh_volume RAID0 0) (Ptr 0 512) 0 False 0 = None"
proof -
  note r = block_index_resolution [where s = "volume_after stripe_tail" and inode = "Ptr 0 1024"
      and disk = 0, unfolded BLOCK_SIZE_def RAID0_def session_modes]
  note m = block_index_resolution [where s = mirror_volume and inode = "Ptr 0 1024"
      and disk = 0, unfolded BLOCK_SIZE_def RAID0_def session_modes]
  note z = block_index_resolution [where s = "fresh_volume RAID0 0" and inode = "Ptr 0 512"
      and disk = 0 and offset = 0 and k = 0 and alloc = False,
      unfolded BLOCK_SIZE_def session_modes]
  show ?thesis
    using r [of 51200 100 True] m [of 5 0 True] m [of 5 0 False] m [of 3584 7 True]
      r [of 5 0 False] r [of 3584 7 False] z
    by (simp add: session_simps run_simps cong: weak_congs)
qed

text \<open>
  Against claim C8 as stated: block 71 is not resolved, with the allocate flag set either; and
  at offset \<open>2^41\<close>, where the quotient \<open>2^32\<close> does not fit the \<open>int\<close>, the resolver answers
  with block 0 of the file.
\<close>

theorem block_71_not_resolved:
  "get_block_location (volume_after stripe_tail) (Ptr 0 1024) (71 * BLOCK_SIZE) True 0 =
     Some (NULL, volume_after stripe_tail)
   \<and> get_block_location (volume_after mirror_written) (Ptr 0 1024) (2 ^ 41) False 0 =
     Some (Ptr 0 17408, volume_after mirror_written)"
  by (simp add: session_simps run_simps cong: weak_congs)

text \<open>
  Claim C4 at a file that has just been created, resolved at offset 0 with the allocate flag
  clear: \<open>blocks[0]\<close> is 0; on the striped volume the resolver returns the start of the image of
  disk 0 and not \<open>NULL\<close>, while on the mirrored volume it returns \<open>NULL\<close>.
\<close>

theorem striped_resolver_empty_slot:
  "rd_off stripe_volume (ptr_add (Ptr 0 1024) (off_blocks 0)) = Some 0
   \<and> get_block_location stripe_volume (Ptr 0 1024) 0 False 0 = Some (Ptr 0 0, stripe_volume)
   \<and> rd_off mirror_volume (ptr_add (Ptr 0 1024) (off_blocks 0)) = Some 0
   \<and> get_block_location mirror_volume (Ptr 0 1024) 0 False 0 = Some (NULL, mirror_volume)"
  by (simp add: session_simps run_simps cong: weak_congs)

section \<open>Removal\<close>

text \<open>
  The frame of \<open>delete_dir_entry\<close> on the mirrored volume that holds \<open>/a\<close> and \<open>/b\<close>, whose entries
  are slots 0 and 1 of the block of the root directory at 16896: the entry of \<open>/b\<close> (inode 2) is
  deleted on disk 0. The number of slot 1, at 16956, becomes 0; the name of the slot, the
  entry of \<open>/a\<close>, and the size (512) and the link count (3) of the root are as before.
\<close>

theorem delete_dir_entry_frame_witness:
  "rd_off mirror_pair (ptr_add (Ptr 0 512) off_size) = Some 512
   \<and> get_block_location mirror_pair (Ptr 0 512) (32 * 0) False 0 = Some (Ptr 0 16896, mirror_pair)
   \<and> rd_int mirror_pair (ptr_add (Ptr 0 16896) off_dentry_num) = Some 1
   \<and> get_block_location mirror_pair (Ptr 0 512) (32 * 1) False 0 = Some (Ptr 0 16928, mirror_pair)
   \<and> rd_int mirror_pair (ptr_add (Ptr 0 16928) off_dentry_num) = Some 2
   \<and> (\<exists>s'. delete_dir_entry mirror_pair (Ptr 0 512) 2 0 = Some (0, s')
          \<and> (\<forall>x. 16956 \<le> x \<and> x < 16960 \<longrightarrow> byte_at s' 0 x = Some 0)
          \<and> (\<forall>d' x. \<not> (d' = 0 \<and> 16956 \<le> x \<and> x < 16960) \<longrightarrow>
                 byte_at s' d' x = byte_at mirror_pair d' x)
          \<and> rd_bytes s' (Ptr 0 16928) MAX_NAME = rd_bytes mirror_pair (Ptr 0 16928) MAX_NAME
          \<and> map_option hd (rd_bytes s' (Ptr 0 16928) MAX_NAME) = Some (of_char CHR ''b'')
          \<and> rd_int s' (ptr_add (Ptr 0 16896) off_dentry_num) = Some 1
          \<and> rd_off s' (ptr_add (Ptr 0 512) off_size) = Some 512
          \<and> rd_int s' (ptr_add (Ptr 0 512) off_nlinks) = Some 3)"
proof -
  have sz: "rd_off mirror_pair (ptr_add (Ptr 0 512) off_size) = Some 512"
    by (simp add: session_simps run_simps cong: weak_congs)
  have first: "get_block_location mirror_pair (Ptr 0 512) (32 * 0) False 0 =
                 Some (Ptr 0 16896, mirror_pair)"
      "rd_int mirror_pair (ptr_add (Ptr 0 16896) off_dentry_num) = Some 1"
    by (simp_all add: session_simps run_simps cong: weak_congs)
  have slot: "get_block_location mirror_pair (Ptr 0 512) (32 * 1) False 0 =
                Some (Ptr 0 16928, mirror_pair)"
      "region mirror_pair 0 = Some (the (region mirror_pair 0))"
      "load_int (the (region mirror_pair 0)) (16928 + 28) = 2"
    by (simp_all add: session_simps run_simps cong: weak_congs)
  have num: "rd_int mirror_pair (ptr_add (Ptr 0 16928) off_dentry_num) = Some 2"
    by (simp add: session_simps run_simps cong: weak_congs)
  have before: "\<forall>k. 0 \<le> k \<and> k < 1 \<longrightarrow>
                  (\<exists>q n. get_block_location mirror_pair (Ptr 0 512) (32 * k) False 0 =
                            Some (q, mirror_pair)
                         \<and> rd_int mirror_pair (ptr_add q off_dentry_num) = Some n \<and> n \<noteq> 2)"
  proof (intro allI impI)
    fix k :: int
    assume "0 \<le> k \<and> k < 1"
    then have k: "k = 0"
      by simp
    show "\<exists>q n. get_block_location mirror_pair (Ptr 0 512) (32 * k) False 0 =
                   Some (q, mirror_pair)
                \<and> rd_int mirror_pair (ptr_add q off_dentry_num) = Some n \<and> n \<noteq> 2"
      unfolding k using first by (intro exI[of _ "Ptr 0 16896"] exI[of _ 1]) simp
  qed
  have old: "map_option hd (rd_bytes mirror_pair (Ptr 0 16928) MAX_NAME) = Some (of_char CHR ''b'')"
      "rd_int mirror_pair (ptr_add (Ptr 0 512) off_nlinks) = Some 3"
      "byte_at mirror_pair 0 16924 = Some 1" "byte_at mirror_pair 0 16925 = Some 0"
      "byte_at mirror_pair 0 16926 = Some 0" "byte_at mirror_pair 0 16927 = Some 0"
    by (simp_all add: session_simps run_simps byte_at_def cong: weak_congs)
  from delete_dir_entry_frame [OF sz _ _ slot before]
  obtain s' where d: "delete_dir_entry mirror_pair (Ptr 0 512) 2 0 = Some (0, s')"
    and inside: "\<forall>x. 16928 + 28 \<le> x \<and> x < 16928 + 32 \<longrightarrow> byte_at s' 0 x = Some 0"
    and outside: "\<forall>d' x. \<not> (d' = 0 \<and> 16928 + 28 \<le> x \<and> x < 16928 + 32) \<longrightarrow>
                    byte_at s' d' x = byte_at mirror_pair d' x"
    and name: "rd_bytes s' (Ptr 0 16928) MAX_NAME = rd_bytes mirror_pair (Ptr 0 16928) MAX_NAME"
    and fields: "\<forall>di ai. Ptr 0 512 = Ptr di ai \<and> (di \<noteq> 0 \<or> 16928 + 32 \<le> ai + 16 \<or> ai + 28 \<le> 16928 + 28) \<longrightarrow>
                 rd_off s' (ptr_add (Ptr 0 512) off_size) = rd_off mirror_pair (ptr_add (Ptr 0 512) off_size)
               \<and> rd_int s' (ptr_add (Ptr 0 512) off_nlinks) = rd_int mirror_pair (ptr_add (Ptr 0 512) off_nlinks)"
    by (auto simp: to_size_t_def)
  have f: "rd_off s' (ptr_add (Ptr 0 512) off_size) = Some 512"
      "rd_int s' (ptr_add (Ptr 0 512) off_nlinks) = Some 3"
    using fields sz old(2) by simp_all
  have other: "rd_int s' (ptr_add (Ptr 0 16896) off_dentry_num) = Some 1"
  proof -
    have "byte_at s' 0 x = byte_at mirror_pair 0 x" if "16924 \<le> x" "x < 16928" for x
      using outside that by simp
    then have b: "byte_at s' 0 16924 = Some 1" "byte_at s' 0 16925 = Some 0"
      "byte_at s' 0 16926 = Some 0" "byte_at s' 0 16927 = Some 0"
      using old by simp_all
    then obtain m' where m': "region s' 0 = Some m'"
      by (auto simp: byte_at_def)
    with b have "m' 16924 = 1" "m' 16925 = 0" "m' 16926 = 0" "m' 16927 = 0"
      by (simp_all add: byte_at_def)
    then show ?thesis
      using m' by (simp add: off_dentry_num_def load_int_def le32_def)
  qed
  show ?thesis
    using sz first slot(1) num d inside outside name old(1) f other by auto
qed

text \<open>
  Claim C1 on the mirrored volume, where \<open>/a\<close> holds one byte: it is inode 1, at 1024, with its
  data in the block at 17408, and both bitmaps are 3 (the root and its directory block, the file
  and its data block). \<open>wfs_unlink\<close> returns 0. Afterwards, on both disks, the inode record and
  the data block are zero and the data bitmap is 1, but the inode bitmap still is 3:
  \<open>release_inode\<close> computes the bit from the offset of the inode \<^emph>\<open>plus\<close> \<open>i_blocks_ptr\<close>, which
  is bit 3 for the inode at 1024, and \<open>get_inode\<close> still finds inode 1 allocated.
\<close>

theorem remove_keeps_inode_bit:
  "find_inode_by_path (volume_after mirror_written) ''/a'' 0 =
     Some (Some (Ptr 0 1024), volume_after mirror_written)
   \<and> rd_int (volume_after mirror_written) (ptr_add (Ptr 0 1024) off_num) = Some 1
   \<and> rd_off (volume_after mirror_written) (ptr_add (Ptr 0 1024) (off_blocks 0)) = Some 17408
   \<and> rd_int (volume_after mirror_written) (Ptr 0 64) = Some 3
   \<and> rd_int (volume_after mirror_written) (Ptr 0 68) = Some 3
   \<and> map_option fst mirror_removed = Some 0
   \<and> rd_int (volume_after mirror_removed) (Ptr 0 64) = Some 3
   \<and> rd_int (volume_after mirror_removed) (Ptr 1 64) = Some 3
   \<and> get_inode (volume_after mirror_removed) 1 0 = Some (Ptr 0 1024)
   \<and> get_inode (volume_after mirror_removed) 1 1 = Some (Ptr 1 1024)
   \<and> rd_int (volume_after mirror_removed) (Ptr 0 68) = Some 1
   \<and> rd_int (volume_after mirror_removed) (Ptr 1 68) = Some 1
   \<and> map_option set (rd_bytes (volume_after mirror_removed) (Ptr 0 1024) 512) = Some {0}
   \<and> map_option set (rd_bytes (volume_after mirror_removed) (Ptr 1 1024) 512) = Some {0}
   \<and> map_option set (rd_bytes (volume_after mirror_removed) (Ptr 0 17408) 512) = Some {0}
   \<and> map_option set (rd_bytes (volume_after mirror_removed) (Ptr 1 17408) 512) = Some {0}"
  by (simp add: session_simps run_simps cong: weak_congs)

text \<open>
  Claim C3 on the striped volume, where \<open>/f\<close> holds one byte in block 0 and one in block 7. Block
  7 is on disk 1, at 17408; the data bitmaps are 7 on disk 0 (directory, block 0, indirect
  block) and 3 on disk 1 (indirect block, block 7). \<open>wfs_unlink\<close> returns 0 and leaves the data
  bitmaps at 5 and 3: the loop over the indirect block releases the offset of block 7 on the
  current disk 0 and not on disk 1, where the bit is still set and the byte still stored.
\<close>

theorem striped_remove_leaks_blocks:
  "map_option fst stripe_tail = Some 1
   \<and> map_option fst
         (get_block_location (volume_after stripe_tail) (Ptr 0 1024) 3584 False 0) =
       Some (Ptr 1 17408)
   \<and> rd_bytes (volume_after stripe_tail) (Ptr 1 17408) 1 = Some [122]
   \<and> rd_int (volume_after stripe_tail) (Ptr 0 68) = Some 7
   \<and> rd_int (volume_after stripe_tail) (Ptr 1 68) = Some 3
   \<and> map_option fst stripe_removed = Some 0
   \<and> rd_int (volume_after stripe_removed) (Ptr 0 68) = Some 5
   \<and> rd_int (volume_after stripe_removed) (Ptr 1 68) = Some 3
   \<and> rd_bytes (volume_after stripe_removed) (Ptr 1 17408) 1 = Some [122]"
  by (simp add: session_simps run_simps cong: weak_congs)

text \<open>
  Claim C7 on the mirrored volume: the root directory is created with link count 1 and no
  entry; creating \<open>/a\<close> gives it link count 2 and one entry; after \<open>wfs_unlink\<close> has removed the
  file it has no entry in use and still link count 2, on both disks.
\<close>

theorem link_count_after_removal:
  "rd_int (fresh_volume RAID1 2) (ptr_add (Ptr 0 512) off_nlinks) = Some 1
   \<and> used_entries (fresh_volume RAID1 2) (Ptr 0 512) 0 = Some 0
   \<and> map_option fst mirror_created = Some 0
   \<and> rd_int mirror_volume (ptr_add (Ptr 0 512) off_nlinks) = Some 2
   \<and> used_entries mirror_volume (Ptr 0 512) 0 = Some 1
   \<and> map_option fst mirror_removed = Some 0
   \<and> rd_int (volume_after mirror_removed) (ptr_add (Ptr 0 512) off_nlinks) = Some 2
   \<and> used_entries (volume_after mirror_removed) (Ptr 0 512) 0 = Some 0
   \<and> rd_int (volume_after mirror_removed) (ptr_add (Ptr 1 512) off_nlinks) = Some 2
   \<and> used_entries (volume_after mirror_removed) (Ptr 1 512) 1 = Some 0"
  by (simp add: session_simps run_simps count_simps cong: weak_congs)

section \<open>Writing\<close>

text \<open>
  Claim C5 on the mirrored volume with the empty file \<open>/a\<close>, of 32 data blocks with one taken by
  the root directory: 31 blocks of data are written in one call. 7 direct blocks, the indirect
  block and 23 more blocks fill the volume (the data bitmap of disk 0 is all ones) and hold
  the first 30 blocks of the data, up to the byte at 33279. For the 31st block \<open>allocate_block\<close>
  returns 0 and the resolver \<open>NULL\<close>; \<open>wfs_write\<close> returns the global \<open>error_code\<close>, which nothing
  has set: the result is 0, neither the 15360 bytes written nor \<open>-ENOSPC\<close>. The size of the
  file is not updated and remains 0, and disk 1 has not been written at all.
\<close>

theorem full_volume_write_returns_zero:
  "rd_off mirror_volume (ptr_add (Ptr 0 1024) off_size) = Some 0
   \<and> map_option fst mirror_filled = Some 0
   \<and> error_code (volume_after mirror_filled) = 0
   \<and> rd_int (volume_after mirror_filled) (Ptr 0 68) = Some (- 1)
   \<and> rd_bytes (volume_after mirror_filled) (Ptr 0 17408) 2 = Some [1, 1]
   \<and> rd_bytes (volume_after mirror_filled) (Ptr 0 32768) 2 = Some [1, 1]
   \<and> rd_bytes (volume_after mirror_filled) (Ptr 0 33279) 1 = Some [1]
   \<and> rd_off (volume_after mirror_filled) (ptr_add (Ptr 0 1024) off_size) = Some 0
   \<and> rd_off (volume_after mirror_filled) (ptr_add (Ptr 1 1024) off_size) = Some 0
   \<and> rd_int (volume_after mirror_filled) (Ptr 1 68) = Some 1"
  by (simp add: session_simps run_simps cong: weak_congs)

section \<open>Reading with a vote\<close>











end
